theory Spec2Isabelle
  imports Main "HOL-Library.Word"
begin

section \<open>Wire-format constants (dcpdefs.h)\<close>

text \<open>The macros of \<^verbatim>\<open>dcpdefs.h\<close>, one definition per \<^verbatim>\<open>#define\<close>.\<close>

definition DCPSYNC_HEADER_SIZE :: nat where
  "DCPSYNC_HEADER_SIZE = 6"

definition DCPSYNC_SLAVE_SERIAL_INVALID :: nat where
  "DCPSYNC_SLAVE_SERIAL_INVALID = 0x0000"

definition DCPSYNC_SLAVE_SERIAL_MIN :: nat where
  "DCPSYNC_SLAVE_SERIAL_MIN = 0x0001"

definition DCPSYNC_SLAVE_SERIAL_MAX :: nat where
  "DCPSYNC_SLAVE_SERIAL_MAX = 0x7fff"

definition DCPSYNC_MASTER_SERIAL_INVALID :: nat where
  "DCPSYNC_MASTER_SERIAL_INVALID = 0x8000"

definition DCPSYNC_MASTER_SERIAL_MIN :: nat where
  "DCPSYNC_MASTER_SERIAL_MIN = 0x8001"

definition DCPSYNC_MASTER_SERIAL_MAX :: nat where
  "DCPSYNC_MASTER_SERIAL_MAX = 0xffff"

definition DCP_HEADER_SIZE :: nat where
  "DCP_HEADER_SIZE = 4"

definition DCP_PAYLOAD_MAXSIZE :: nat where
  "DCP_PAYLOAD_MAXSIZE = 256"

definition DCP_COMMAND_WRITE_REGISTER :: nat where
  "DCP_COMMAND_WRITE_REGISTER = 0"

definition DCP_COMMAND_READ_REGISTER :: nat where
  "DCP_COMMAND_READ_REGISTER = 1"

definition DCP_COMMAND_MULTI_WRITE_REGISTER :: nat where
  "DCP_COMMAND_MULTI_WRITE_REGISTER = 2"

definition DCP_COMMAND_MULTI_READ_REGISTER :: nat where
  "DCP_COMMAND_MULTI_READ_REGISTER = 3"

definition DCP_ESCAPE_CHARACTER :: nat where
  "DCP_ESCAPE_CHARACTER = 0x27"

section \<open>Data of dcpspi.c\<close>

type_synonym uint8_t = "8 word"
type_synonym uint32_t = "32 word"

text \<open>\<^verbatim>\<open>unsigned int\<close> has 32 bits on every Linux ABI the daemon is built for.\<close>

type_synonym c_uint = "32 word"

definition UINT32_MAX :: nat where
  "UINT32_MAX = 4294967295"

definition UINT_MAX :: nat where
  "UINT_MAX = 4294967295"

definition EXIT_SUCCESS :: int where
  "EXIT_SUCCESS = 0"

definition EXIT_FAILURE :: int where
  "EXIT_FAILURE = 1"

text \<open>\<^verbatim>\<open>struct parameters\<close>. A C string is the list of its characters up to, and
  without, the terminating NUL.\<close>

record parameters =
  fifo_in_name :: string
  fifo_out_name :: string
  spidev_name :: string
  spi_clock :: uint32_t
  gpio_num :: c_uint
  run_in_foreground :: bool
  gpio_needs_debouncing :: bool
  dummy_mode :: bool

text \<open>\<^verbatim>\<open>struct gpio_handle *\<close> is an opaque pointer: a non-NULL pointer is
  \<open>Some\<close> of the object's identity, NULL is \<open>None\<close>.\<close>

datatype gpio_handle = Gpio_handle nat

text \<open>The four locals of \<^verbatim>\<open>main\<close> that \<^verbatim>\<open>setup\<close> fills in through pointers.\<close>

record handles =
  fifo_in_fd :: int
  fifo_out_fd :: int
  spi_fd :: int
  gpio :: "gpio_handle option"

text \<open>The declarations of \<^verbatim>\<open>struct dcp_transaction\<close> and of its buffers are in
  \<^verbatim>\<open>dcpspi_process.h\<close>, which is not among the sources. The records keep the fields
  that \<^verbatim>\<open>main_loop\<close> names (\<^verbatim>\<open>dcp_buffer\<close>, \<^verbatim>\<open>spi_buffer\<close>, \<^verbatim>\<open>buffer\<close>, \<^verbatim>\<open>size\<close>);
  \<open>pos\<close> stands for the fill level of a buffer, which the designated initializer
  leaves zero.\<close>

record dynamic_buffer =
  buffer :: "uint8_t list"
  size' :: nat
  pos :: nat

record dcp_transaction =
  dcp_buffer :: dynamic_buffer
  spi_buffer :: dynamic_buffer

text \<open>\<^verbatim>\<open>struct slave_request_and_lock_data\<close>, with the four fields that
  \<^verbatim>\<open>main_loop\<close> initializes.\<close>

record slave_request_and_lock_data =
  rl_gpio :: "gpio_handle option"
  gpio_fd :: int
  is_running_for_real :: bool
  previous_gpio_state :: bool

section \<open>The outside world\<close>

datatype signal = SIGINT | SIGTERM

datatype sa_flag = SA_SIGINFO | SA_RESETHAND

text \<open>The program has one handler function, so a function pointer is its name.\<close>

datatype handler = Signal_handler

record sigaction =
  sa_sigaction :: handler
  sa_flags :: "sa_flag list"
  sa_mask :: "signal list"

datatype disposition = SIG_DFL | Installed sigaction

text \<open>Every call that leaves the translation unit is an event, with the arguments it
  was given and, where it has one, the result it returned. Reading the
  \<^verbatim>\<open>volatile\<close> flag is an observable access and is an event too.\<close>

datatype call =
    Msg_enable_syslog bool
  | Openlog string
  | Daemon int
  | Msg_error string
  | Msg_info string
  | Log_version_info
  | Fifo_create_and_open string bool int
  | Spi_open_device string int
  | Gpio_open c_uint bool "gpio_handle option"
  | Gpio_enable_debouncing "gpio_handle option"
  | Spi_set_speed_hz uint32_t
  | Spi_close_device int
  | Fifo_close_and_delete int string
  | Gpio_close "gpio_handle option"
  | Printf string
  | Printf_version_info
  | Fprintf_stderr string
  | Sigemptyset
  | Sigaction signal sigaction
  | Reset_transaction_struct bool
  | Gpio_get_poll_fd gpio_handle int
  | Gpio_is_active gpio_handle bool
  | Read_keep_running bool
  | Dcpspi_process int int int dcp_transaction slave_request_and_lock_data bool

text \<open>The state outside the locals: the global \<^verbatim>\<open>keep_running\<close>, whether
  \<^verbatim>\<open>errno\<close> holds \<^verbatim>\<open>ERANGE\<close>, the operating system's dispositions of the two
  signals, and the calls made so far, oldest first.\<close>

record world =
  keep_running :: bool
  errno_ERANGE :: bool
  disposition_SIGINT :: disposition
  disposition_SIGTERM :: disposition
  calls :: "call list"

text \<open>At program start: \<^verbatim>\<open>keep_running\<close> is initialized to true, \<^verbatim>\<open>errno\<close> is zero
  and both signals have their default action.\<close>

definition world0 :: world where
  "world0 = \<lparr>keep_running = True, errno_ERANGE = False,
     disposition_SIGINT = SIG_DFL, disposition_SIGTERM = SIG_DFL, calls = []\<rparr>"

definition emit :: "call \<Rightarrow> world \<Rightarrow> world" where
  "emit c w = w\<lparr>calls := calls w @ [c]\<rparr>"

text \<open>What the source leaves open is a parameter: the width of \<^verbatim>\<open>unsigned long\<close>,
  the indeterminate initial values of the locals of \<^verbatim>\<open>main\<close>, and the results of
  the functions of the other translation units (\<^verbatim>\<open>named_pipe.c\<close>, \<^verbatim>\<open>spi.c\<close>,
  \<^verbatim>\<open>gpio.c\<close>, \<^verbatim>\<open>dcpspi_process.c\<close>) and of \<^verbatim>\<open>daemon(3)\<close>.
  \<^verbatim>\<open>dcpspi_process\<close> is called many times; its first argument here is the number of
  the call, which stands for what the pipes, the bus and the request pin deliver
  at that time.\<close>

record env =
  ulong_max :: nat
  locals0 :: handles
  daemon :: int
  fifo_create_and_open :: "string \<Rightarrow> bool \<Rightarrow> int"
  spi_open_device :: "string \<Rightarrow> int"
  gpio_open :: "c_uint \<Rightarrow> bool \<Rightarrow> gpio_handle option"
  gpio_get_poll_fd :: "gpio_handle \<Rightarrow> int"
  gpio_is_active :: "gpio_handle \<Rightarrow> bool"
  reset_transaction_struct :: "dcp_transaction \<Rightarrow> bool \<Rightarrow> dcp_transaction"
  dcpspi_process :: "nat \<Rightarrow> int \<Rightarrow> int \<Rightarrow> int \<Rightarrow> dcp_transaction \<Rightarrow>
    slave_request_and_lock_data \<Rightarrow> bool \<times> dcp_transaction \<times> slave_request_and_lock_data"

section \<open>The C library\<close>

text \<open>\<^verbatim>\<open>strtoul\<close> is the C library's, not the repository's; it is written out after
  ISO C 7.22.1.4 for base 10: white space is skipped, a sign is optional, the longest
  run of digits is converted; without a digit nothing is converted, zero is returned
  and \<^verbatim>\<open>endptr\<close> is \<^verbatim>\<open>nptr\<close>; a value above \<^verbatim>\<open>ULONG_MAX\<close> gives \<^verbatim>\<open>ULONG_MAX\<close>
  and sets \<^verbatim>\<open>errno\<close> to \<^verbatim>\<open>ERANGE\<close>; a minus sign negates the value in the unsigned
  type. The result is the value, the rest of the string that \<^verbatim>\<open>endptr\<close> points to,
  and whether \<^verbatim>\<open>errno\<close> is \<^verbatim>\<open>ERANGE\<close> afterwards.\<close>

definition isspace :: "char \<Rightarrow> bool" where
  "isspace c = (c = CHR '' '' \<or> c = CHR 0x09 \<or> c = CHR 0x0A \<or> c = CHR 0x0B
     \<or> c = CHR 0x0C \<or> c = CHR 0x0D)"

definition isdigit :: "char \<Rightarrow> bool" where
  "isdigit c = (48 \<le> (of_char c :: nat) \<and> (of_char c :: nat) \<le> 57)"

fun decimal :: "nat \<Rightarrow> string \<Rightarrow> nat" where
  "decimal acc [] = acc"
| "decimal acc (c # cs) = decimal (acc * 10 + ((of_char c :: nat) - 48)) cs"

definition strtoul :: "nat \<Rightarrow> string \<Rightarrow> bool \<Rightarrow> nat \<times> string \<times> bool" where
  "strtoul ulmax nptr erange =
     (let s = dropWhile isspace nptr;
          negative = (case s of [] \<Rightarrow> False | c # _ \<Rightarrow> c = CHR ''-'');
          t = (case s of [] \<Rightarrow> s | c # cs \<Rightarrow> if c = CHR ''-'' \<or> c = CHR ''+'' then cs else s);
          digits = takeWhile isdigit t;
          v = decimal 0 digits
      in if digits = [] then (0, nptr, erange)
         else if v > ulmax then (ulmax, dropWhile isdigit t, True)
         else (if negative then (ulmax + 1 - v) mod (ulmax + 1) else v,
               dropWhile isdigit t, erange))"

text \<open>\<^verbatim>\<open>s[i]\<close> for a C string: past the last character stands the terminating NUL.\<close>

definition char_at :: "string \<Rightarrow> nat \<Rightarrow> char" where
  "char_at s i = (if i < length s then s ! i else CHR 0x00)"

section \<open>process\_command\_line\<close>

definition CHECK_ARGUMENT_failed :: "string \<Rightarrow> world \<Rightarrow> world" where
  "CHECK_ARGUMENT_failed opt w =
     emit (Fprintf_stderr (''Option '' @ opt @ '' requires an argument.'' @ [CHR 0x0A])) w"

definition invalid_value :: "string \<Rightarrow> world \<Rightarrow> world" where
  "invalid_value v w =
     emit (Fprintf_stderr (''Invalid value '' @ [CHR 0x22] @ v @ [CHR 0x22]
       @ ''. Please try --help.'' @ [CHR 0x0A])) w"

definition unknown_option :: "string \<Rightarrow> world \<Rightarrow> world" where
  "unknown_option a w =
     emit (Fprintf_stderr (''Unknown option '' @ [CHR 0x22] @ a @ [CHR 0x22]
       @ ''. Please try --help.'' @ [CHR 0x0A])) w"

text \<open>The \<^verbatim>\<open>for\<close> loop over \<^verbatim>\<open>argv[i]\<close>, \<^verbatim>\<open>i = 1 .. argc - 1\<close>, as a recursion over
  the arguments not yet read. \<open>Some r\<close> is a \<^verbatim>\<open>return r\<close> from inside the loop,
  \<open>None\<close> is the loop running to its end. \<^verbatim>\<open>CHECK_ARGUMENT\<close> is the case
  distinction on the rest: with no argument left it prints and returns -1, otherwise
  \<^verbatim>\<open>++i\<close> makes the next argument \<^verbatim>\<open>argv[i]\<close>.\<close>

fun process_arguments ::
  "env \<Rightarrow> string list \<Rightarrow> parameters \<Rightarrow> world \<Rightarrow> int option \<times> parameters \<times> world" where
  "process_arguments e [] p w = (None, p, w)"
| "process_arguments e (a # rest) p w =
     (if a = ''--help'' then (Some 1, p, w)
      else if a = ''--version'' then (Some 2, p, w)
      else if a = ''--fg'' then process_arguments e rest (p\<lparr>run_in_foreground := True\<rparr>) w
      else if a = ''--ififo'' then
        (case rest of
           [] \<Rightarrow> (Some (- 1), p, CHECK_ARGUMENT_failed a w)
         | v # rest' \<Rightarrow> process_arguments e rest' (p\<lparr>fifo_in_name := v\<rparr>) w)
      else if a = ''--ofifo'' then
        (case rest of
           [] \<Rightarrow> (Some (- 1), p, CHECK_ARGUMENT_failed a w)
         | v # rest' \<Rightarrow> process_arguments e rest' (p\<lparr>fifo_out_name := v\<rparr>) w)
      else if a = ''--spidev'' then
        (case rest of
           [] \<Rightarrow> (Some (- 1), p, CHECK_ARGUMENT_failed a w)
         | v # rest' \<Rightarrow> process_arguments e rest' (p\<lparr>spidev_name := v\<rparr>) w)
      else if a = ''--spiclk'' then
        (case rest of
           [] \<Rightarrow> (Some (- 1), p, CHECK_ARGUMENT_failed a w)
         | v # rest' \<Rightarrow>
             (case strtoul (ulong_max e) v (errno_ERANGE w) of
                (temp, endptr, erange) \<Rightarrow>
                  if char_at endptr 0 \<noteq> CHR 0x00 \<or> temp > UINT32_MAX
                     \<or> (temp = ulong_max e \<and> erange)
                  then (Some (- 1), p, invalid_value v (w\<lparr>errno_ERANGE := erange\<rparr>))
                  else process_arguments e rest' (p\<lparr>spi_clock := of_nat temp\<rparr>)
                         (w\<lparr>errno_ERANGE := erange\<rparr>)))
      else if a = ''--gpio'' then
        (case rest of
           [] \<Rightarrow> (Some (- 1), p, CHECK_ARGUMENT_failed a w)
         | v # rest' \<Rightarrow>
             (case strtoul (ulong_max e) v (errno_ERANGE w) of
                (temp, endptr, erange) \<Rightarrow>
                  if char_at endptr 0 \<noteq> CHR 0x00 \<or> temp > UINT_MAX
                     \<or> (temp = ulong_max e \<and> erange)
                  then (Some (- 1), p, invalid_value v (w\<lparr>errno_ERANGE := erange\<rparr>))
                  else process_arguments e rest' (p\<lparr>gpio_num := of_nat temp\<rparr>)
                         (w\<lparr>errno_ERANGE := erange\<rparr>)))
      else if a = ''--debounce'' then
        process_arguments e rest (p\<lparr>gpio_needs_debouncing := True\<rparr>) w
      else (Some (- 1), p, unknown_option a w))"

text \<open>The eight assignments at the head of \<^verbatim>\<open>process_command_line\<close>.\<close>

definition default_parameters :: parameters where
  "default_parameters =
     \<lparr>fifo_in_name = ''/tmp/dcp_to_spi'', fifo_out_name = ''/tmp/spi_to_dcp'',
      spidev_name = ''/dev/spidev0.0'', spi_clock = 0, gpio_num = 4,
      run_in_foreground = False, gpio_needs_debouncing = False, dummy_mode = False\<rparr>"

text \<open>\<^verbatim>\<open>argv\<close> is the whole vector, \<^verbatim>\<open>argv[0]\<close> included; the loop starts at index 1.\<close>

definition process_command_line ::
  "env \<Rightarrow> string list \<Rightarrow> world \<Rightarrow> int \<times> parameters \<times> world" where
  "process_command_line e argv w =
     (case process_arguments e (drop 1 argv) default_parameters w of
        (Some r, p, w') \<Rightarrow> (r, p, w')
      | (None, p, w') \<Rightarrow>
          (0,
           if char_at (spidev_name p) 0 = CHR ''-'' \<and> char_at (spidev_name p) 1 = CHR 0x00
           then p\<lparr>dummy_mode := True\<rparr> else p,
           w'))"

section \<open>Version banner and usage\<close>

text \<open>The banner is built from \<^verbatim>\<open>PACKAGE_STRING\<close> and the \<^verbatim>\<open>VCS_*\<close> macros of
  \<^verbatim>\<open>config.h\<close> and \<^verbatim>\<open>versioninfo.h\<close>, which are generated at build time; the two
  functions are the events of printing and of logging it.\<close>

definition show_version_info :: "world \<Rightarrow> world" where
  "show_version_info w = emit Printf_version_info w"

definition log_version_info :: "world \<Rightarrow> world" where
  "log_version_info w = emit Log_version_info w"

definition usage_text :: "string \<Rightarrow> string" where
  "usage_text program_name =
     ''Usage: '' @ program_name @ '' --fifo name --spidev name --irq gpio'' @ [CHR 0x0A]
     @ [CHR 0x0A]
     @ ''Options:'' @ [CHR 0x0A]
     @ ''  --help         Show this help.'' @ [CHR 0x0A]
     @ ''  --version      Print version information to stdout.'' @ [CHR 0x0A]
     @ ''  --fg           Run in foreground, don'' @ [CHR 0x27] @ ''t run as daemon.'' @ [CHR 0x0A]
     @ ''  --ififo name   Name of the named pipe the DCP daemon writes to.'' @ [CHR 0x0A]
     @ ''  --ofifo name   Name of the named pipe the DCP daemon reads from.'' @ [CHR 0x0A]
     @ ''  --spidev name  Name of the SPI device.'' @ [CHR 0x0A]
     @ ''  --spiclk hz    Clock frequency on SPI bus.'' @ [CHR 0x0A]
     @ ''  --gpio num     Number of the slave request pin.'' @ [CHR 0x0A]
     @ ''  --debounce     Enable software debouncing of request pin.'' @ [CHR 0x0A]"

definition usage :: "string \<Rightarrow> world \<Rightarrow> world" where
  "usage program_name w = emit (Printf (usage_text program_name)) w"

section \<open>Opening the devices\<close>

text \<open>The three error labels of \<^verbatim>\<open>setup\<close>; each falls through into the next.
  \<^verbatim>\<open>fifo_close_and_delete\<close> takes the address of the descriptor; what it stores
  there is never read again in this file.\<close>

definition error_fifo_out :: "parameters \<Rightarrow> handles \<Rightarrow> world \<Rightarrow> int \<times> handles \<times> world" where
  "error_fifo_out p h w =
     (- 1, h, emit (Fifo_close_and_delete (fifo_in_fd h) (fifo_in_name p)) w)"

definition error_spi_open :: "parameters \<Rightarrow> handles \<Rightarrow> world \<Rightarrow> int \<times> handles \<times> world" where
  "error_spi_open p h w =
     error_fifo_out p h (emit (Fifo_close_and_delete (fifo_out_fd h) (fifo_out_name p)) w)"

definition error_gpio_open :: "parameters \<Rightarrow> handles \<Rightarrow> world \<Rightarrow> int \<times> handles \<times> world" where
  "error_gpio_open p h w = error_spi_open p h (emit (Spi_close_device (spi_fd h)) w)"

text \<open>\<^verbatim>\<open>setup\<close> from the devices on: both pipes, then, outside dummy mode, the SPI
  device and the GPIO.\<close>

definition setup_devices :: "env \<Rightarrow> parameters \<Rightarrow> handles \<Rightarrow> world \<Rightarrow> int \<times> handles \<times> world" where
  "setup_devices e p h w =
     (let fin = fifo_create_and_open e (fifo_in_name p) False;
          h1 = h\<lparr>fifo_in_fd := fin\<rparr>;
          w1 = emit (Fifo_create_and_open (fifo_in_name p) False fin) w
      in if fin < 0 then (- 1, h1, w1)
         else
           let fout = fifo_create_and_open e (fifo_out_name p) True;
               h2 = h1\<lparr>fifo_out_fd := fout\<rparr>;
               w2 = emit (Fifo_create_and_open (fifo_out_name p) True fout) w1
           in if fout < 0 then error_fifo_out p h2 w2
              else if dummy_mode p then (0, h2\<lparr>spi_fd := - 1, gpio := None\<rparr>, w2)
              else
                let sfd = spi_open_device e (spidev_name p);
                    h3 = h2\<lparr>spi_fd := sfd\<rparr>;
                    w3 = emit (Spi_open_device (spidev_name p) sfd) w2
                in if sfd < 0 then error_spi_open p h3 w3
                   else
                     let g = gpio_open e (gpio_num p) False;
                         h4 = h3\<lparr>gpio := g\<rparr>;
                         w4 = emit (Gpio_open (gpio_num p) False g) w3
                     in if g = None then error_gpio_open p h4 w4
                        else
                          let w5 = (if gpio_needs_debouncing p
                                    then emit (Gpio_enable_debouncing g) w4 else w4);
                              w6 = emit (Spi_set_speed_hz (spi_clock p)) w5
                          in (0, h4, w6))"

definition setup' :: "env \<Rightarrow> parameters \<Rightarrow> handles \<Rightarrow> world \<Rightarrow> int \<times> handles \<times> world" where
  "setup' e p h w =
     (let w1 = emit (Msg_enable_syslog (\<not> run_in_foreground p)) w;
          w2 = (if \<not> run_in_foreground p then emit (Openlog ''dcpspi'') w1 else w1)
      in if \<not> run_in_foreground p \<and> daemon e < 0
         then (- 1, h, emit (Msg_error ''Failed to run as daemon'') (emit (Daemon (daemon e)) w2))
         else
           let w3 = (if \<not> run_in_foreground p then emit (Daemon (daemon e)) w2 else w2)
           in setup_devices e p h (log_version_info w3))"

section \<open>Signals\<close>

text \<open>The handler ignores its three arguments.\<close>

definition signal_handler :: "signal \<Rightarrow> world \<Rightarrow> world" where
  "signal_handler signum w = w\<lparr>keep_running := False\<rparr>"

definition run_handler :: "handler \<Rightarrow> signal \<Rightarrow> world \<Rightarrow> world" where
  "run_handler f signum w = (case f of Signal_handler \<Rightarrow> signal_handler signum w)"

definition disposition_of :: "signal \<Rightarrow> world \<Rightarrow> disposition" where
  "disposition_of sg w = (case sg of SIGINT \<Rightarrow> disposition_SIGINT w | SIGTERM \<Rightarrow> disposition_SIGTERM w)"

definition set_disposition :: "signal \<Rightarrow> disposition \<Rightarrow> world \<Rightarrow> world" where
  "set_disposition sg d w =
     (case sg of SIGINT \<Rightarrow> w\<lparr>disposition_SIGINT := d\<rparr> | SIGTERM \<Rightarrow> w\<lparr>disposition_SIGTERM := d\<rparr>)"

text \<open>The operating system's side, after POSIX \<^verbatim>\<open>sigaction(2)\<close>: the call installs
  the action; a signal whose action is the default ends the process (the default
  action of both \<^verbatim>\<open>SIGINT\<close> and \<^verbatim>\<open>SIGTERM\<close>), which is \<open>None\<close>; a signal with an
  installed action runs the handler, and with \<^verbatim>\<open>SA_RESETHAND\<close> the action is reset to
  the default on entry to the handler.\<close>

definition sigaction :: "signal \<Rightarrow> sigaction \<Rightarrow> world \<Rightarrow> world" where
  "sigaction sg act w = emit (Sigaction sg act) (set_disposition sg (Installed act) w)"

definition deliver :: "signal \<Rightarrow> world \<Rightarrow> world option" where
  "deliver sg w =
     (case disposition_of sg w of
        SIG_DFL \<Rightarrow> None
      | Installed act \<Rightarrow>
          Some (run_handler (sa_sigaction act) sg
                  (if SA_RESETHAND \<in> set (sa_flags act) then set_disposition sg SIG_DFL w else w)))"

text \<open>Several signals in the order of their delivery; the first one that ends the
  process is returned with the state it found.\<close>

fun deliver_all :: "signal list \<Rightarrow> world \<Rightarrow> signal option \<times> world" where
  "deliver_all [] w = (None, w)"
| "deliver_all (sg # sgs) w =
     (case deliver sg w of None \<Rightarrow> (Some sg, w) | Some w' \<Rightarrow> deliver_all sgs w')"

section \<open>main\_loop\<close>

text \<open>How a run ends: the function returns, a signal with the default action ends
  the process, or the schedule of the outside world is used up with the loop still
  turning.\<close>

datatype 'a run = Done 'a | Killed signal | Running

definition dcp_backing_buffer :: "uint8_t list" where
  "dcp_backing_buffer = replicate (DCPSYNC_HEADER_SIZE + DCP_HEADER_SIZE + DCP_PAYLOAD_MAXSIZE) 0"

definition spi_backing_buffer :: "uint8_t list" where
  "spi_backing_buffer = replicate ((DCP_HEADER_SIZE + DCP_PAYLOAD_MAXSIZE) * 2) 0"

text \<open>\<^verbatim>\<open>sizeof\<close> of an array of \<^verbatim>\<open>uint8_t\<close> is its number of elements.\<close>

definition sizeof :: "uint8_t list \<Rightarrow> nat" where
  "sizeof a = length a"

text \<open>The loop \<^verbatim>\<open>while(keep_running && dcpspi_process(...))\<close> with its empty body.
  The schedule lists, for each evaluation of the condition, the signals delivered
  since the previous one (for the first: since the handlers were installed). The
  handler has run by the time the flag is read; \<^verbatim>\<open>&&\<close> does not call
  \<^verbatim>\<open>dcpspi_process\<close> when the flag is false.\<close>

fun main_loop_while ::
  "env \<Rightarrow> signal list list \<Rightarrow> nat \<Rightarrow> int \<Rightarrow> int \<Rightarrow> int \<Rightarrow> dcp_transaction \<Rightarrow>
   slave_request_and_lock_data \<Rightarrow> world \<Rightarrow> unit run \<times> world" where
  "main_loop_while e [] n fifo_in fifo_out spi t r w = (Running, w)"
| "main_loop_while e (arrived # later) n fifo_in fifo_out spi t r w =
     (case deliver_all arrived w of
        (Some sg, w1) \<Rightarrow> (Killed sg, w1)
      | (None, w1) \<Rightarrow>
          if \<not> keep_running w1 then (Done (), emit (Read_keep_running False) w1)
          else
            (case dcpspi_process e n fifo_in fifo_out spi t r of
               (ret, t', r') \<Rightarrow>
                 let w2 = emit (Dcpspi_process fifo_in fifo_out spi t r ret)
                            (emit (Read_keep_running True) w1)
                 in if ret then main_loop_while e later (Suc n) fifo_in fifo_out spi t' r' w2
                    else (Done (), w2)))"

definition main_loop ::
  "env \<Rightarrow> signal list list \<Rightarrow> int \<Rightarrow> int \<Rightarrow> int \<Rightarrow> gpio_handle option \<Rightarrow> world \<Rightarrow>
   unit run \<times> world" where
  "main_loop e schedule fifo_in fifo_out spi g w =
     (let w1 = emit (Msg_info ''Accepting traffic'') w;
          transaction =
            \<lparr>dcp_buffer = \<lparr>buffer = dcp_backing_buffer, size' = sizeof dcp_backing_buffer, pos = 0\<rparr>,
             spi_buffer = \<lparr>buffer = spi_backing_buffer, size' = sizeof spi_backing_buffer, pos = 0\<rparr>\<rparr>;
          transaction1 = reset_transaction_struct e transaction True;
          w2 = emit (Reset_transaction_struct True) w1;
          rldata =
            \<lparr>rl_gpio = g,
             gpio_fd = (case g of None \<Rightarrow> - 1 | Some gh \<Rightarrow> gpio_get_poll_fd e gh),
             is_running_for_real = (g \<noteq> None),
             previous_gpio_state = (case g of None \<Rightarrow> False | Some gh \<Rightarrow> gpio_is_active e gh)\<rparr>;
          w3 = (case g of
                  None \<Rightarrow> w2
                | Some gh \<Rightarrow>
                    emit (Gpio_is_active gh (gpio_is_active e gh))
                      (emit (Gpio_get_poll_fd gh (gpio_get_poll_fd e gh)) w2))
      in main_loop_while e schedule 0 fifo_in fifo_out spi transaction1 rldata w3)"

section \<open>main\<close>

definition action :: sigaction where
  "action = \<lparr>sa_sigaction = Signal_handler, sa_flags = [SA_SIGINFO, SA_RESETHAND], sa_mask = []\<rparr>"

text \<open>What follows \<^verbatim>\<open>main_loop\<close> in \<^verbatim>\<open>main\<close>.\<close>

definition shutdown :: "parameters \<Rightarrow> handles \<Rightarrow> world \<Rightarrow> world" where
  "shutdown p h w =
     (let w1 = emit (Msg_info ''Terminated, shutting down'') w;
          w2 = (if \<not> dummy_mode p then emit (Spi_close_device (spi_fd h)) w1 else w1);
          w3 = emit (Fifo_close_and_delete (fifo_in_fd h) (fifo_in_name p)) w2;
          w4 = emit (Fifo_close_and_delete (fifo_out_fd h) (fifo_out_name p)) w3
      in if \<not> dummy_mode p then emit (Gpio_close (gpio h)) w4 else w4)"

text \<open>\<^verbatim>\<open>main\<close> after the command line has been read successfully.\<close>

definition run_daemon :: "env \<Rightarrow> signal list list \<Rightarrow> parameters \<Rightarrow> world \<Rightarrow> int run \<times> world" where
  "run_daemon e schedule p w =
     (case setup' e p (locals0 e) w of
        (sret, h, w1) \<Rightarrow>
          if sret < 0 then (Done EXIT_FAILURE, w1)
          else
            let w2 = emit Sigemptyset w1;
                w3 = sigaction SIGINT action w2;
                w4 = sigaction SIGTERM action w3
            in (case main_loop e schedule (fifo_in_fd h) (fifo_out_fd h) (spi_fd h) (gpio h) w4 of
                  (Done u, w5) \<Rightarrow> (Done EXIT_SUCCESS, shutdown p h w5)
                | (Killed sg, w5) \<Rightarrow> (Killed sg, w5)
                | (Running, w5) \<Rightarrow> (Running, w5)))"

text \<open>\<^verbatim>\<open>argv[0]\<close> is read only for the usage text, which needs an argument at index
  1 or later; the first case is never reached.\<close>

definition main :: "env \<Rightarrow> signal list list \<Rightarrow> string list \<Rightarrow> int run \<times> world" where
  "main e schedule argv =
     (case process_command_line e argv world0 of
        (ret, p, w) \<Rightarrow>
          if ret = - 1 then (Done EXIT_FAILURE, w)
          else if ret = 1 then
            (Done EXIT_SUCCESS, usage (case argv of [] \<Rightarrow> [] | a # _ \<Rightarrow> a) w)
          else if ret = 2 then (Done EXIT_SUCCESS, show_version_info w)
          else run_daemon e schedule p w)"

section \<open>Notions used in the statements\<close>

text \<open>The nine strings that \<^verbatim>\<open>process_command_line\<close> compares an argument with, and
  the five of them that take a value.\<close>

definition option_names :: "string list" where
  "option_names = [''--help'', ''--version'', ''--fg'', ''--ififo'', ''--ofifo'', ''--spidev'',
     ''--spiclk'', ''--gpio'', ''--debounce'']"

definition value_options :: "string list" where
  "value_options = [''--ififo'', ''--ofifo'', ''--spidev'', ''--spiclk'', ''--gpio'']"

text \<open>A decimal numeral: one digit or more and nothing else.\<close>

definition decimal_numeral :: "string \<Rightarrow> bool" where
  "decimal_numeral v = (v \<noteq> [] \<and> list_all isdigit v)"

text \<open>The calls that open or close a device or a pipe.\<close>

fun resource_call :: "call \<Rightarrow> bool" where
  "resource_call (Fifo_create_and_open n wr fd) = True"
| "resource_call (Spi_open_device n fd) = True"
| "resource_call (Gpio_open n b g) = True"
| "resource_call (Spi_close_device fd) = True"
| "resource_call (Fifo_close_and_delete fd n) = True"
| "resource_call (Gpio_close g) = True"
| "resource_call c = False"

text \<open>The calls that only \<^verbatim>\<open>main_loop\<close> makes.\<close>

fun loop_call :: "call \<Rightarrow> bool" where
  "loop_call (Msg_info s) = (s = ''Accepting traffic'')"
| "loop_call (Reset_transaction_struct b) = True"
| "loop_call (Gpio_get_poll_fd g fd) = True"
| "loop_call (Gpio_is_active g b) = True"
| "loop_call (Read_keep_running b) = True"
| "loop_call (Dcpspi_process fi fo sp t r ret) = True"
| "loop_call c = False"

text \<open>The handles a sequence of calls leaves open: a successful open adds its handle,
  a close takes one copy of it away.\<close>

datatype resource = Fifo int | Spi int | Gpio gpio_handle

fun account :: "resource list \<Rightarrow> call \<Rightarrow> resource list" where
  "account rs (Fifo_create_and_open n wr fd) = (if 0 \<le> fd then Fifo fd # rs else rs)"
| "account rs (Spi_open_device n fd) = (if 0 \<le> fd then Spi fd # rs else rs)"
| "account rs (Gpio_open n b g) = (case g of None \<Rightarrow> rs | Some gh \<Rightarrow> Gpio gh # rs)"
| "account rs (Spi_close_device fd) = remove1 (Spi fd) rs"
| "account rs (Fifo_close_and_delete fd n) = remove1 (Fifo fd) rs"
| "account rs (Gpio_close g) = (case g of None \<Rightarrow> rs | Some gh \<Rightarrow> remove1 (Gpio gh) rs)"
| "account rs c = rs"

definition held :: "call list \<Rightarrow> resource list" where
  "held cs = foldl account [] cs"

text \<open>What the loop adds to the calls when it returns: each turn reads the flag once
  and then, the flag being true, makes one step; the last turn either reads the flag
  as false and makes no step, or makes a step that returns false.\<close>

fun loop_trace_returned :: "call list \<Rightarrow> bool" where
  "loop_trace_returned [Read_keep_running b] = (\<not> b)"
| "loop_trace_returned (Read_keep_running b # Dcpspi_process fi fo sp t r ret # cs) =
     (b \<and> (if ret then loop_trace_returned cs else cs = []))"
| "loop_trace_returned cs = False"

text \<open>What it has added while it is still turning, or when the process was ended:
  whole turns only, each a read of a true flag and a step that returned true.\<close>

fun loop_trace_turning :: "call list \<Rightarrow> bool" where
  "loop_trace_turning [] = True"
| "loop_trace_turning (Read_keep_running b # Dcpspi_process fi fo sp t r ret # cs) =
     (b \<and> ret \<and> loop_trace_turning cs)"
| "loop_trace_turning cs = False"

text \<open>An outside world for concrete instances: \<^verbatim>\<open>unsigned long\<close> of 64 bits, every call
  succeeds, every step asks to go on.\<close>

definition env_ok :: env where
  "env_ok =
     \<lparr>ulong_max = 18446744073709551615,
      locals0 = \<lparr>fifo_in_fd = 0, fifo_out_fd = 0, spi_fd = 0, gpio = None\<rparr>,
      daemon = 0,
      fifo_create_and_open = (\<lambda>name write. if write then 4 else 3),
      spi_open_device = (\<lambda>name. 5),
      gpio_open = (\<lambda>num active_low. Some (Gpio_handle (unat num))),
      gpio_get_poll_fd = (\<lambda>g. 6),
      gpio_is_active = (\<lambda>g. False),
      reset_transaction_struct =
        (\<lambda>t full. t\<lparr>dcp_buffer := (dcp_buffer t)\<lparr>pos := 0\<rparr>,
                      spi_buffer := (spi_buffer t)\<lparr>pos := 0\<rparr>\<rparr>),
      dcpspi_process = (\<lambda>n fifo_in fifo_out spi t r. (True, t, r))\<rparr>"

text \<open>The state in which \<^verbatim>\<open>main\<close> enters \<^verbatim>\<open>main_loop\<close>, as far as signals go: both
  handlers installed, the flag true.\<close>

definition world_armed :: world where
  "world_armed = sigaction SIGTERM action (sigaction SIGINT action (emit Sigemptyset world0))"

text \<open>The transaction and the request data as \<^verbatim>\<open>main_loop\<close> sets them up in dummy
  mode, before \<^verbatim>\<open>reset_transaction_struct\<close>.\<close>

definition transaction_initial :: dcp_transaction where
  "transaction_initial =
     \<lparr>dcp_buffer = \<lparr>buffer = dcp_backing_buffer, size' = sizeof dcp_backing_buffer, pos = 0\<rparr>,
      spi_buffer = \<lparr>buffer = spi_backing_buffer, size' = sizeof spi_backing_buffer, pos = 0\<rparr>\<rparr>"

definition rldata_dummy :: slave_request_and_lock_data where
  "rldata_dummy =
     \<lparr>rl_gpio = None, gpio_fd = - 1, is_running_for_real = False, previous_gpio_state = False\<rparr>"

text \<open>The same outside world with a step that fails at once.\<close>

definition env_step_fails :: env where
  "env_step_fails = env_ok\<lparr>dcpspi_process := (\<lambda>n fifo_in fifo_out spi t r. (False, t, r))\<rparr>"

text \<open>Outside worlds in which one step of \<^verbatim>\<open>setup\<close> fails.\<close>

definition env_fifo_out_fails :: env where
  "env_fifo_out_fails = env_ok\<lparr>fifo_create_and_open := (\<lambda>name write. if write then - 1 else 3)\<rparr>"

definition env_spi_fails :: env where
  "env_spi_fails = env_ok\<lparr>spi_open_device := (\<lambda>name. - 1)\<rparr>"

definition env_gpio_fails :: env where
  "env_gpio_fails = env_ok\<lparr>gpio_open := (\<lambda>num active_low. None)\<rparr>"

text \<open>The calls that touch the SPI device or the GPIO.\<close>

fun hardware_call :: "call \<Rightarrow> bool" where
  "hardware_call (Spi_open_device n fd) = True"
| "hardware_call (Gpio_open n b g) = True"
| "hardware_call (Gpio_enable_debouncing g) = True"
| "hardware_call (Spi_set_speed_hz hz) = True"
| "hardware_call (Spi_close_device fd) = True"
| "hardware_call (Gpio_close g) = True"
| "hardware_call (Gpio_get_poll_fd g fd) = True"
| "hardware_call (Gpio_is_active g b) = True"
| "hardware_call c = False"

text \<open>The capacity of the two buffers of a transaction: the number of bytes of each
  backing array and the value of each \<^verbatim>\<open>size\<close> field.\<close>

definition capacity :: "dcp_transaction \<Rightarrow> nat \<times> nat \<times> nat \<times> nat" where
  "capacity t =
     (length (buffer (dcp_buffer t)), size' (dcp_buffer t),
      length (buffer (spi_buffer t)), size' (spi_buffer t))"

text \<open>A call of \<^verbatim>\<open>dcpspi_process\<close> is given 266 bytes on the DCP side and 520 bytes on
  the SPI side.\<close>

fun capacities_fixed :: "call \<Rightarrow> bool" where
  "capacities_fixed (Dcpspi_process fi fo sp t r ret) = (capacity t = (266, 266, 520, 520))"
| "capacities_fixed c = True"

text \<open>The transactions that the calls of \<^verbatim>\<open>dcpspi_process\<close> were given, oldest first.\<close>

fun step_transactions :: "call list \<Rightarrow> dcp_transaction list" where
  "step_transactions [] = []"
| "step_transactions (Dcpspi_process fi fo sp t r ret # cs) = t # step_transactions cs"
| "step_transactions (c # cs) = step_transactions cs"

text \<open>\<^verbatim>\<open>main_loop\<close> passes the address of its one transaction to every call of
  \<^verbatim>\<open>dcpspi_process\<close> and does not write to it between two calls: with \<open>t\<close> the
  transaction before call number \<open>n\<close>, that call is given \<open>t\<close>, and each later call
  is given what the call before it left behind.\<close>

fun handed_on :: "env \<Rightarrow> nat \<Rightarrow> dcp_transaction \<Rightarrow> call list \<Rightarrow> bool" where
  "handed_on e n t [] = True"
| "handed_on e n t (Dcpspi_process fi fo sp t' r ret # cs) =
     (t' = t \<and> handed_on e (Suc n) (fst (snd (dcpspi_process e n fi fo sp t' r))) cs)"
| "handed_on e n t (c # cs) = handed_on e n t cs"

text \<open>The calls that release a handle.\<close>

fun close_call :: "call \<Rightarrow> bool" where
  "close_call (Spi_close_device fd) = True"
| "close_call (Fifo_close_and_delete fd n) = True"
| "close_call (Gpio_close g) = True"
| "close_call c = False"

text \<open>Two parameter blocks that agree in every field but the SPI clock and the
  debouncing flag.\<close>

definition same_but_clock_debounce :: "parameters \<Rightarrow> parameters \<Rightarrow> bool" where
  "same_but_clock_debounce p q =
     (fifo_in_name p = fifo_in_name q \<and> fifo_out_name p = fifo_out_name q
      \<and> spidev_name p = spidev_name q \<and> gpio_num p = gpio_num q
      \<and> run_in_foreground p = run_in_foreground q \<and> dummy_mode p = dummy_mode q)"

section \<open>The engine's use of the buffers\<close>

text \<open>Modelled from the spec: \<^verbatim>\<open>reset_transaction_struct\<close> and \<^verbatim>\<open>dcpspi_process\<close> are
  defined in \<^verbatim>\<open>dcpspi_process.c\<close>, which is not among the sources. What they may do to
  a buffer is written after the spec's Byte Arena, a "fixed-capacity owned buffer" that
  "never grows; overflow is a reportable condition, not a reallocation trigger", that is
  "reset between transactions (length and cursor zeroed; capacity fixed for process
  lifetime)" and of which "every write path checks capacity and reports overflow rather
  than resizing". An operation on a buffer is a reset, or a write of some bytes at the
  fill level; a write that does not fit changes nothing and reports the overflow.\<close>

datatype arena_op = Arena_reset | Arena_write "uint8_t list"

datatype arena_error = Overflow

fun arena_apply :: "arena_op \<Rightarrow> dynamic_buffer \<Rightarrow> arena_error + dynamic_buffer" where
  "arena_apply Arena_reset b = Inr (b\<lparr>pos := 0\<rparr>)"
| "arena_apply (Arena_write bs) b =
     (if pos b + length bs \<le> size' b
      then Inr (b\<lparr>buffer := take (pos b) (buffer b) @ bs @ drop (pos b + length bs) (buffer b),
                  pos := pos b + length bs\<rparr>)
      else Inl Overflow)"

text \<open>Modelled from the spec: the operations of one step on one buffer, in order. After
  an overflow the transaction is given up, "discarding the partially built Transaction
  buffers": the buffer is reset and the operations that remain are not made.\<close>

fun arena_run :: "arena_op list \<Rightarrow> dynamic_buffer \<Rightarrow> arena_error option \<times> dynamic_buffer" where
  "arena_run [] b = (None, b)"
| "arena_run (a # ops) b =
     (case arena_apply a b of
        Inl err \<Rightarrow> (Some err, b\<lparr>pos := 0\<rparr>)
      | Inr b' \<Rightarrow> arena_run ops b')"

text \<open>Modelled from the spec: \<^verbatim>\<open>reset_transaction_struct\<close> resets both buffers.\<close>

definition engine_reset :: "dcp_transaction \<Rightarrow> bool \<Rightarrow> dcp_transaction" where
  "engine_reset t full =
     t\<lparr>dcp_buffer := snd (arena_run [Arena_reset] (dcp_buffer t)),
       spi_buffer := snd (arena_run [Arena_reset] (spi_buffer t))\<rparr>"

text \<open>Modelled from the spec: one call of \<^verbatim>\<open>dcpspi_process\<close>. What the step reads from
  the pipes, the bus and the request pin decides which operations it makes on the two
  buffers, what it leaves in the request data and whether it asks to go on; all of this
  is a parameter, the plan of the step. The buffers are touched by these operations
  only.\<close>

type_synonym step_plan = "arena_op list \<times> arena_op list \<times> slave_request_and_lock_data \<times> bool"

definition engine_step ::
  "step_plan \<Rightarrow> dcp_transaction \<Rightarrow> bool \<times> dcp_transaction \<times> slave_request_and_lock_data" where
  "engine_step plan t =
     (case plan of
        (dcp_ops, spi_ops, r', ret) \<Rightarrow>
          (ret,
           t\<lparr>dcp_buffer := snd (arena_run dcp_ops (dcp_buffer t)),
             spi_buffer := snd (arena_run spi_ops (spi_buffer t))\<rparr>,
           r'))"

text \<open>Modelled from the spec: an outside world whose two functions of
  \<^verbatim>\<open>dcpspi_process.c\<close> are the ones above. The plan of a step may depend on everything the step can see: the number of
  the call, the three descriptors, the transaction and the request data.\<close>

definition with_engine ::
  "(nat \<Rightarrow> int \<Rightarrow> int \<Rightarrow> int \<Rightarrow> dcp_transaction \<Rightarrow> slave_request_and_lock_data \<Rightarrow> step_plan)
   \<Rightarrow> env \<Rightarrow> env" where
  "with_engine plans e =
     e\<lparr>reset_transaction_struct := engine_reset,
       dcpspi_process := (\<lambda>n fi fo sp t r. engine_step (plans n fi fo sp t r) t)\<rparr>"

text \<open>Modelled from the spec: the escape stuffing of the frame codec, which is in
  \<^verbatim>\<open>dcpspi_process.c\<close> as well: "every occurrence of the escape byte in raw is replaced
  by a defined two-byte escape sequence; all other bytes pass through unchanged". The
  escape byte is \<^verbatim>\<open>DCP_ESCAPE_CHARACTER\<close>; the two bytes that replace it are in neither
  the sources nor the spec and are a parameter.\<close>

fun encode :: "uint8_t \<times> uint8_t \<Rightarrow> uint8_t list \<Rightarrow> uint8_t list" where
  "encode sq [] = []"
| "encode sq (b # raw) =
     (if unat b = DCP_ESCAPE_CHARACTER then fst sq # snd sq # encode sq raw
      else b # encode sq raw)"

text \<open>Plans for a concrete run: the first step writes a command header of four bytes
  to the DCP buffer and its stuffed form to the SPI buffer; every later step tries to
  write 300 more bytes to the DCP buffer and resets the SPI buffer.\<close>

definition plans_demo ::
  "nat \<Rightarrow> int \<Rightarrow> int \<Rightarrow> int \<Rightarrow> dcp_transaction \<Rightarrow> slave_request_and_lock_data \<Rightarrow> step_plan" where
  "plans_demo n fi fo sp t r =
     (if n = 0
      then ([Arena_write [1, 0x27, 0, 0]], [Arena_write (encode (0x27, 0x01) [1, 0x27, 0, 0])], r, True)
      else ([Arena_write (replicate 300 0)], [Arena_reset], r, True))"

section \<open>The constants\<close>

text \<open>Claim C5. The wire-format constants of \<^verbatim>\<open>dcpdefs.h\<close> have the stated values:
  a synchronization header of 6 bytes, a command header of 4 bytes, at most 256 bytes
  of payload, the escape byte 0x27, the four command codes 0 to 3, slave serials from
  0x0001 to 0x7fff with the invalid value 0x0000, and master serials from 0x8001 to
  0xffff with the invalid value 0x8000. Neither invalid value lies in a range of live
  serials, and the two ranges do not meet.\<close>

theorem wire_format_constants:
  "DCPSYNC_HEADER_SIZE = 6 \<and> DCP_HEADER_SIZE = 4 \<and> DCP_PAYLOAD_MAXSIZE = 256
   \<and> DCP_ESCAPE_CHARACTER = 0x27
   \<and> DCP_COMMAND_WRITE_REGISTER = 0 \<and> DCP_COMMAND_READ_REGISTER = 1
   \<and> DCP_COMMAND_MULTI_WRITE_REGISTER = 2 \<and> DCP_COMMAND_MULTI_READ_REGISTER = 3
   \<and> DCPSYNC_SLAVE_SERIAL_MIN = 0x0001 \<and> DCPSYNC_SLAVE_SERIAL_MAX = 0x7fff
   \<and> DCPSYNC_SLAVE_SERIAL_INVALID = 0x0000
   \<and> DCPSYNC_MASTER_SERIAL_MIN = 0x8001 \<and> DCPSYNC_MASTER_SERIAL_MAX = 0xffff
   \<and> DCPSYNC_MASTER_SERIAL_INVALID = 0x8000
   \<and> DCPSYNC_SLAVE_SERIAL_INVALID \<notin> {DCPSYNC_SLAVE_SERIAL_MIN .. DCPSYNC_SLAVE_SERIAL_MAX}
   \<and> DCPSYNC_MASTER_SERIAL_INVALID \<notin> {DCPSYNC_MASTER_SERIAL_MIN .. DCPSYNC_MASTER_SERIAL_MAX}
   \<and> {DCPSYNC_SLAVE_SERIAL_MIN .. DCPSYNC_SLAVE_SERIAL_MAX}
       \<inter> {DCPSYNC_MASTER_SERIAL_MIN .. DCPSYNC_MASTER_SERIAL_MAX} = {}"
  by (simp add: DCPSYNC_HEADER_SIZE_def DCP_HEADER_SIZE_def DCP_PAYLOAD_MAXSIZE_def
      DCP_ESCAPE_CHARACTER_def DCP_COMMAND_WRITE_REGISTER_def DCP_COMMAND_READ_REGISTER_def
      DCP_COMMAND_MULTI_WRITE_REGISTER_def DCP_COMMAND_MULTI_READ_REGISTER_def
      DCPSYNC_SLAVE_SERIAL_MIN_def DCPSYNC_SLAVE_SERIAL_MAX_def
      DCPSYNC_SLAVE_SERIAL_INVALID_def DCPSYNC_MASTER_SERIAL_MIN_def
      DCPSYNC_MASTER_SERIAL_MAX_def DCPSYNC_MASTER_SERIAL_INVALID_def)

section \<open>Reading the command line\<close>

text \<open>One equation per branch of the loop body.\<close>

lemma pa_help [simp]: "process_arguments e (''--help'' # rest) p w = (Some 1, p, w)"
  by simp

lemma pa_version [simp]: "process_arguments e (''--version'' # rest) p w = (Some 2, p, w)"
  by simp

lemma pa_fg [simp]:
  "process_arguments e (''--fg'' # rest) p w =
     process_arguments e rest (p\<lparr>run_in_foreground := True\<rparr>) w"
  by simp

lemma pa_debounce [simp]:
  "process_arguments e (''--debounce'' # rest) p w =
     process_arguments e rest (p\<lparr>gpio_needs_debouncing := True\<rparr>) w"
  by simp

lemma pa_ififo [simp]:
  "process_arguments e (''--ififo'' # v # rest) p w =
     process_arguments e rest (p\<lparr>fifo_in_name := v\<rparr>) w"
  by simp

lemma pa_ofifo [simp]:
  "process_arguments e (''--ofifo'' # v # rest) p w =
     process_arguments e rest (p\<lparr>fifo_out_name := v\<rparr>) w"
  by simp

lemma pa_spidev [simp]:
  "process_arguments e (''--spidev'' # v # rest) p w =
     process_arguments e rest (p\<lparr>spidev_name := v\<rparr>) w"
  by simp

lemma pa_spiclk [simp]:
  "process_arguments e (''--spiclk'' # v # rest) p w =
     (case strtoul (ulong_max e) v (errno_ERANGE w) of
        (temp, endptr, erange) \<Rightarrow>
          if char_at endptr 0 \<noteq> CHR 0x00 \<or> temp > UINT32_MAX \<or> (temp = ulong_max e \<and> erange)
          then (Some (- 1), p, invalid_value v (w\<lparr>errno_ERANGE := erange\<rparr>))
          else process_arguments e rest (p\<lparr>spi_clock := of_nat temp\<rparr>)
                 (w\<lparr>errno_ERANGE := erange\<rparr>))"
  by simp

lemma pa_gpio [simp]:
  "process_arguments e (''--gpio'' # v # rest) p w =
     (case strtoul (ulong_max e) v (errno_ERANGE w) of
        (temp, endptr, erange) \<Rightarrow>
          if char_at endptr 0 \<noteq> CHR 0x00 \<or> temp > UINT_MAX \<or> (temp = ulong_max e \<and> erange)
          then (Some (- 1), p, invalid_value v (w\<lparr>errno_ERANGE := erange\<rparr>))
          else process_arguments e rest (p\<lparr>gpio_num := of_nat temp\<rparr>)
                 (w\<lparr>errno_ERANGE := erange\<rparr>))"
  by simp

lemma pa_missing_each [simp]:
  "process_arguments e [''--ififo''] p w = (Some (- 1), p, CHECK_ARGUMENT_failed ''--ififo'' w)"
  "process_arguments e [''--ofifo''] p w = (Some (- 1), p, CHECK_ARGUMENT_failed ''--ofifo'' w)"
  "process_arguments e [''--spidev''] p w = (Some (- 1), p, CHECK_ARGUMENT_failed ''--spidev'' w)"
  "process_arguments e [''--spiclk''] p w = (Some (- 1), p, CHECK_ARGUMENT_failed ''--spiclk'' w)"
  "process_arguments e [''--gpio''] p w = (Some (- 1), p, CHECK_ARGUMENT_failed ''--gpio'' w)"
  by simp_all

lemma pa_unknown [simp]:
  "a \<notin> set option_names \<Longrightarrow>
   process_arguments e (a # rest) p w = (Some (- 1), p, unknown_option a w)"
  by (simp add: option_names_def)

declare process_arguments.simps(2) [simp del]

lemma pa_missing:
  assumes "opt \<in> set value_options"
  shows "process_arguments e [opt] p w = (Some (- 1), p, CHECK_ARGUMENT_failed opt w)"
proof -
  from assms consider "opt = ''--ififo''" | "opt = ''--ofifo''" | "opt = ''--spidev''"
    | "opt = ''--spiclk''" | "opt = ''--gpio''"
    unfolding value_options_def by auto
  then show ?thesis by cases simp_all
qed

lemma option_cases:
  obtains "a = ''--help''" | "a = ''--version''" | "a = ''--fg''" | "a = ''--debounce''"
  | "a = ''--ififo''" | "a = ''--ofifo''" | "a = ''--spidev''" | "a = ''--spiclk''"
  | "a = ''--gpio''" | "a \<notin> set option_names"
  unfolding option_names_def by auto

lemma pa_induct [case_names Nil opt_help opt_version opt_fg opt_debounce missing opt_ififo opt_ofifo opt_spidev opt_spiclk opt_gpio unknown]:
  assumes "\<And>p w. P [] p w"
    and "\<And>rest p w. P (''--help'' # rest) p w"
    and "\<And>rest p w. P (''--version'' # rest) p w"
    and "\<And>rest p w. (\<And>q u. P rest q u) \<Longrightarrow> P (''--fg'' # rest) p w"
    and "\<And>rest p w. (\<And>q u. P rest q u) \<Longrightarrow> P (''--debounce'' # rest) p w"
    and "\<And>opt p w. opt \<in> set value_options \<Longrightarrow> P [opt] p w"
    and "\<And>v rest p w. (\<And>q u. P rest q u) \<Longrightarrow> P (''--ififo'' # v # rest) p w"
    and "\<And>v rest p w. (\<And>q u. P rest q u) \<Longrightarrow> P (''--ofifo'' # v # rest) p w"
    and "\<And>v rest p w. (\<And>q u. P rest q u) \<Longrightarrow> P (''--spidev'' # v # rest) p w"
    and "\<And>v rest p w. (\<And>q u. P rest q u) \<Longrightarrow> P (''--spiclk'' # v # rest) p w"
    and "\<And>v rest p w. (\<And>q u. P rest q u) \<Longrightarrow> P (''--gpio'' # v # rest) p w"
    and "\<And>a rest p w. a \<notin> set option_names \<Longrightarrow> P (a # rest) p w"
  shows "P xs p w"
proof (induction xs arbitrary: p w rule: length_induct)
  case (1 xs)
  show ?case
  proof (cases xs)
    case Nil
    with assms(1) show ?thesis by simp
  next
    case (Cons a rest)
    have IH: "P zs q u" if "length zs \<le> length rest" for zs q u
      using "1.IH" Cons that by simp
    have vo: "''--ififo'' \<in> set value_options" "''--ofifo'' \<in> set value_options"
      "''--spidev'' \<in> set value_options" "''--spiclk'' \<in> set value_options"
      "''--gpio'' \<in> set value_options"
      by (simp_all add: value_options_def)
    show ?thesis
    proof (cases a rule: option_cases)
      case 1 with Cons assms(2) show ?thesis by simp
    next
      case 2 with Cons assms(3) show ?thesis by simp
    next
      case 3 with Cons assms(4)[of rest] IH show ?thesis by simp
    next
      case 4 with Cons assms(5)[of rest] IH show ?thesis by simp
    next
      case 5
      show ?thesis
      proof (cases rest)
        case Nil
        with 5 Cons assms(6)[OF vo(1)] show ?thesis by simp
      next
        case (Cons v rest')
        with 5 \<open>xs = a # rest\<close> assms(7)[of rest' v] IH[of rest'] show ?thesis by simp
      qed
    next
      case 6
      show ?thesis
      proof (cases rest)
        case Nil
        with 6 Cons assms(6)[OF vo(2)] show ?thesis by simp
      next
        case (Cons v rest')
        with 6 \<open>xs = a # rest\<close> assms(8)[of rest' v] IH[of rest'] show ?thesis by simp
      qed
    next
      case 7
      show ?thesis
      proof (cases rest)
        case Nil
        with 7 Cons assms(6)[OF vo(3)] show ?thesis by simp
      next
        case (Cons v rest')
        with 7 \<open>xs = a # rest\<close> assms(9)[of rest' v] IH[of rest'] show ?thesis by simp
      qed
    next
      case 8
      show ?thesis
      proof (cases rest)
        case Nil
        with 8 Cons assms(6)[OF vo(4)] show ?thesis by simp
      next
        case (Cons v rest')
        with 8 \<open>xs = a # rest\<close> assms(10)[of rest' v] IH[of rest'] show ?thesis by simp
      qed
    next
      case 9
      show ?thesis
      proof (cases rest)
        case Nil
        with 9 Cons assms(6)[OF vo(5)] show ?thesis by simp
      next
        case (Cons v rest')
        with 9 \<open>xs = a # rest\<close> assms(11)[of rest' v] IH[of rest'] show ?thesis by simp
      qed
    next
      case 10 with Cons assms(12) show ?thesis by simp
    qed
  qed
qed

lemma pa_append:
  "process_arguments e xs p w = (None, p', w') \<Longrightarrow>
   process_arguments e (xs @ ys) p w = process_arguments e ys p' w'"
proof (induction xs p w rule: pa_induct)
  case (missing opt p w)
  then show ?case by (simp add: pa_missing)
next
  case (opt_spiclk v rest p w)
  then show ?case by (auto split: prod.splits if_splits)
next
  case (opt_gpio v rest p w)
  then show ?case by (auto split: prod.splits if_splits)
qed simp_all

lemma strtoul_erange: "strtoul L v False = (t, r, True) \<Longrightarrow> t = L"
  by (auto simp: strtoul_def Let_def split: if_splits)

lemma strtoul_accepted:
  assumes "strtoul L v (errno_ERANGE w) = (a, b, c)" "\<not> errno_ERANGE w" "\<not> (a = L \<and> c)"
  shows "w\<lparr>errno_ERANGE := c\<rparr> = w"
proof -
  from assms have "\<not> c" using strtoul_erange[of L v a b] by (cases c) auto
  with assms(2) show ?thesis by simp
qed

text \<open>Unless the loop returns -1, it prints nothing and leaves errno as it was.\<close>

lemma pa_world:
  "process_arguments e xs p w = (r, p', w') \<Longrightarrow> \<not> errno_ERANGE w \<Longrightarrow> r \<noteq> Some (- 1) \<Longrightarrow>
   w' = w"
proof (induction xs p w rule: pa_induct)
  case (missing opt p w)
  then show ?case by (simp add: pa_missing)
next
  case (opt_spiclk v rest p w)
  obtain a b c where st: "strtoul (ulong_max e) v (errno_ERANGE w) = (a, b, c)"
    by (cases "strtoul (ulong_max e) v (errno_ERANGE w)")
  with opt_spiclk.prems have acc: "\<not> (a = ulong_max e \<and> c)"
    and rec: "process_arguments e rest (p\<lparr>spi_clock := of_nat a\<rparr>) (w\<lparr>errno_ERANGE := c\<rparr>) = (r, p', w')"
    by (auto split: if_splits)
  from strtoul_accepted[OF st opt_spiclk.prems(2) acc] rec opt_spiclk.IH opt_spiclk.prems(2,3)
  show ?case by simp
next
  case (opt_gpio v rest p w)
  obtain a b c where st: "strtoul (ulong_max e) v (errno_ERANGE w) = (a, b, c)"
    by (cases "strtoul (ulong_max e) v (errno_ERANGE w)")
  with opt_gpio.prems have acc: "\<not> (a = ulong_max e \<and> c)"
    and rec: "process_arguments e rest (p\<lparr>gpio_num := of_nat a\<rparr>) (w\<lparr>errno_ERANGE := c\<rparr>) = (r, p', w')"
    by (auto split: if_splits)
  from strtoul_accepted[OF st opt_gpio.prems(2) acc] rec opt_gpio.IH opt_gpio.prems(2,3)
  show ?case by simp
qed auto

lemma isdigit_not_space: "isdigit c \<Longrightarrow> \<not> isspace c"
  by (auto simp: isdigit_def isspace_def)

lemma isdigit_not_sign: "isdigit c \<Longrightarrow> c \<noteq> CHR ''-'' \<and> c \<noteq> CHR ''+''"
  by (auto simp: isdigit_def)

lemma takeWhile_all: "list_all P xs \<Longrightarrow> takeWhile P xs = xs"
  by (induction xs) auto

lemma dropWhile_all: "list_all P xs \<Longrightarrow> dropWhile P xs = []"
  by (induction xs) auto

lemma strtoul_numeral:
  assumes "decimal_numeral v"
  shows "strtoul L v er = (if L < decimal 0 v then (L, [], True) else (decimal 0 v, [], er))"
proof -
  from assms obtain c cs where v: "v = c # cs" and c: "isdigit c" and cs: "list_all isdigit cs"
    by (cases v) (auto simp: decimal_numeral_def)
  have sp: "dropWhile isspace v = v"
    using v isdigit_not_space[OF c] by simp
  have tk: "takeWhile isdigit v = v" "dropWhile isdigit v = []"
    using v c cs by (simp_all add: takeWhile_all dropWhile_all)
  show ?thesis
    unfolding strtoul_def sp using isdigit_not_sign[OF c] tk v
    by (simp add: Let_def)
qed


subsection \<open>process\_command\_line\<close>

lemma pcl_simps:
  "process_arguments e (drop 1 argv) default_parameters w = (Some r, p, w') \<Longrightarrow>
   process_command_line e argv w = (r, p, w')"
  "process_arguments e (drop 1 argv) default_parameters w = (None, p, w') \<Longrightarrow>
   process_command_line e argv w =
     (0, if char_at (spidev_name p) 0 = CHR ''-'' \<and> char_at (spidev_name p) 1 = CHR 0x00
         then p\<lparr>dummy_mode := True\<rparr> else p, w')"
  by (simp_all add: process_command_line_def)

text \<open>The loop returns 1, 2 or -1 and nothing else.\<close>

lemma pa_codes:
  "process_arguments e xs p w = (Some r, p', w') \<Longrightarrow> r = 1 \<or> r = 2 \<or> r = - 1"
proof (induction xs p w rule: pa_induct)
  case (missing opt p w)
  then show ?case by (simp add: pa_missing)
next
  case (opt_spiclk v rest p w)
  then show ?case by (auto split: prod.splits if_splits)
next
  case (opt_gpio v rest p w)
  then show ?case by (auto split: prod.splits if_splits)
qed auto

lemma pcl_codes:
  "process_command_line e argv w = (ret, p, w') \<Longrightarrow> ret = 0 \<or> ret = 1 \<or> ret = 2 \<or> ret = - 1"
  unfolding process_command_line_def
  by (auto split: prod.splits option.splits dest: pa_codes)

text \<open>The function returns 0 exactly when the loop has read every argument.\<close>

lemma pcl_accepted:
  assumes "process_command_line e (prog # xs) w = (0, p, w')"
  obtains p0 where "process_arguments e xs default_parameters w = (None, p0, w')"
proof -
  obtain r p0 w0 where pa: "process_arguments e xs default_parameters w = (r, p0, w0)"
    by (cases "process_arguments e xs default_parameters w")
  show ?thesis
  proof (cases r)
    case None
    with pa assms that show ?thesis by (simp add: process_command_line_def)
  next
    case (Some c)
    with pa assms have "c = 0" by (simp add: process_command_line_def)
    with pa Some pa_codes[of e xs default_parameters w c p0 w0] show ?thesis by simp
  qed
qed

lemma pcl_help:
  assumes "process_command_line e (prog # xs) world0 = (0, p, w)"
  shows "\<exists>p0. process_command_line e (prog # xs @ ''--help'' # ys) world0 = (1, p0, world0)"
proof -
  from assms obtain p0 where pa: "process_arguments e xs default_parameters world0 = (None, p0, w)"
    by (rule pcl_accepted)
  then have "w = world0" by (rule pa_world) (simp_all add: world0_def)
  with pa_append[OF pa, of "''--help'' # ys"] show ?thesis
    by (simp add: process_command_line_def)
qed


lemma pcl_continue:
  assumes "process_command_line e (prog # xs) world0 = (0, p, w)"
  obtains p0 where "process_arguments e xs default_parameters world0 = (None, p0, world0)"
    and "\<And>zs. process_arguments e (xs @ zs) default_parameters world0
           = process_arguments e zs p0 world0"
proof -
  from assms obtain p0 where pa: "process_arguments e xs default_parameters world0 = (None, p0, w)"
    by (rule pcl_accepted)
  then have w: "w = world0" by (rule pa_world) (simp_all add: world0_def)
  from pa w pa_append[OF pa] that show ?thesis by simp
qed

subsection \<open>Signals and the loop\<close>

lemma emit_simps [simp]:
  "calls (emit c w) = calls w @ [c]"
  "keep_running (emit c w) = keep_running w"
  "errno_ERANGE (emit c w) = errno_ERANGE w"
  "disposition_SIGINT (emit c w) = disposition_SIGINT w"
  "disposition_SIGTERM (emit c w) = disposition_SIGTERM w"
  "disposition_of sg (emit c w) = disposition_of sg w"
  by (simp_all add: emit_def disposition_of_def split: signal.splits)

lemma deliver_installed:
  assumes "disposition_of sg w = Installed action"
  shows "deliver sg w = Some (signal_handler sg (set_disposition sg SIG_DFL w))"
  using assms by (simp add: deliver_def action_def run_handler_def)

lemma deliver_default: "disposition_of sg w = SIG_DFL \<Longrightarrow> deliver sg w = None"
  by (simp add: deliver_def)

lemma handled_simps [simp]:
  "keep_running (signal_handler sg w) = False"
  "calls (signal_handler sg w) = calls w"
  "errno_ERANGE (signal_handler sg w) = errno_ERANGE w"
  "disposition_of s (signal_handler sg w) = disposition_of s w"
  "calls (set_disposition sg d w) = calls w"
  "keep_running (set_disposition sg d w) = keep_running w"
  "errno_ERANGE (set_disposition sg d w) = errno_ERANGE w"
  "disposition_of s (set_disposition sg d w) = (if s = sg then d else disposition_of s w)"
  by (simp_all add: signal_handler_def set_disposition_def disposition_of_def
      split: signal.splits)

text \<open>Signals that are pairwise different and all still handled: every handler runs,
  none ends the process.\<close>

lemma deliver_all_distinct:
  assumes "distinct sgs" "\<forall>s \<in> set sgs. disposition_of s w = Installed action"
  shows "\<exists>w'. deliver_all sgs w = (None, w') \<and> calls w' = calls w
           \<and> keep_running w' = (keep_running w \<and> sgs = [])"
  using assms
proof (induction sgs arbitrary: w)
  case Nil
  then show ?case by simp
next
  case (Cons sg sgs)
  let ?w1 = "signal_handler sg (set_disposition sg SIG_DFL w)"
  from Cons.prems have d: "deliver sg w = Some ?w1"
    by (simp add: deliver_installed)
  from Cons.prems have "\<forall>s \<in> set sgs. disposition_of s ?w1 = Installed action"
    by auto
  with Cons.IH[of ?w1] Cons.prems(1) obtain w' where
    "deliver_all sgs ?w1 = (None, w')" "calls w' = calls ?w1"
    "keep_running w' = (keep_running ?w1 \<and> sgs = [])"
    by auto
  with d show ?case by simp
qed

text \<open>Quiet turns, then a turn with signals: the loop returns, whatever the steps
  return.\<close>

lemma main_loop_while_signalled:
  assumes "disposition_of SIGINT w = Installed action" "disposition_of SIGTERM w = Installed action"
    and "sgs \<noteq> []" "distinct sgs"
  shows "fst (main_loop_while e (replicate k [] @ sgs # later) n fi fo sp t r w) = Done ()"
  using assms(1,2)
proof (induction k arbitrary: n t r w)
  case 0
  have "\<forall>s \<in> set sgs. disposition_of s w = Installed action"
  proof
    fix s assume "s \<in> set sgs"
    from 0 show "disposition_of s w = Installed action" by (cases s) simp_all
  qed
  from deliver_all_distinct[OF assms(4) this] assms(3) obtain w' where
    "deliver_all sgs w = (None, w')" "\<not> keep_running w'" by auto
  then show ?case by simp
next
  case (Suc k)
  then show ?case
    by (auto split: prod.splits simp: Let_def)
qed

subsection \<open>Opening the devices\<close>

lemma setup_devices_fifo_in_fails:
  "fifo_create_and_open e (fifo_in_name p) False < 0 \<Longrightarrow>
   setup_devices e p h w =
     (- 1, h\<lparr>fifo_in_fd := fifo_create_and_open e (fifo_in_name p) False\<rparr>,
      w\<lparr>calls := calls w @
        [Fifo_create_and_open (fifo_in_name p) False (fifo_create_and_open e (fifo_in_name p) False)]\<rparr>)"
  by (simp add: setup_devices_def Let_def emit_def)

lemma setup_devices_fifo_out_fails:
  "0 \<le> fifo_create_and_open e (fifo_in_name p) False \<Longrightarrow>
   fifo_create_and_open e (fifo_out_name p) True < 0 \<Longrightarrow>
   setup_devices e p h w =
     (- 1, h\<lparr>fifo_in_fd := fifo_create_and_open e (fifo_in_name p) False,
             fifo_out_fd := fifo_create_and_open e (fifo_out_name p) True\<rparr>,
      w\<lparr>calls := calls w @
        [Fifo_create_and_open (fifo_in_name p) False (fifo_create_and_open e (fifo_in_name p) False),
         Fifo_create_and_open (fifo_out_name p) True (fifo_create_and_open e (fifo_out_name p) True),
         Fifo_close_and_delete (fifo_create_and_open e (fifo_in_name p) False) (fifo_in_name p)]\<rparr>)"
  by (simp add: setup_devices_def Let_def emit_def error_fifo_out_def)

lemma setup_devices_dummy:
  "0 \<le> fifo_create_and_open e (fifo_in_name p) False \<Longrightarrow>
   0 \<le> fifo_create_and_open e (fifo_out_name p) True \<Longrightarrow> dummy_mode p \<Longrightarrow>
   setup_devices e p h w =
     (0, h\<lparr>fifo_in_fd := fifo_create_and_open e (fifo_in_name p) False,
            fifo_out_fd := fifo_create_and_open e (fifo_out_name p) True,
            spi_fd := - 1, gpio := None\<rparr>,
      w\<lparr>calls := calls w @
        [Fifo_create_and_open (fifo_in_name p) False (fifo_create_and_open e (fifo_in_name p) False),
         Fifo_create_and_open (fifo_out_name p) True (fifo_create_and_open e (fifo_out_name p) True)]\<rparr>)"
  by (simp add: setup_devices_def Let_def emit_def)

lemma setup_devices_spi_fails:
  "0 \<le> fifo_create_and_open e (fifo_in_name p) False \<Longrightarrow>
   0 \<le> fifo_create_and_open e (fifo_out_name p) True \<Longrightarrow> \<not> dummy_mode p \<Longrightarrow>
   spi_open_device e (spidev_name p) < 0 \<Longrightarrow>
   setup_devices e p h w =
     (- 1, h\<lparr>fifo_in_fd := fifo_create_and_open e (fifo_in_name p) False,
            fifo_out_fd := fifo_create_and_open e (fifo_out_name p) True,
            spi_fd := spi_open_device e (spidev_name p)\<rparr>,
      w\<lparr>calls := calls w @
        [Fifo_create_and_open (fifo_in_name p) False (fifo_create_and_open e (fifo_in_name p) False),
         Fifo_create_and_open (fifo_out_name p) True (fifo_create_and_open e (fifo_out_name p) True),
         Spi_open_device (spidev_name p) (spi_open_device e (spidev_name p)),
         Fifo_close_and_delete (fifo_create_and_open e (fifo_out_name p) True) (fifo_out_name p),
         Fifo_close_and_delete (fifo_create_and_open e (fifo_in_name p) False) (fifo_in_name p)]\<rparr>)"
  by (simp add: setup_devices_def Let_def emit_def error_fifo_out_def error_spi_open_def)

lemma setup_devices_gpio_fails:
  "0 \<le> fifo_create_and_open e (fifo_in_name p) False \<Longrightarrow>
   0 \<le> fifo_create_and_open e (fifo_out_name p) True \<Longrightarrow> \<not> dummy_mode p \<Longrightarrow>
   0 \<le> spi_open_device e (spidev_name p) \<Longrightarrow> gpio_open e (gpio_num p) False = None \<Longrightarrow>
   setup_devices e p h w =
     (- 1, h\<lparr>fifo_in_fd := fifo_create_and_open e (fifo_in_name p) False,
            fifo_out_fd := fifo_create_and_open e (fifo_out_name p) True,
            spi_fd := spi_open_device e (spidev_name p), gpio := None\<rparr>,
      w\<lparr>calls := calls w @
        [Fifo_create_and_open (fifo_in_name p) False (fifo_create_and_open e (fifo_in_name p) False),
         Fifo_create_and_open (fifo_out_name p) True (fifo_create_and_open e (fifo_out_name p) True),
         Spi_open_device (spidev_name p) (spi_open_device e (spidev_name p)),
         Gpio_open (gpio_num p) False None,
         Spi_close_device (spi_open_device e (spidev_name p)),
         Fifo_close_and_delete (fifo_create_and_open e (fifo_out_name p) True) (fifo_out_name p),
         Fifo_close_and_delete (fifo_create_and_open e (fifo_in_name p) False) (fifo_in_name p)]\<rparr>)"
  by (simp add: setup_devices_def Let_def emit_def error_fifo_out_def error_spi_open_def
      error_gpio_open_def)

lemma setup_devices_ok:
  "0 \<le> fifo_create_and_open e (fifo_in_name p) False \<Longrightarrow>
   0 \<le> fifo_create_and_open e (fifo_out_name p) True \<Longrightarrow> \<not> dummy_mode p \<Longrightarrow>
   0 \<le> spi_open_device e (spidev_name p) \<Longrightarrow> gpio_open e (gpio_num p) False = Some g \<Longrightarrow>
   setup_devices e p h w =
     (0, h\<lparr>fifo_in_fd := fifo_create_and_open e (fifo_in_name p) False,
            fifo_out_fd := fifo_create_and_open e (fifo_out_name p) True,
            spi_fd := spi_open_device e (spidev_name p), gpio := Some g\<rparr>,
      w\<lparr>calls := calls w @
        [Fifo_create_and_open (fifo_in_name p) False (fifo_create_and_open e (fifo_in_name p) False),
         Fifo_create_and_open (fifo_out_name p) True (fifo_create_and_open e (fifo_out_name p) True),
         Spi_open_device (spidev_name p) (spi_open_device e (spidev_name p)),
         Gpio_open (gpio_num p) False (Some g)]
        @ (if gpio_needs_debouncing p then [Gpio_enable_debouncing (Some g)] else [])
        @ [Spi_set_speed_hz (spi_clock p)]\<rparr>)"
  by (simp add: setup_devices_def Let_def emit_def)


lemma setup_daemon_fails:
  "\<not> run_in_foreground p \<Longrightarrow> daemon e < 0 \<Longrightarrow>
   setup' e p h w =
     (- 1, h, w\<lparr>calls := calls w @
        [Msg_enable_syslog True, Openlog ''dcpspi'', Daemon (daemon e),
         Msg_error ''Failed to run as daemon'']\<rparr>)"
  by (simp add: setup'_def Let_def emit_def)

lemma setup_daemonized:
  "run_in_foreground p \<or> 0 \<le> daemon e \<Longrightarrow>
   setup' e p h w =
     setup_devices e p h
       (w\<lparr>calls := calls w @ Msg_enable_syslog (\<not> run_in_foreground p)
          # (if run_in_foreground p then [] else [Openlog ''dcpspi'', Daemon (daemon e)])
          @ [Log_version_info]\<rparr>)"
  by (auto simp: setup'_def Let_def emit_def log_version_info_def)

text \<open>The ways through \<^verbatim>\<open>setup\<close>, by what the outside world answers.\<close>

lemma setup_cases:
  obtains (daemon_fails) "\<not> run_in_foreground p" "daemon e < 0"
  | (fifo_in_fails) "run_in_foreground p \<or> 0 \<le> daemon e"
      "fifo_create_and_open e (fifo_in_name p) False < 0"
  | (fifo_out_fails) "run_in_foreground p \<or> 0 \<le> daemon e"
      "0 \<le> fifo_create_and_open e (fifo_in_name p) False"
      "fifo_create_and_open e (fifo_out_name p) True < 0"
  | (dummy) "run_in_foreground p \<or> 0 \<le> daemon e"
      "0 \<le> fifo_create_and_open e (fifo_in_name p) False"
      "0 \<le> fifo_create_and_open e (fifo_out_name p) True" "dummy_mode p"
  | (spi_fails) "run_in_foreground p \<or> 0 \<le> daemon e"
      "0 \<le> fifo_create_and_open e (fifo_in_name p) False"
      "0 \<le> fifo_create_and_open e (fifo_out_name p) True" "\<not> dummy_mode p"
      "spi_open_device e (spidev_name p) < 0"
  | (gpio_fails) "run_in_foreground p \<or> 0 \<le> daemon e"
      "0 \<le> fifo_create_and_open e (fifo_in_name p) False"
      "0 \<le> fifo_create_and_open e (fifo_out_name p) True" "\<not> dummy_mode p"
      "0 \<le> spi_open_device e (spidev_name p)" "gpio_open e (gpio_num p) False = None"
  | (ok) g where "run_in_foreground p \<or> 0 \<le> daemon e"
      "0 \<le> fifo_create_and_open e (fifo_in_name p) False"
      "0 \<le> fifo_create_and_open e (fifo_out_name p) True" "\<not> dummy_mode p"
      "0 \<le> spi_open_device e (spidev_name p)" "gpio_open e (gpio_num p) False = Some g"
proof -
  have a: "x < 0 \<or> 0 \<le> x" for x :: int by linarith
  show ?thesis
    using that a[of "daemon e"] a[of "fifo_create_and_open e (fifo_in_name p) False"]
      a[of "fifo_create_and_open e (fifo_out_name p) True"]
      a[of "spi_open_device e (spidev_name p)"]
    by (cases "gpio_open e (gpio_num p) False") blast+
qed

lemmas setup_by_case = setup_daemon_fails setup_daemonized setup_devices_fifo_in_fails
  setup_devices_fifo_out_fails setup_devices_dummy setup_devices_spi_fails
  setup_devices_gpio_fails setup_devices_ok

lemma setup_result: "fst (setup' e p h w) = 0 \<or> fst (setup' e p h w) = - 1"
  by (rule setup_cases[where p = p and e = e])
     (simp_all add: setup_by_case)

text \<open>\<^verbatim>\<open>setup\<close> only adds calls: the flag, errno and the dispositions stay.\<close>

lemma setup_frame:
  "keep_running (snd (snd (setup' e p h w))) = keep_running w"
  "errno_ERANGE (snd (snd (setup' e p h w))) = errno_ERANGE w"
  "disposition_SIGINT (snd (snd (setup' e p h w))) = disposition_SIGINT w"
  "disposition_SIGTERM (snd (snd (setup' e p h w))) = disposition_SIGTERM w"
  "filter loop_call (calls (snd (snd (setup' e p h w)))) = filter loop_call (calls w)"
  by (rule setup_cases[where p = p and e = e]; simp add: setup_by_case)+

lemma held_append: "held (cs @ evs) = foldl account (held cs) evs"
  by (simp add: held_def)

text \<open>A failed \<^verbatim>\<open>setup\<close> leaves open what was open before it.\<close>

lemma setup_failure_held:
  "fst (setup' e p h w) < 0 \<Longrightarrow> held (calls (snd (snd (setup' e p h w)))) = held (calls w)"
  by (rule setup_cases[where p = p and e = e])
     (simp_all add: setup_by_case held_append)

subsection \<open>The loop\<close>

lemma deliver_all_calls: "calls (snd (deliver_all sgs w)) = calls w"
proof (induction sgs arbitrary: w)
  case Nil
  then show ?case by simp
next
  case (Cons sg sgs)
  then show ?case
    by (cases "disposition_of sg w") (simp_all add: deliver_def run_handler_def split: handler.splits)
qed

lemma main_loop_while_trace:
  "\<exists>evs. calls (snd (main_loop_while e sched n fi fo sp t r w)) = calls w @ evs
     \<and> (if fst (main_loop_while e sched n fi fo sp t r w) = Done ()
         then loop_trace_returned evs else loop_trace_turning evs)"
proof (induction sched arbitrary: n t r w)
  case Nil
  then show ?case by simp
next
  case (Cons arrived later)
  obtain k w1 where d: "deliver_all arrived w = (k, w1)"
    by (cases "deliver_all arrived w")
  with deliver_all_calls[of arrived w] have c1: "calls w1 = calls w" by simp
  show ?case
  proof (cases k)
    case (Some sg)
    with d c1 show ?thesis by simp
  next
    case None
    show ?thesis
    proof (cases "keep_running w1")
      case False
      with None d c1 show ?thesis by simp
    next
      case True
      obtain ret t' r' where s: "dcpspi_process e n fi fo sp t r = (ret, t', r')"
        by (cases "dcpspi_process e n fi fo sp t r")
      let ?w2 = "emit (Dcpspi_process fi fo sp t r ret) (emit (Read_keep_running True) w1)"
      show ?thesis
      proof (cases ret)
        case False
        with None d c1 True s show ?thesis by simp
      next
        case ret: True
        from Cons.IH[of "Suc n" t' r' ?w2] obtain evs where
          evs: "calls (snd (main_loop_while e later (Suc n) fi fo sp t' r' ?w2)) = calls ?w2 @ evs"
          "if fst (main_loop_while e later (Suc n) fi fo sp t' r' ?w2) = Done ()
           then loop_trace_returned evs else loop_trace_turning evs"
          by blast
        have "calls (snd (main_loop_while e (arrived # later) n fi fo sp t r w)) =
            calls w @ (Read_keep_running True # Dcpspi_process fi fo sp t r True # evs)"
          using None d c1 True s ret evs(1) by simp
        moreover have "fst (main_loop_while e (arrived # later) n fi fo sp t r w) =
            fst (main_loop_while e later (Suc n) fi fo sp t' r' ?w2)"
          using None d True s ret by simp
        ultimately show ?thesis using evs(2) by (intro exI[of _ "Read_keep_running True # Dcpspi_process fi fo sp t r True # evs"]) simp
      qed
    qed
  qed
qed


text \<open>Claim C1. The signal handler writes the flag and does nothing else: the calls made,
  errno and the dispositions are as before. The loop has the shape
  \<^verbatim>\<open>while(keep_running && step())\<close>: what it adds to the calls is a sequence of turns,
  each one read of the flag followed, the flag being true, by one step; it returns
  on the first turn that reads the flag as false (without a step) or whose step returns
  false, and on no other turn.\<close>

theorem run_loop_shape:
  "signal_handler sg w = w\<lparr>keep_running := False\<rparr>
   \<and> calls (signal_handler sg w) = calls w
   \<and> take (length (calls w)) (calls (snd (main_loop_while e sched n fi fo sp t r w))) = calls w
   \<and> (if fst (main_loop_while e sched n fi fo sp t r w) = Done ()
       then loop_trace_returned
              (drop (length (calls w)) (calls (snd (main_loop_while e sched n fi fo sp t r w))))
       else loop_trace_turning
              (drop (length (calls w)) (calls (snd (main_loop_while e sched n fi fo sp t r w)))))
   \<and> (deliver_all arrived w = (None, w1) \<and> \<not> keep_running w1 \<longrightarrow>
        main_loop_while e (arrived # later) n fi fo sp t r w
          = (Done (), emit (Read_keep_running False) w1))
   \<and> (deliver_all arrived w = (None, w1) \<and> keep_running w1
        \<and> dcpspi_process e n fi fo sp t r = (False, t', r') \<longrightarrow>
        main_loop_while e (arrived # later) n fi fo sp t r w
          = (Done (), emit (Dcpspi_process fi fo sp t r False) (emit (Read_keep_running True) w1)))
   \<and> (deliver_all arrived w = (None, w1) \<and> keep_running w1
        \<and> dcpspi_process e n fi fo sp t r = (True, t', r') \<longrightarrow>
        main_loop_while e (arrived # later) n fi fo sp t r w
          = main_loop_while e later (Suc n) fi fo sp t' r'
              (emit (Dcpspi_process fi fo sp t r True) (emit (Read_keep_running True) w1)))"
proof -
  from main_loop_while_trace[of e sched n fi fo sp t r w] obtain evs where
    evs: "calls (snd (main_loop_while e sched n fi fo sp t r w)) = calls w @ evs"
    "if fst (main_loop_while e sched n fi fo sp t r w) = Done ()
         then loop_trace_returned evs else loop_trace_turning evs"
    by blast
  have shape: "if fst (main_loop_while e sched n fi fo sp t r w) = Done ()
       then loop_trace_returned
              (drop (length (calls w)) (calls (snd (main_loop_while e sched n fi fo sp t r w))))
       else loop_trace_turning
              (drop (length (calls w)) (calls (snd (main_loop_while e sched n fi fo sp t r w))))"
    using evs by simp
  have pre: "take (length (calls w)) (calls (snd (main_loop_while e sched n fi fo sp t r w))) = calls w"
    using evs(1) by simp
  have h: "signal_handler sg w = w\<lparr>keep_running := False\<rparr>" "calls (signal_handler sg w) = calls w"
    by (simp_all add: signal_handler_def)
  show ?thesis
    using shape pre h by simp
qed

lemma world_armed_simps:
  "keep_running world_armed" "disposition_of sg world_armed = Installed action"
  "calls world_armed = [Sigemptyset, Sigaction SIGINT action, Sigaction SIGTERM action]"
  by (simp_all add: world_armed_def sigaction_def world0_def emit_def set_disposition_def
      disposition_of_def split: signal.splits)

lemma env_ok_simps [simp]:
  "ulong_max env_ok = 18446744073709551615"
  "daemon env_ok = 0"
  "fifo_create_and_open env_ok name write = (if write then 4 else 3)"
  "spi_open_device env_ok name = 5"
  "gpio_open env_ok num al = Some (Gpio_handle (unat num))"
  "gpio_get_poll_fd env_ok g = 6"
  "gpio_is_active env_ok g = False"
  "dcpspi_process env_ok n fi fo sp t r = (True, t, r)"
  "dcpspi_process env_step_fails n fi fo sp t r = (False, t, r)"
  by (simp_all add: env_ok_def env_step_fails_def)

theorem run_loop_shape_witness:
  "loop_trace_returned
     (drop (length (calls world_armed))
        (calls (snd (main_loop_while env_ok [[], [SIGTERM]] 0 3 4 5
           transaction_initial rldata_dummy world_armed))))
   \<and> main_loop_while env_ok [[SIGTERM]] 0 3 4 5 transaction_initial rldata_dummy world_armed
       = (Done (), emit (Read_keep_running False)
            (signal_handler SIGTERM (set_disposition SIGTERM SIG_DFL world_armed)))
   \<and> main_loop_while env_step_fails [[]] 0 3 4 5 transaction_initial rldata_dummy world_armed
       = (Done (), emit (Dcpspi_process 3 4 5 transaction_initial rldata_dummy False)
            (emit (Read_keep_running True) world_armed))
   \<and> main_loop_while env_ok [[]] 0 3 4 5 transaction_initial rldata_dummy world_armed
       = (Running, emit (Dcpspi_process 3 4 5 transaction_initial rldata_dummy True)
            (emit (Read_keep_running True) world_armed))"
proof -
  let ?w1 = "signal_handler SIGTERM (set_disposition SIGTERM SIG_DFL world_armed)"
  have d: "deliver_all [SIGTERM] world_armed = (None, ?w1)"
    by (simp add: deliver_installed world_armed_simps)
  have d0: "deliver_all [] world_armed = (None, world_armed)" by simp
  have k: "\<not> keep_running ?w1" "keep_running world_armed"
    by (simp_all add: world_armed_simps)
  have ret: "fst (main_loop_while env_ok [[], [SIGTERM]] 0 3 4 5
           transaction_initial rldata_dummy world_armed) = Done ()"
    by (simp add: deliver_installed world_armed_simps)
  note a = run_loop_shape[of _ _ env_ok "[[], [SIGTERM]]" 0 3 4 5
      transaction_initial rldata_dummy]
  note b = run_loop_shape[of _ world_armed env_ok "[]" 0 3 4 5
      transaction_initial rldata_dummy "[SIGTERM]" ?w1 "[]"]
  note c = run_loop_shape[of _ world_armed env_step_fails "[]" 0 3 4 5
      transaction_initial rldata_dummy "[]" world_armed "[]" transaction_initial rldata_dummy]
  note c' = run_loop_shape[of _ world_armed env_ok "[]" 0 3 4 5
      transaction_initial rldata_dummy "[]" world_armed "[]" transaction_initial rldata_dummy]
  from a[of _ world_armed] ret b d k c c' d0 show ?thesis by simp
qed

subsection \<open>main\<close>

lemma pcl_world:
  assumes "process_command_line e argv w = (ret, p, w')" "\<not> errno_ERANGE w" "ret \<noteq> - 1"
  shows "w' = w"
proof -
  obtain r p0 w0 where pa: "process_arguments e (drop 1 argv) default_parameters w = (r, p0, w0)"
    by (cases "process_arguments e (drop 1 argv) default_parameters w")
  with assms(1) have "w0 = w'" "r \<noteq> Some (- 1)"
    using assms(3) by (auto simp: process_command_line_def split: option.splits)
  with pa_world[OF pa assms(2)] show ?thesis by simp
qed

lemma main_accepted:
  assumes "process_command_line e argv world0 = (0, p, w)"
  shows "main e sched argv = run_daemon e sched p world0"
proof -
  from pcl_world[OF assms] have "w = world0" by (simp add: world0_def)
  with assms show ?thesis by (simp add: main_def)
qed

lemma loop_call_other:
  assumes "loop_call c"
  shows "\<not> resource_call c" "c \<noteq> Msg_info ''Terminated, shutting down''" "account rs c = rs"
  using assms by (cases c; simp)+

lemma loop_calls_other:
  assumes "list_all loop_call evs"
  shows "filter resource_call evs = []" "foldl account rs evs = rs"
    "takeWhile (\<lambda>c. c \<noteq> Msg_info ''Terminated, shutting down'') (evs @ cs)
       = evs @ takeWhile (\<lambda>c. c \<noteq> Msg_info ''Terminated, shutting down'') cs"
    "dropWhile (\<lambda>c. c \<noteq> Msg_info ''Terminated, shutting down'') (evs @ cs)
       = dropWhile (\<lambda>c. c \<noteq> Msg_info ''Terminated, shutting down'') cs"
  using assms by (induction evs) (simp_all add: loop_call_other)

lemma loop_trace_calls:
  "loop_trace_returned evs \<or> loop_trace_turning evs \<Longrightarrow> list_all loop_call evs"
  by (induction evs rule: loop_trace_returned.induct) (auto split: if_splits)

lemma main_loop_while_calls:
  "\<exists>evs. calls (snd (main_loop_while e sched n fi fo sp t r w)) = calls w @ evs
     \<and> list_all loop_call evs"
  using main_loop_while_trace[of e sched n fi fo sp t r w] loop_trace_calls
  by (metis (full_types))

lemma main_loop_calls:
  "\<exists>evs. calls (snd (main_loop e sched fi fo sp g w)) = calls w @ evs \<and> list_all loop_call evs"
proof -
  let ?w3 = "(case g of
                  None \<Rightarrow> emit (Reset_transaction_struct True) (emit (Msg_info ''Accepting traffic'') w)
                | Some gh \<Rightarrow>
                    emit (Gpio_is_active gh (gpio_is_active e gh))
                      (emit (Gpio_get_poll_fd gh (gpio_get_poll_fd e gh))
                        (emit (Reset_transaction_struct True) (emit (Msg_info ''Accepting traffic'') w))))"
  have "\<exists>pre. calls ?w3 = calls w @ pre \<and> list_all loop_call pre"
    by (cases g) simp_all
  then obtain pre where pre: "calls ?w3 = calls w @ pre" "list_all loop_call pre" by blast
  obtain t r where
    m: "main_loop e sched fi fo sp g w = main_loop_while e sched 0 fi fo sp t r ?w3"
    by (simp add: main_loop_def Let_def)
  from main_loop_while_calls[of e sched 0 fi fo sp t r ?w3] obtain evs where
    "calls (snd (main_loop_while e sched 0 fi fo sp t r ?w3)) = calls ?w3 @ evs"
    "list_all loop_call evs" by blast
  with pre m show ?thesis
    by (intro exI[of _ "pre @ evs"]) simp
qed

lemma shutdown_calls:
  "calls (shutdown p h w) =
     calls w @ Msg_info ''Terminated, shutting down''
       # (if dummy_mode p then [] else [Spi_close_device (spi_fd h)])
       @ [Fifo_close_and_delete (fifo_in_fd h) (fifo_in_name p),
          Fifo_close_and_delete (fifo_out_fd h) (fifo_out_name p)]
       @ (if dummy_mode p then [] else [Gpio_close (gpio h)])"
  by (simp add: shutdown_def Let_def)

lemma run_daemon_setup_fails:
  "fst (setup' e p (locals0 e) w) < 0 \<Longrightarrow>
   run_daemon e sched p w = (Done EXIT_FAILURE, snd (snd (setup' e p (locals0 e) w)))"
  by (cases "setup' e p (locals0 e) w") (simp add: run_daemon_def)

text \<open>After a successful \<^verbatim>\<open>setup\<close>: the handlers are installed, the loop adds calls of
  its own only, and the way the loop ends decides what follows.\<close>

lemma run_daemon_entered:
  assumes "setup' e p (locals0 e) w = (0, h, w1)"
  obtains st :: "unit run" and w5 evs where
    "run_daemon e sched p w =
       (case st of Done u \<Rightarrow> (Done EXIT_SUCCESS, shutdown p h w5)
        | Killed sg \<Rightarrow> (Killed sg, w5) | Running \<Rightarrow> (Running, w5))"
    "calls w5 = calls w1 @ [Sigemptyset, Sigaction SIGINT action, Sigaction SIGTERM action] @ evs"
    "list_all loop_call evs"
proof -
  let ?w4 = "sigaction SIGTERM action (sigaction SIGINT action (emit Sigemptyset w1))"
  obtain st w5 where ml:
    "main_loop e sched (fifo_in_fd h) (fifo_out_fd h) (spi_fd h) (gpio h) ?w4 = (st, w5)"
    by (cases "main_loop e sched (fifo_in_fd h) (fifo_out_fd h) (spi_fd h) (gpio h) ?w4")
  from main_loop_calls[of e sched "fifo_in_fd h" "fifo_out_fd h" "spi_fd h" "gpio h" ?w4] ml
  obtain evs where evs: "calls w5 = calls ?w4 @ evs" "list_all loop_call evs" by auto
  have c4: "calls ?w4 = calls w1 @ [Sigemptyset, Sigaction SIGINT action, Sigaction SIGTERM action]"
    by (simp add: sigaction_def)
  have "run_daemon e sched p w =
       (case st of Done u \<Rightarrow> (Done EXIT_SUCCESS, shutdown p h w5)
        | Killed sg \<Rightarrow> (Killed sg, w5) | Running \<Rightarrow> (Running, w5))"
    using assms ml by (simp add: run_daemon_def Let_def split: run.splits)
  moreover have "calls w5 = calls w1 @ [Sigemptyset, Sigaction SIGINT action, Sigaction SIGTERM action] @ evs"
    using evs(1) c4 by simp
  ultimately show ?thesis using evs(2) by (rule that)
qed

subsection \<open>Concrete instances\<close>

lemma pcl_no_arguments:
  "process_command_line e [prog] world0 = (0, default_parameters, world0)"
  by (simp add: process_command_line_def default_parameters_def char_at_def)

lemma default_parameters_simps [simp]:
  "fifo_in_name default_parameters = ''/tmp/dcp_to_spi''"
  "fifo_out_name default_parameters = ''/tmp/spi_to_dcp''"
  "spidev_name default_parameters = ''/dev/spidev0.0''"
  "spi_clock default_parameters = 0"
  "gpio_num default_parameters = 4"
  "run_in_foreground default_parameters = False"
  "gpio_needs_debouncing default_parameters = False"
  "dummy_mode default_parameters = False"
  by (simp_all add: default_parameters_def)

lemma env_failing_simps [simp]:
  "daemon env_fifo_out_fails = 0"
  "fifo_create_and_open env_fifo_out_fails name write = (if write then - 1 else 3)"
  "daemon env_spi_fails = 0"
  "fifo_create_and_open env_spi_fails name write = (if write then 4 else 3)"
  "spi_open_device env_spi_fails name = - 1"
  "daemon env_gpio_fails = 0"
  "fifo_create_and_open env_gpio_fails name write = (if write then 4 else 3)"
  "spi_open_device env_gpio_fails name = 5"
  "gpio_open env_gpio_fails num al = None"
  by (simp_all add: env_fifo_out_fails_def env_spi_fails_def env_gpio_fails_def env_ok_def)

section \<open>Failing setup\<close>

text \<open>Claim C6. A failing \<^verbatim>\<open>setup\<close> makes \<^verbatim>\<open>main\<close> return the failure status without
  any call of the main loop, and with no handle left open. Step by step: when the
  outbound pipe cannot be opened, the inbound pipe is closed and deleted; when the SPI
  device cannot be opened, the outbound and the inbound pipe are; when the GPIO cannot
  be opened, the SPI device is closed and then both pipes are. The calls are given in
  full, in their order.\<close>

theorem setup_failure_releases:
  fixes e :: env and p :: parameters
  defines "fin \<equiv> fifo_create_and_open e (fifo_in_name p) False"
    and "fout \<equiv> fifo_create_and_open e (fifo_out_name p) True"
    and "sfd \<equiv> spi_open_device e (spidev_name p)"
    and "pre \<equiv> Msg_enable_syslog (\<not> run_in_foreground p)
          # (if run_in_foreground p then [] else [Openlog ''dcpspi'', Daemon (daemon e)])
          @ [Log_version_info]"
  assumes "process_command_line e argv world0 = (0, p, w)"
  shows
  "(fst (setup' e p (locals0 e) world0) < 0 \<longrightarrow>
      fst (main e sched argv) = Done EXIT_FAILURE
      \<and> held (calls (snd (main e sched argv))) = []
      \<and> filter loop_call (calls (snd (main e sched argv))) = [])
   \<and> ((run_in_foreground p \<or> 0 \<le> daemon e) \<and> 0 \<le> fin \<and> fout < 0 \<longrightarrow>
      main e sched argv =
        (Done EXIT_FAILURE,
         world0\<lparr>calls := pre @
           [Fifo_create_and_open (fifo_in_name p) False fin,
            Fifo_create_and_open (fifo_out_name p) True fout,
            Fifo_close_and_delete fin (fifo_in_name p)]\<rparr>))
   \<and> ((run_in_foreground p \<or> 0 \<le> daemon e) \<and> 0 \<le> fin \<and> 0 \<le> fout \<and> \<not> dummy_mode p
       \<and> sfd < 0 \<longrightarrow>
      main e sched argv =
        (Done EXIT_FAILURE,
         world0\<lparr>calls := pre @
           [Fifo_create_and_open (fifo_in_name p) False fin,
            Fifo_create_and_open (fifo_out_name p) True fout,
            Spi_open_device (spidev_name p) sfd,
            Fifo_close_and_delete fout (fifo_out_name p),
            Fifo_close_and_delete fin (fifo_in_name p)]\<rparr>))
   \<and> ((run_in_foreground p \<or> 0 \<le> daemon e) \<and> 0 \<le> fin \<and> 0 \<le> fout \<and> \<not> dummy_mode p
       \<and> 0 \<le> sfd \<and> gpio_open e (gpio_num p) False = None \<longrightarrow>
      main e sched argv =
        (Done EXIT_FAILURE,
         world0\<lparr>calls := pre @
           [Fifo_create_and_open (fifo_in_name p) False fin,
            Fifo_create_and_open (fifo_out_name p) True fout,
            Spi_open_device (spidev_name p) sfd,
            Gpio_open (gpio_num p) False None,
            Spi_close_device sfd,
            Fifo_close_and_delete fout (fifo_out_name p),
            Fifo_close_and_delete fin (fifo_in_name p)]\<rparr>))"
proof -
  note m = main_accepted[OF assms(5), of sched]
  have w0: "calls world0 = []" "held [] = []" by (simp_all add: world0_def held_def)
  have general: "fst (main e sched argv) = Done EXIT_FAILURE
      \<and> held (calls (snd (main e sched argv))) = []
      \<and> filter loop_call (calls (snd (main e sched argv))) = []"
    if "fst (setup' e p (locals0 e) world0) < 0"
    using that m setup_failure_held[OF that] setup_frame(5)[of e p "locals0 e" world0] w0
    by (simp add: run_daemon_setup_fails)
  have fo: "main e sched argv =
        (Done EXIT_FAILURE,
         world0\<lparr>calls := pre @
           [Fifo_create_and_open (fifo_in_name p) False fin,
            Fifo_create_and_open (fifo_out_name p) True fout,
            Fifo_close_and_delete fin (fifo_in_name p)]\<rparr>)"
    if "run_in_foreground p \<or> 0 \<le> daemon e" "0 \<le> fin" "fout < 0"
    using that m unfolding fin_def fout_def pre_def
    by (simp add: run_daemon_def setup_daemonized setup_devices_fifo_out_fails w0)
  have sp: "main e sched argv =
        (Done EXIT_FAILURE,
         world0\<lparr>calls := pre @
           [Fifo_create_and_open (fifo_in_name p) False fin,
            Fifo_create_and_open (fifo_out_name p) True fout,
            Spi_open_device (spidev_name p) sfd,
            Fifo_close_and_delete fout (fifo_out_name p),
            Fifo_close_and_delete fin (fifo_in_name p)]\<rparr>)"
    if "run_in_foreground p \<or> 0 \<le> daemon e" "0 \<le> fin" "0 \<le> fout" "\<not> dummy_mode p" "sfd < 0"
    using that m unfolding fin_def fout_def pre_def sfd_def
    by (simp add: run_daemon_def setup_daemonized setup_devices_spi_fails w0)
  have gp: "main e sched argv =
        (Done EXIT_FAILURE,
         world0\<lparr>calls := pre @
           [Fifo_create_and_open (fifo_in_name p) False fin,
            Fifo_create_and_open (fifo_out_name p) True fout,
            Spi_open_device (spidev_name p) sfd,
            Gpio_open (gpio_num p) False None,
            Spi_close_device sfd,
            Fifo_close_and_delete fout (fifo_out_name p),
            Fifo_close_and_delete fin (fifo_in_name p)]\<rparr>)"
    if "run_in_foreground p \<or> 0 \<le> daemon e" "0 \<le> fin" "0 \<le> fout" "\<not> dummy_mode p"
      "0 \<le> sfd" "gpio_open e (gpio_num p) False = None"
    using that m unfolding fin_def fout_def pre_def sfd_def
    by (simp add: run_daemon_def setup_daemonized setup_devices_gpio_fails w0)
  from general fo sp gp show ?thesis by blast
qed


theorem setup_failure_releases_witness:
  "main env_fifo_out_fails [] [''dcpspi''] =
     (Done EXIT_FAILURE,
      world0\<lparr>calls :=
        [Msg_enable_syslog True, Openlog ''dcpspi'', Daemon 0, Log_version_info,
         Fifo_create_and_open ''/tmp/dcp_to_spi'' False 3,
         Fifo_create_and_open ''/tmp/spi_to_dcp'' True (- 1),
         Fifo_close_and_delete 3 ''/tmp/dcp_to_spi'']\<rparr>)
   \<and> held (calls (snd (main env_fifo_out_fails [] [''dcpspi'']))) = []
   \<and> main env_spi_fails [] [''dcpspi''] =
     (Done EXIT_FAILURE,
      world0\<lparr>calls :=
        [Msg_enable_syslog True, Openlog ''dcpspi'', Daemon 0, Log_version_info,
         Fifo_create_and_open ''/tmp/dcp_to_spi'' False 3,
         Fifo_create_and_open ''/tmp/spi_to_dcp'' True 4,
         Spi_open_device ''/dev/spidev0.0'' (- 1),
         Fifo_close_and_delete 4 ''/tmp/spi_to_dcp'',
         Fifo_close_and_delete 3 ''/tmp/dcp_to_spi'']\<rparr>)
   \<and> main env_gpio_fails [] [''dcpspi''] =
     (Done EXIT_FAILURE,
      world0\<lparr>calls :=
        [Msg_enable_syslog True, Openlog ''dcpspi'', Daemon 0, Log_version_info,
         Fifo_create_and_open ''/tmp/dcp_to_spi'' False 3,
         Fifo_create_and_open ''/tmp/spi_to_dcp'' True 4,
         Spi_open_device ''/dev/spidev0.0'' 5,
         Gpio_open 4 False None,
         Spi_close_device 5,
         Fifo_close_and_delete 4 ''/tmp/spi_to_dcp'',
         Fifo_close_and_delete 3 ''/tmp/dcp_to_spi'']\<rparr>)"
proof -
  have f: "fst (setup' env_fifo_out_fails default_parameters (locals0 env_fifo_out_fails) world0) < 0"
    by (simp add: setup_daemonized setup_devices_fifo_out_fails)
  from setup_failure_releases[OF pcl_no_arguments[of env_fifo_out_fails "''dcpspi''"], of "[]"]
    setup_failure_releases[OF pcl_no_arguments[of env_spi_fails "''dcpspi''"], of "[]"]
    setup_failure_releases[OF pcl_no_arguments[of env_gpio_fails "''dcpspi''"], of "[]"] f
  show ?thesis by (simp add: held_def)
qed

section \<open>Shutdown\<close>

text \<open>The calls of a whole run that came back from the main loop, by the mode.\<close>

lemma main_returned_calls:
  fixes e :: env and p :: parameters
  defines "fin \<equiv> fifo_create_and_open e (fifo_in_name p) False"
    and "fout \<equiv> fifo_create_and_open e (fifo_out_name p) True"
    and "sfd \<equiv> spi_open_device e (spidev_name p)"
    and "g \<equiv> gpio_open e (gpio_num p) False"
    and "pre \<equiv> Msg_enable_syslog (\<not> run_in_foreground p)
          # (if run_in_foreground p then [] else [Openlog ''dcpspi'', Daemon (daemon e)])
          @ [Log_version_info]"
  assumes acc: "process_command_line e argv world0 = (0, p, w)"
    and ok: "fst (setup' e p (locals0 e) world0) = 0"
    and ret: "fst (main e sched argv) = Done r"
  shows "\<exists>evs. list_all loop_call evs \<and> r = EXIT_SUCCESS \<and>
    calls (snd (main e sched argv)) =
      pre @ [Fifo_create_and_open (fifo_in_name p) False fin,
             Fifo_create_and_open (fifo_out_name p) True fout]
      @ (if dummy_mode p then []
         else Spi_open_device (spidev_name p) sfd # Gpio_open (gpio_num p) False g
              # (if gpio_needs_debouncing p then [Gpio_enable_debouncing g] else [])
              @ [Spi_set_speed_hz (spi_clock p)])
      @ [Sigemptyset, Sigaction SIGINT action, Sigaction SIGTERM action]
      @ evs
      @ Msg_info ''Terminated, shutting down''
      # (if dummy_mode p then [] else [Spi_close_device sfd])
      @ [Fifo_close_and_delete fin (fifo_in_name p), Fifo_close_and_delete fout (fifo_out_name p)]
      @ (if dummy_mode p then [] else [Gpio_close g])"
proof -
  note m = main_accepted[OF acc, of sched]
  obtain h w1 where s: "setup' e p (locals0 e) world0 = (0, h, w1)"
    using ok by (cases "setup' e p (locals0 e) world0") simp
  from run_daemon_entered[OF s, of sched] obtain st :: "unit run" and w5 evs where
    rd: "run_daemon e sched p world0 =
       (case st of Done u \<Rightarrow> (Done EXIT_SUCCESS, shutdown p h w5)
        | Killed sg \<Rightarrow> (Killed sg, w5) | Running \<Rightarrow> (Running, w5))"
    and c5: "calls w5 = calls w1 @ [Sigemptyset, Sigaction SIGINT action, Sigaction SIGTERM action] @ evs"
    and evs: "list_all loop_call evs"
    by blast
  from ret m rd have st: "r = EXIT_SUCCESS" "main e sched argv = (Done EXIT_SUCCESS, shutdown p h w5)"
    by (cases st; simp)+
  have w0: "calls world0 = []" by (simp add: world0_def)
  show ?thesis
  proof (rule setup_cases[where p = p and e = e])
    assume "run_in_foreground p \<or> 0 \<le> daemon e"
      "0 \<le> fifo_create_and_open e (fifo_in_name p) False"
      "0 \<le> fifo_create_and_open e (fifo_out_name p) True" "dummy_mode p"
    with s have "h = (locals0 e)\<lparr>fifo_in_fd := fin, fifo_out_fd := fout, spi_fd := - 1, gpio := None\<rparr>"
      "calls w1 = pre @ [Fifo_create_and_open (fifo_in_name p) False fin,
             Fifo_create_and_open (fifo_out_name p) True fout]" "dummy_mode p"
      unfolding fin_def fout_def pre_def
      by (auto simp: setup_daemonized setup_devices_dummy w0)
    with st c5 evs show ?thesis
      by (intro exI[of _ evs]) (simp add: shutdown_calls)
  next
    fix g' assume "run_in_foreground p \<or> 0 \<le> daemon e"
      "0 \<le> fifo_create_and_open e (fifo_in_name p) False"
      "0 \<le> fifo_create_and_open e (fifo_out_name p) True" "\<not> dummy_mode p"
      "0 \<le> spi_open_device e (spidev_name p)" "gpio_open e (gpio_num p) False = Some g'"
    with s have "h = (locals0 e)\<lparr>fifo_in_fd := fin, fifo_out_fd := fout, spi_fd := sfd, gpio := g\<rparr>"
      "calls w1 = pre @ [Fifo_create_and_open (fifo_in_name p) False fin,
             Fifo_create_and_open (fifo_out_name p) True fout,
             Spi_open_device (spidev_name p) sfd, Gpio_open (gpio_num p) False g]
             @ (if gpio_needs_debouncing p then [Gpio_enable_debouncing g] else [])
             @ [Spi_set_speed_hz (spi_clock p)]" "\<not> dummy_mode p"
      unfolding fin_def fout_def pre_def sfd_def g_def
      by (auto simp: setup_daemonized setup_devices_ok w0)
    with st c5 evs show ?thesis
      by (intro exI[of _ evs]) (simp add: shutdown_calls)
  qed (use s in \<open>simp_all add: setup_by_case\<close>)
qed


text \<open>With \<^verbatim>\<open>setup\<close> done, quiet turns and then a turn with signals bring \<^verbatim>\<open>main\<close>
  back with the success status.\<close>

lemma run_daemon_signalled:
  assumes "fst (setup' e p (locals0 e) w) = 0" "sgs \<noteq> []" "distinct sgs"
  shows "fst (run_daemon e (replicate k [] @ sgs # later) p w) = Done EXIT_SUCCESS"
proof -
  obtain h w1 where s: "setup' e p (locals0 e) w = (0, h, w1)"
    using assms(1) by (cases "setup' e p (locals0 e) w") simp
  let ?w4 = "sigaction SIGTERM action (sigaction SIGINT action (emit Sigemptyset w1))"
  let ?w3 = "(case gpio h of
                  None \<Rightarrow> emit (Reset_transaction_struct True) (emit (Msg_info ''Accepting traffic'') ?w4)
                | Some gh \<Rightarrow>
                    emit (Gpio_is_active gh (gpio_is_active e gh))
                      (emit (Gpio_get_poll_fd gh (gpio_get_poll_fd e gh))
                        (emit (Reset_transaction_struct True)
                          (emit (Msg_info ''Accepting traffic'') ?w4))))"
  have d: "disposition_of SIGINT ?w3 = Installed action"
    "disposition_of SIGTERM ?w3 = Installed action"
    by (cases "gpio h"; simp add: sigaction_def)+
  have "fst (main_loop e (replicate k [] @ sgs # later) (fifo_in_fd h) (fifo_out_fd h) (spi_fd h)
     (gpio h) ?w4) = Done ()"
    unfolding main_loop_def Let_def
    by (rule main_loop_while_signalled[OF d assms(2,3)])
  then show ?thesis using s
    by (cases "main_loop e (replicate k [] @ sgs # later) (fifo_in_fd h) (fifo_out_fd h) (spi_fd h)
     (gpio h) ?w4") (simp add: run_daemon_def Let_def)
qed

lemma pcl_spidev_dash:
  "process_command_line e [prog, ''--spidev'', ''-''] world0
     = (0, default_parameters\<lparr>spidev_name := ''-'', dummy_mode := True\<rparr>, world0)"
  by (simp add: process_command_line_def char_at_def)

lemma setup_env_ok:
  "fst (setup' env_ok default_parameters (locals0 env_ok) world0) = 0"
  "fst (setup' env_ok (default_parameters\<lparr>spidev_name := ''-'', dummy_mode := True\<rparr>)
     (locals0 env_ok) world0) = 0"
  by (simp_all add: setup_daemonized setup_devices_ok setup_devices_dummy)

text \<open>Claim C7. In a run in which \<^verbatim>\<open>setup\<close> succeeds and \<^verbatim>\<open>main\<close> returns, every handle
  is opened once and closed once. Before the message that announces the shutdown, the
  calls that open or close anything are the two that open the pipes and, outside dummy
  mode, the one that opens the SPI device and the one that opens the GPIO, in this
  order. From that message on, the calls are: outside dummy mode the close of the SPI
  device, then the close-and-delete of the inbound and of the outbound pipe, then,
  outside dummy mode, the close of the GPIO; each with the handle its open returned.
  No handle is left open, and the status is success.\<close>

theorem handles_closed_once:
  fixes e :: env and p :: parameters
  defines "fin \<equiv> fifo_create_and_open e (fifo_in_name p) False"
    and "fout \<equiv> fifo_create_and_open e (fifo_out_name p) True"
    and "sfd \<equiv> spi_open_device e (spidev_name p)"
    and "g \<equiv> gpio_open e (gpio_num p) False"
    and "before_shutdown \<equiv> (\<lambda>c. c \<noteq> Msg_info ''Terminated, shutting down'')"
  assumes acc: "process_command_line e argv world0 = (0, p, w)"
    and ok: "fst (setup' e p (locals0 e) world0) = 0"
    and ret: "fst (main e sched argv) = Done r"
  shows "r = EXIT_SUCCESS
    \<and> filter resource_call (takeWhile before_shutdown (calls (snd (main e sched argv)))) =
        [Fifo_create_and_open (fifo_in_name p) False fin,
         Fifo_create_and_open (fifo_out_name p) True fout]
        @ (if dummy_mode p then []
           else [Spi_open_device (spidev_name p) sfd, Gpio_open (gpio_num p) False g])
    \<and> dropWhile before_shutdown (calls (snd (main e sched argv))) =
        Msg_info ''Terminated, shutting down''
        # (if dummy_mode p then [] else [Spi_close_device sfd])
        @ [Fifo_close_and_delete fin (fifo_in_name p),
           Fifo_close_and_delete fout (fifo_out_name p)]
        @ (if dummy_mode p then [] else [Gpio_close g])
    \<and> held (calls (snd (main e sched argv))) = []"
proof -
  from main_returned_calls[OF acc ok ret] obtain evs where
    evs: "list_all loop_call evs" and r: "r = EXIT_SUCCESS" and
    c: "calls (snd (main e sched argv)) =
      (Msg_enable_syslog (\<not> run_in_foreground p)
          # (if run_in_foreground p then [] else [Openlog ''dcpspi'', Daemon (daemon e)])
          @ [Log_version_info]) @ [Fifo_create_and_open (fifo_in_name p) False fin,
             Fifo_create_and_open (fifo_out_name p) True fout]
      @ (if dummy_mode p then []
         else Spi_open_device (spidev_name p) sfd # Gpio_open (gpio_num p) False g
              # (if gpio_needs_debouncing p then [Gpio_enable_debouncing g] else [])
              @ [Spi_set_speed_hz (spi_clock p)])
      @ [Sigemptyset, Sigaction SIGINT action, Sigaction SIGTERM action]
      @ evs
      @ Msg_info ''Terminated, shutting down''
      # (if dummy_mode p then [] else [Spi_close_device sfd])
      @ [Fifo_close_and_delete fin (fifo_in_name p), Fifo_close_and_delete fout (fifo_out_name p)]
      @ (if dummy_mode p then [] else [Gpio_close g])"
    unfolding fin_def fout_def sfd_def g_def by blast
  have g: "\<not> dummy_mode p \<Longrightarrow> g \<noteq> None"
    using ok unfolding g_def
    by (rule_tac setup_cases[where p = p and e = e]) (simp_all add: setup_by_case)
  note lc = loop_calls_other[OF evs]
  have 1: "filter resource_call (takeWhile before_shutdown (calls (snd (main e sched argv)))) =
        [Fifo_create_and_open (fifo_in_name p) False fin,
         Fifo_create_and_open (fifo_out_name p) True fout]
        @ (if dummy_mode p then []
           else [Spi_open_device (spidev_name p) sfd, Gpio_open (gpio_num p) False g])"
    unfolding c before_shutdown_def by (simp add: lc)
  have 2: "dropWhile before_shutdown (calls (snd (main e sched argv))) =
        Msg_info ''Terminated, shutting down''
        # (if dummy_mode p then [] else [Spi_close_device sfd])
        @ [Fifo_close_and_delete fin (fifo_in_name p),
           Fifo_close_and_delete fout (fifo_out_name p)]
        @ (if dummy_mode p then [] else [Gpio_close g])"
    unfolding c before_shutdown_def by (simp add: lc)
  have 3: "held (calls (snd (main e sched argv))) = []"
    using ok g unfolding c
    by (rule_tac setup_cases[where p = p and e = e])
       (auto simp: held_def lc setup_by_case fin_def fout_def sfd_def)
  from r 1 2 3 show ?thesis by simp
qed


theorem handles_closed_once_witness:
  "filter resource_call
     (takeWhile (\<lambda>c. c \<noteq> Msg_info ''Terminated, shutting down'')
        (calls (snd (main env_ok [[SIGTERM]] [''dcpspi''])))) =
     [Fifo_create_and_open ''/tmp/dcp_to_spi'' False 3,
      Fifo_create_and_open ''/tmp/spi_to_dcp'' True 4,
      Spi_open_device ''/dev/spidev0.0'' 5,
      Gpio_open 4 False (Some (Gpio_handle 4))]
   \<and> dropWhile (\<lambda>c. c \<noteq> Msg_info ''Terminated, shutting down'')
        (calls (snd (main env_ok [[SIGTERM]] [''dcpspi'']))) =
     [Msg_info ''Terminated, shutting down'', Spi_close_device 5,
      Fifo_close_and_delete 3 ''/tmp/dcp_to_spi'',
      Fifo_close_and_delete 4 ''/tmp/spi_to_dcp'',
      Gpio_close (Some (Gpio_handle 4))]
   \<and> held (calls (snd (main env_ok [[SIGTERM]] [''dcpspi'']))) = []
   \<and> filter resource_call
     (takeWhile (\<lambda>c. c \<noteq> Msg_info ''Terminated, shutting down'')
        (calls (snd (main env_ok [[SIGTERM]] [''dcpspi'', ''--spidev'', ''-''])))) =
     [Fifo_create_and_open ''/tmp/dcp_to_spi'' False 3,
      Fifo_create_and_open ''/tmp/spi_to_dcp'' True 4]
   \<and> dropWhile (\<lambda>c. c \<noteq> Msg_info ''Terminated, shutting down'')
        (calls (snd (main env_ok [[SIGTERM]] [''dcpspi'', ''--spidev'', ''-'']))) =
     [Msg_info ''Terminated, shutting down'',
      Fifo_close_and_delete 3 ''/tmp/dcp_to_spi'',
      Fifo_close_and_delete 4 ''/tmp/spi_to_dcp'']"
proof -
  have r1: "fst (main env_ok [[SIGTERM]] [''dcpspi'']) = Done EXIT_SUCCESS"
    using run_daemon_signalled[OF setup_env_ok(1), of "[SIGTERM]" 0 "[]"]
    by (simp add: main_accepted[OF pcl_no_arguments])
  have r2: "fst (main env_ok [[SIGTERM]] [''dcpspi'', ''--spidev'', ''-'']) = Done EXIT_SUCCESS"
    using run_daemon_signalled[OF setup_env_ok(2), of "[SIGTERM]" 0 "[]"]
    by (simp add: main_accepted[OF pcl_spidev_dash])
  from handles_closed_once[OF pcl_no_arguments setup_env_ok(1) r1]
    handles_closed_once[OF pcl_spidev_dash setup_env_ok(2) r2]
  show ?thesis by simp
qed

section \<open>Dummy mode\<close>

lemma pcl_dummy:
  assumes "process_command_line e argv w = (0, p, w')" "spidev_name p = ''-''"
  shows "dummy_mode p"
  using assms
  by (auto simp: process_command_line_def char_at_def dest: pa_codes
      split: prod.splits option.splits if_splits)

lemma loop_trace_no_hardware:
  "loop_trace_returned evs \<or> loop_trace_turning evs \<Longrightarrow> filter hardware_call evs = []"
  by (induction evs rule: loop_trace_returned.induct) (auto split: if_splits)

lemma main_loop_while_no_hardware:
  "\<exists>evs. calls (snd (main_loop_while e sched n fi fo sp t r w)) = calls w @ evs
     \<and> filter hardware_call evs = []"
  using main_loop_while_trace[of e sched n fi fo sp t r w] loop_trace_no_hardware
  by (metis (full_types))

text \<open>The first turn of the loop when no signal has arrived.\<close>

lemma main_loop_while_first:
  assumes "keep_running w"
  shows "\<exists>evs. calls (snd (main_loop_while e ([] # later) n fi fo sp t r w)) =
     calls w @ [Read_keep_running True,
                Dcpspi_process fi fo sp t r (fst (dcpspi_process e n fi fo sp t r))] @ evs
     \<and> filter hardware_call evs = []"
proof -
  obtain ret t' r' where s: "dcpspi_process e n fi fo sp t r = (ret, t', r')"
    by (cases "dcpspi_process e n fi fo sp t r")
  let ?w2 = "emit (Dcpspi_process fi fo sp t r ret) (emit (Read_keep_running True) w)"
  show ?thesis
  proof (cases ret)
    case False
    with s assms show ?thesis by simp
  next
    case True
    from main_loop_while_no_hardware[of e later "Suc n" fi fo sp t' r' ?w2] obtain evs where
      "calls (snd (main_loop_while e later (Suc n) fi fo sp t' r' ?w2)) = calls ?w2 @ evs"
      "filter hardware_call evs = []" by blast
    with s assms True show ?thesis by simp
  qed
qed


text \<open>Claim C3. When the command line is accepted and leaves \<^verbatim>\<open>-\<close> as the name of the SPI
  device, dummy mode is on. Provided the process can detach and both pipes can be
  opened, \<^verbatim>\<open>setup\<close> then succeeds with \<^verbatim>\<open>spi_fd\<close> -1 and a NULL \<^verbatim>\<open>gpio\<close>, having
  opened the two pipes and nothing else; no call of the whole run touches the SPI device
  or the GPIO; and the main loop runs: unless a signal has arrived before it, the first
  turn reads the flag and calls \<^verbatim>\<open>dcpspi_process\<close> with the two pipes, -1 for the bus
  and request data that say "not running for real".\<close>

theorem dummy_mode_no_hardware:
  fixes e :: env and p :: parameters
  defines "fin \<equiv> fifo_create_and_open e (fifo_in_name p) False"
    and "fout \<equiv> fifo_create_and_open e (fifo_out_name p) True"
    and "pre \<equiv> Msg_enable_syslog (\<not> run_in_foreground p)
          # (if run_in_foreground p then [] else [Openlog ''dcpspi'', Daemon (daemon e)])
          @ [Log_version_info]"
    and "t0 \<equiv> reset_transaction_struct e transaction_initial True"
  assumes acc: "process_command_line e argv world0 = (0, p, w)"
    and dash: "spidev_name p = ''-''"
    and detached: "run_in_foreground p \<or> 0 \<le> daemon e"
    and pipes: "0 \<le> fin" "0 \<le> fout"
  shows "dummy_mode p
    \<and> setup' e p (locals0 e) world0 =
        (0, (locals0 e)\<lparr>fifo_in_fd := fin, fifo_out_fd := fout, spi_fd := - 1, gpio := None\<rparr>,
         world0\<lparr>calls := pre @ [Fifo_create_and_open (fifo_in_name p) False fin,
                                Fifo_create_and_open (fifo_out_name p) True fout]\<rparr>)
    \<and> filter hardware_call (calls (snd (main e sched argv))) = []
    \<and> (\<exists>evs. calls (snd (main e ([] # later) argv)) =
          pre @ [Fifo_create_and_open (fifo_in_name p) False fin,
                 Fifo_create_and_open (fifo_out_name p) True fout,
                 Sigemptyset, Sigaction SIGINT action, Sigaction SIGTERM action,
                 Msg_info ''Accepting traffic'', Reset_transaction_struct True,
                 Read_keep_running True,
                 Dcpspi_process fin fout (- 1) t0 rldata_dummy
                   (fst (dcpspi_process e 0 fin fout (- 1) t0 rldata_dummy))] @ evs)"
proof -
  have dm: "dummy_mode p" using acc dash by (rule pcl_dummy)
  have w0: "calls world0 = []" "keep_running world0" by (simp_all add: world0_def)
  let ?h = "(locals0 e)\<lparr>fifo_in_fd := fin, fifo_out_fd := fout, spi_fd := - 1, gpio := None\<rparr>"
  let ?w1 = "world0\<lparr>calls := pre @ [Fifo_create_and_open (fifo_in_name p) False fin,
                                Fifo_create_and_open (fifo_out_name p) True fout]\<rparr>"
  have s: "setup' e p (locals0 e) world0 = (0, ?h, ?w1)"
    using detached pipes dm unfolding fin_def fout_def pre_def
    by (simp add: setup_daemonized setup_devices_dummy w0)
  let ?w4 = "sigaction SIGTERM action (sigaction SIGINT action (emit Sigemptyset ?w1))"
  let ?w3 = "emit (Reset_transaction_struct True) (emit (Msg_info ''Accepting traffic'') ?w4)"
  have ml: "main_loop e sch fin fout (- 1) None ?w4 =
      main_loop_while e sch 0 fin fout (- 1) t0 rldata_dummy ?w3" for sch
    by (simp add: main_loop_def Let_def t0_def transaction_initial_def rldata_dummy_def)
  have c3: "calls ?w3 = pre @ [Fifo_create_and_open (fifo_in_name p) False fin,
                 Fifo_create_and_open (fifo_out_name p) True fout,
                 Sigemptyset, Sigaction SIGINT action, Sigaction SIGTERM action,
                 Msg_info ''Accepting traffic'', Reset_transaction_struct True]"
    by (simp add: sigaction_def)
  have k3: "keep_running ?w3" by (simp add: sigaction_def w0)
  have h3: "filter hardware_call (calls ?w3) = []"
    by (simp add: sigaction_def pre_def)
  have rd: "run_daemon e sch p world0 =
      (case main_loop_while e sch 0 fin fout (- 1) t0 rldata_dummy ?w3 of
         (Done u, w5) \<Rightarrow> (Done EXIT_SUCCESS, shutdown p ?h w5)
       | (Killed sg, w5) \<Rightarrow> (Killed sg, w5)
       | (Running, w5) \<Rightarrow> (Running, w5))" for sch
    using s ml[of sch] by (simp add: run_daemon_def Let_def)
  have tail: "\<exists>evs. calls (snd (run_daemon e sch p world0)) =
        calls (snd (main_loop_while e sch 0 fin fout (- 1) t0 rldata_dummy ?w3)) @ evs
        \<and> filter hardware_call evs = []" for sch
    unfolding rd using dm
    by (cases "main_loop_while e sch 0 fin fout (- 1) t0 rldata_dummy ?w3")
       (auto simp: shutdown_calls split: run.splits)
  have nohw: "filter hardware_call (calls (snd (main e sched argv))) = []"
  proof -
    from main_loop_while_no_hardware[of e sched 0 fin fout "- 1" t0 rldata_dummy ?w3] obtain evs
      where "calls (snd (main_loop_while e sched 0 fin fout (- 1) t0 rldata_dummy ?w3)) = calls ?w3 @ evs"
        "filter hardware_call evs = []" by blast
    moreover from tail[of sched] obtain evs' where
      "calls (snd (run_daemon e sched p world0)) =
         calls (snd (main_loop_while e sched 0 fin fout (- 1) t0 rldata_dummy ?w3)) @ evs'"
      "filter hardware_call evs' = []" by blast
    ultimately show ?thesis using h3 by (simp add: main_accepted[OF acc])
  qed
  have first: "\<exists>evs. calls (snd (main e ([] # later) argv)) =
          pre @ [Fifo_create_and_open (fifo_in_name p) False fin,
                 Fifo_create_and_open (fifo_out_name p) True fout,
                 Sigemptyset, Sigaction SIGINT action, Sigaction SIGTERM action,
                 Msg_info ''Accepting traffic'', Reset_transaction_struct True,
                 Read_keep_running True,
                 Dcpspi_process fin fout (- 1) t0 rldata_dummy
                   (fst (dcpspi_process e 0 fin fout (- 1) t0 rldata_dummy))] @ evs"
  proof -
    from main_loop_while_first[OF k3, of e later 0 fin fout "- 1" t0 rldata_dummy] obtain evs
      where "calls (snd (main_loop_while e ([] # later) 0 fin fout (- 1) t0 rldata_dummy ?w3)) =
         calls ?w3 @ [Read_keep_running True,
                Dcpspi_process fin fout (- 1) t0 rldata_dummy
                  (fst (dcpspi_process e 0 fin fout (- 1) t0 rldata_dummy))] @ evs" by blast
    moreover from tail[of "[] # later"] obtain evs' where
      "calls (snd (run_daemon e ([] # later) p world0)) =
         calls (snd (main_loop_while e ([] # later) 0 fin fout (- 1) t0 rldata_dummy ?w3)) @ evs'"
      by blast
    ultimately show ?thesis
      unfolding c3 by (simp add: main_accepted[OF acc])
  qed
  from dm s nohw first show ?thesis by blast
qed


theorem dummy_mode_no_hardware_witness:
  "dummy_mode (fst (snd (process_command_line env_ok [''dcpspi'', ''--spidev'', ''-''] world0)))
   \<and> setup' env_ok (default_parameters\<lparr>spidev_name := ''-'', dummy_mode := True\<rparr>)
         (locals0 env_ok) world0 =
       (0, (locals0 env_ok)\<lparr>fifo_in_fd := 3, fifo_out_fd := 4, spi_fd := - 1, gpio := None\<rparr>,
        world0\<lparr>calls :=
          [Msg_enable_syslog True, Openlog ''dcpspi'', Daemon 0, Log_version_info,
           Fifo_create_and_open ''/tmp/dcp_to_spi'' False 3,
           Fifo_create_and_open ''/tmp/spi_to_dcp'' True 4]\<rparr>)
   \<and> filter hardware_call
         (calls (snd (main env_ok [[], [SIGTERM]] [''dcpspi'', ''--spidev'', ''-'']))) = []
   \<and> (\<exists>evs. calls (snd (main env_ok [[], [SIGTERM]] [''dcpspi'', ''--spidev'', ''-''])) =
          [Msg_enable_syslog True, Openlog ''dcpspi'', Daemon 0, Log_version_info,
           Fifo_create_and_open ''/tmp/dcp_to_spi'' False 3,
           Fifo_create_and_open ''/tmp/spi_to_dcp'' True 4,
           Sigemptyset, Sigaction SIGINT action, Sigaction SIGTERM action,
           Msg_info ''Accepting traffic'', Reset_transaction_struct True,
           Read_keep_running True,
           Dcpspi_process 3 4 (- 1) (reset_transaction_struct env_ok transaction_initial True)
             rldata_dummy True] @ evs)"
  using dummy_mode_no_hardware[OF pcl_spidev_dash[of env_ok "''dcpspi''"],
      of "[[], [SIGTERM]]" "[[SIGTERM]]"]
  by (simp add: pcl_spidev_dash)

section \<open>The buffers\<close>

lemma sizeof_backing_buffers:
  "sizeof dcp_backing_buffer = 266" "sizeof spi_backing_buffer = 520"
  by (simp_all add: sizeof_def dcp_backing_buffer_def spi_backing_buffer_def
      DCPSYNC_HEADER_SIZE_def DCP_HEADER_SIZE_def DCP_PAYLOAD_MAXSIZE_def)

lemma capacity_initial: "capacity transaction_initial = (266, 266, 520, 520)"
  using sizeof_backing_buffers by (simp add: capacity_def transaction_initial_def sizeof_def)

text \<open>Only the calls of \<^verbatim>\<open>dcpspi_process\<close> count, and they are calls of the loop.\<close>

lemma handed_on_filter: "handed_on e n t (filter loop_call cs) = handed_on e n t cs"
  by (induction e n t cs rule: handed_on.induct) simp_all

lemma handed_on_append_left:
  "filter loop_call cs = [] \<Longrightarrow> handed_on e n t (cs @ ds) = handed_on e n t ds"
  using handed_on_filter[of e n t "cs @ ds"] handed_on_filter[of e n t ds] by simp

lemma handed_on_append_right:
  "filter loop_call ds = [] \<Longrightarrow> handed_on e n t (cs @ ds) = handed_on e n t cs"
  using handed_on_filter[of e n t "cs @ ds"] handed_on_filter[of e n t cs] by simp

lemma handed_on_none: "filter loop_call cs = [] \<Longrightarrow> handed_on e n t cs"
  using handed_on_filter[of e n t cs] by simp

lemma main_loop_while_handed_on:
  "\<exists>evs. calls (snd (main_loop_while e sched n fi fo sp t r w)) = calls w @ evs
     \<and> handed_on e n t evs"
proof (induction sched arbitrary: n t r w)
  case Nil
  then show ?case by simp
next
  case (Cons arrived later)
  obtain k w1 where d: "deliver_all arrived w = (k, w1)"
    by (cases "deliver_all arrived w")
  with deliver_all_calls[of arrived w] have c1: "calls w1 = calls w" by simp
  obtain ret t' r' where s: "dcpspi_process e n fi fo sp t r = (ret, t', r')"
    by (cases "dcpspi_process e n fi fo sp t r")
  let ?w2 = "emit (Dcpspi_process fi fo sp t r ret) (emit (Read_keep_running True) w1)"
  from Cons.IH[of "Suc n" t' r' ?w2] obtain evs where
    evs: "calls (snd (main_loop_while e later (Suc n) fi fo sp t' r' ?w2)) = calls ?w2 @ evs"
    "handed_on e (Suc n) t' evs" by blast
  show ?case
  proof (cases "k = None \<and> keep_running w1 \<and> ret")
    case True
    with d s c1 evs show ?thesis by simp
  next
    case False
    with d s c1 show ?thesis by (cases k) auto
  qed
qed

lemma main_loop_handed_on:
  "\<exists>evs. calls (snd (main_loop e sched fi fo sp g w)) = calls w @ evs
     \<and> handed_on e 0 (reset_transaction_struct e transaction_initial True) evs"
proof -
  let ?w3 = "(case g of
                  None \<Rightarrow> emit (Reset_transaction_struct True) (emit (Msg_info ''Accepting traffic'') w)
                | Some gh \<Rightarrow>
                    emit (Gpio_is_active gh (gpio_is_active e gh))
                      (emit (Gpio_get_poll_fd gh (gpio_get_poll_fd e gh))
                        (emit (Reset_transaction_struct True) (emit (Msg_info ''Accepting traffic'') w))))"
  let ?t = "reset_transaction_struct e transaction_initial True"
  have "\<exists>pre. calls ?w3 = calls w @ pre \<and> (\<forall>evs. handed_on e 0 ?t (pre @ evs) = handed_on e 0 ?t evs)"
    by (cases g) simp_all
  then obtain pre where pre: "calls ?w3 = calls w @ pre"
    "\<And>evs. handed_on e 0 ?t (pre @ evs) = handed_on e 0 ?t evs" by blast
  obtain r where
    m: "main_loop e sched fi fo sp g w = main_loop_while e sched 0 fi fo sp ?t r ?w3"
    by (simp add: main_loop_def Let_def transaction_initial_def)
  from main_loop_while_handed_on[of e sched 0 fi fo sp ?t r ?w3] obtain evs where
    "calls (snd (main_loop_while e sched 0 fi fo sp ?t r ?w3)) = calls ?w3 @ evs"
    "handed_on e 0 ?t evs" by blast
  with pre m show ?thesis
    by (intro exI[of _ "pre @ evs"]) simp
qed

lemma run_daemon_handed_on:
  assumes "filter loop_call (calls w) = []"
  shows "handed_on e 0 (reset_transaction_struct e transaction_initial True)
           (calls (snd (run_daemon e sched p w)))"
proof -
  let ?t = "reset_transaction_struct e transaction_initial True"
  obtain sret h w1 where s: "setup' e p (locals0 e) w = (sret, h, w1)"
    by (cases "setup' e p (locals0 e) w")
  have w1: "filter loop_call (calls w1) = []"
    using setup_frame(5)[of e p "locals0 e" w] s assms by simp
  let ?w4 = "sigaction SIGTERM action (sigaction SIGINT action (emit Sigemptyset w1))"
  have w4: "filter loop_call (calls ?w4) = []"
    using w1 by (simp add: sigaction_def)
  from main_loop_handed_on[of e sched "fifo_in_fd h" "fifo_out_fd h" "spi_fd h" "gpio h" ?w4]
  obtain evs where evs:
    "calls (snd (main_loop e sched (fifo_in_fd h) (fifo_out_fd h) (spi_fd h) (gpio h) ?w4))
       = calls ?w4 @ evs" "handed_on e 0 ?t evs" by blast
  show ?thesis
  proof (cases "sret < 0")
    case True
    with s w1 show ?thesis by (simp add: run_daemon_def handed_on_none)
  next
    case False
    obtain st w5 where ml:
      "main_loop e sched (fifo_in_fd h) (fifo_out_fd h) (spi_fd h) (gpio h) ?w4 = (st, w5)"
      by (cases "main_loop e sched (fifo_in_fd h) (fifo_out_fd h) (spi_fd h) (gpio h) ?w4")
    with evs w4 have w5: "handed_on e 0 ?t (calls w5)"
      using handed_on_append_left[OF w4, of e 0 ?t evs] by simp
    have "filter loop_call (drop (length (calls w5)) (calls (shutdown p h w5))) = []"
      by (simp add: shutdown_calls)
    moreover have "calls (shutdown p h w5) = calls w5 @ drop (length (calls w5)) (calls (shutdown p h w5))"
      by (simp add: shutdown_calls)
    ultimately have "handed_on e 0 ?t (calls (shutdown p h w5))"
      using w5 handed_on_append_right by metis
    with False s ml w5 show ?thesis
      by (cases st) (simp_all add: run_daemon_def Let_def)
  qed
qed

text \<open>Reading the command line adds no call of the main loop.\<close>

lemma pa_no_loop_calls:
  "filter loop_call (calls (snd (snd (process_arguments e xs p w)))) = filter loop_call (calls w)"
proof (induction xs p w rule: pa_induct)
  case (missing opt p w)
  then show ?case by (simp add: pa_missing CHECK_ARGUMENT_failed_def)
next
  case (opt_spiclk v rest p w)
  then show ?case by (auto split: prod.splits simp: invalid_value_def)
next
  case (opt_gpio v rest p w)
  then show ?case by (auto split: prod.splits simp: invalid_value_def)
qed (simp_all add: unknown_option_def CHECK_ARGUMENT_failed_def)

lemma pcl_no_loop_calls:
  "filter loop_call (calls (snd (snd (process_command_line e argv w)))) = filter loop_call (calls w)"
  using pa_no_loop_calls[of e "drop 1 argv" default_parameters w]
  by (cases "process_arguments e (drop 1 argv) default_parameters w")
     (auto simp: process_command_line_def split: option.splits)

lemma main_handed_on:
  "handed_on e 0 (reset_transaction_struct e transaction_initial True)
     (calls (snd (main e sched argv)))"
proof -
  obtain ret p w where pcl: "process_command_line e argv world0 = (ret, p, w)"
    by (cases "process_command_line e argv world0")
  from pcl_no_loop_calls[of e argv world0] pcl have w: "filter loop_call (calls w) = []"
    by (simp add: world0_def)
  from run_daemon_handed_on[OF w] w pcl show ?thesis
    by (simp add: main_def usage_def show_version_info_def handed_on_none)
qed

text \<open>If the steps keep the capacities, every step is given them.\<close>

lemma handed_on_capacities:
  "handed_on e n t cs \<Longrightarrow> capacity t = (266, 266, 520, 520) \<Longrightarrow>
   \<forall>n fi fo sp t r. capacity t = (266, 266, 520, 520) \<longrightarrow>
      capacity (fst (snd (dcpspi_process e n fi fo sp t r))) = (266, 266, 520, 520) \<Longrightarrow>
   list_all capacities_fixed cs"
  by (induction e n t cs rule: handed_on.induct) simp_all

text \<open>The operations on a buffer keep its capacity.\<close>

lemma arena_apply_capacity:
  assumes "arena_apply a b = Inr b'" "size' b \<le> length (buffer b)"
  shows "size' b' = size' b" "length (buffer b') = length (buffer b)"
  using assms by (cases a; auto split: if_splits)+

lemma arena_run_capacity:
  "size' b \<le> length (buffer b) \<Longrightarrow>
   size' (snd (arena_run ops b)) = size' b
   \<and> length (buffer (snd (arena_run ops b))) = length (buffer b)"
proof (induction ops arbitrary: b)
  case Nil
  then show ?case by simp
next
  case (Cons a ops)
  show ?case
  proof (cases "arena_apply a b")
    case (Inl err)
    then show ?thesis by simp
  next
    case (Inr b')
    from arena_apply_capacity[OF Inr Cons.prems] Cons.IH[of b'] Cons.prems Inr
    show ?thesis by simp
  qed
qed

lemma engine_step_capacity:
  assumes "capacity t = (266, 266, 520, 520)"
  shows "capacity (fst (snd (engine_step plan t))) = (266, 266, 520, 520)"
proof -
  obtain dcp_ops spi_ops r' ret where plan: "plan = (dcp_ops, spi_ops, r', ret)"
    by (cases plan)
  from assms have "size' (dcp_buffer t) \<le> length (buffer (dcp_buffer t))"
    "size' (spi_buffer t) \<le> length (buffer (spi_buffer t))"
    by (simp_all add: capacity_def)
  from arena_run_capacity[OF this(1), of dcp_ops] arena_run_capacity[OF this(2), of spi_ops] assms
  show ?thesis by (simp add: plan engine_step_def capacity_def)
qed

lemma engine_reset_capacity: "capacity (engine_reset t full) = capacity t"
  by (simp add: engine_reset_def capacity_def)

lemma with_engine_simps [simp]:
  "ulong_max (with_engine plans e) = ulong_max e"
  "locals0 (with_engine plans e) = locals0 e"
  "daemon (with_engine plans e) = daemon e"
  "fifo_create_and_open (with_engine plans e) = fifo_create_and_open e"
  "spi_open_device (with_engine plans e) = spi_open_device e"
  "gpio_open (with_engine plans e) = gpio_open e"
  "gpio_get_poll_fd (with_engine plans e) = gpio_get_poll_fd e"
  "gpio_is_active (with_engine plans e) = gpio_is_active e"
  "reset_transaction_struct (with_engine plans e) = engine_reset"
  "dcpspi_process (with_engine plans e) n fi fo sp t r = engine_step (plans n fi fo sp t r) t"
  by (simp_all add: with_engine_def)

lemma main_with_engine_capacities:
  "list_all capacities_fixed (calls (snd (main (with_engine plans e) sched argv)))"
proof -
  have "capacity (reset_transaction_struct (with_engine plans e) transaction_initial True)
      = (266, 266, 520, 520)"
    by (simp add: engine_reset_capacity capacity_initial)
  moreover have "capacity (fst (snd (dcpspi_process (with_engine plans e) n fi fo sp t r)))
      = (266, 266, 520, 520)" if "capacity t = (266, 266, 520, 520)" for n fi fo sp t r
    using that by (simp add: engine_step_capacity)
  ultimately show ?thesis
    using main_handed_on[of "with_engine plans e" sched argv]
    by (intro handed_on_capacities[where e = "with_engine plans e" and n = 0]) blast+
qed

text \<open>Escape stuffing at most doubles a frame, and doubles one of escape bytes only.\<close>

lemma encode_length: "length (encode sq raw) \<le> 2 * length raw"
  by (induction raw) simp_all

lemma encode_escapes:
  "unat b = DCP_ESCAPE_CHARACTER \<Longrightarrow> length (encode sq (replicate n b)) = 2 * n"
  by (induction n) simp_all


text \<open>The first turn of \<^verbatim>\<open>main_loop\<close> when no signal has arrived.\<close>

lemma main_loop_first:
  assumes k: "keep_running w"
  shows "\<exists>r evs. calls (snd (main_loop e ([] # later) fi fo sp g w)) =
           calls w @ Msg_info ''Accepting traffic'' # Reset_transaction_struct True
             # (case g of None \<Rightarrow> []
                | Some gh \<Rightarrow> [Gpio_get_poll_fd gh (gpio_get_poll_fd e gh),
                              Gpio_is_active gh (gpio_is_active e gh)])
             @ [Read_keep_running True,
                Dcpspi_process fi fo sp (reset_transaction_struct e transaction_initial True) r
                  (fst (dcpspi_process e 0 fi fo sp
                     (reset_transaction_struct e transaction_initial True) r))] @ evs"
proof -
  let ?t0 = "reset_transaction_struct e transaction_initial True"
  let ?w3 = "(case g of
                None \<Rightarrow> emit (Reset_transaction_struct True) (emit (Msg_info ''Accepting traffic'') w)
              | Some gh \<Rightarrow>
                  emit (Gpio_is_active gh (gpio_is_active e gh))
                    (emit (Gpio_get_poll_fd gh (gpio_get_poll_fd e gh))
                      (emit (Reset_transaction_struct True) (emit (Msg_info ''Accepting traffic'') w))))"
  have pre: "calls ?w3 = calls w @ Msg_info ''Accepting traffic'' # Reset_transaction_struct True
           # (case g of None \<Rightarrow> []
              | Some gh \<Rightarrow> [Gpio_get_poll_fd gh (gpio_get_poll_fd e gh),
                            Gpio_is_active gh (gpio_is_active e gh)])"
    and k3: "keep_running ?w3"
    using k by (cases g; simp)+
  obtain r where
    m: "main_loop e ([] # later) fi fo sp g w = main_loop_while e ([] # later) 0 fi fo sp ?t0 r ?w3"
    by (simp add: main_loop_def Let_def transaction_initial_def)
  from main_loop_while_first[OF k3, of e later 0 fi fo sp ?t0 r] obtain evs where
    "calls (snd (main_loop_while e ([] # later) 0 fi fo sp ?t0 r ?w3)) =
       calls ?w3 @ [Read_keep_running True,
         Dcpspi_process fi fo sp ?t0 r (fst (dcpspi_process e 0 fi fo sp ?t0 r))] @ evs"
    by blast
  with m pre show ?thesis by (intro exI[of _ r] exI[of _ evs]) simp
qed

lemma step_transactions_append:
  "step_transactions (cs @ ds) = step_transactions cs @ step_transactions ds"
  by (induction cs rule: step_transactions.induct) simp_all

lemma step_transactions_none: "filter loop_call cs = [] \<Longrightarrow> step_transactions cs = []"
  by (induction cs rule: step_transactions.induct) (simp_all split: if_splits)

text \<open>A run that gets through \<^verbatim>\<open>setup\<close> and finds no signal at the first turn makes a
  first step, with the transaction that \<^verbatim>\<open>main_loop\<close> has built.\<close>

lemma run_daemon_first_step:
  assumes ok: "fst (setup' e p (locals0 e) w) = 0" and k: "keep_running w"
    and n: "filter loop_call (calls w) = []"
  shows "\<exists>ts. step_transactions (calls (snd (run_daemon e ([] # later) p w)))
    = reset_transaction_struct e transaction_initial True # ts"
proof -
  let ?t0 = "reset_transaction_struct e transaction_initial True"
  obtain h w1 where s: "setup' e p (locals0 e) w = (0, h, w1)"
    using ok by (cases "setup' e p (locals0 e) w") auto
  have k1: "keep_running w1" and n1: "filter loop_call (calls w1) = []"
    using setup_frame(1,5)[of e p "locals0 e" w] s k n by simp_all
  let ?w4 = "sigaction SIGTERM action (sigaction SIGINT action (emit Sigemptyset w1))"
  have k4: "keep_running ?w4" and n4: "filter loop_call (calls ?w4) = []"
    using k1 n1 by (simp_all add: sigaction_def)
  obtain st w5 where ml:
    "main_loop e ([] # later) (fifo_in_fd h) (fifo_out_fd h) (spi_fd h) (gpio h) ?w4 = (st, w5)"
    by (cases "main_loop e ([] # later) (fifo_in_fd h) (fifo_out_fd h) (spi_fd h) (gpio h) ?w4")
  from main_loop_first[OF k4, of e later "fifo_in_fd h" "fifo_out_fd h" "spi_fd h" "gpio h"] ml
  obtain r evs where w5: "calls w5 =
       calls ?w4 @ Msg_info ''Accepting traffic'' # Reset_transaction_struct True
         # (case gpio h of None \<Rightarrow> []
            | Some gh \<Rightarrow> [Gpio_get_poll_fd gh (gpio_get_poll_fd e gh),
                          Gpio_is_active gh (gpio_is_active e gh)])
         @ [Read_keep_running True,
            Dcpspi_process (fifo_in_fd h) (fifo_out_fd h) (spi_fd h) ?t0 r
              (fst (dcpspi_process e 0 (fifo_in_fd h) (fifo_out_fd h) (spi_fd h) ?t0 r))] @ evs"
    by auto
  have "step_transactions (calls w5) = ?t0 # step_transactions evs"
    unfolding w5 using step_transactions_none[OF n4]
    by (cases "gpio h") (simp_all add: step_transactions_append)
  moreover have "\<exists>post. calls (snd (run_daemon e ([] # later) p w)) = calls w5 @ post"
    using s ml by (cases st) (simp_all add: run_daemon_def Let_def shutdown_calls)
  ultimately show ?thesis
    by (auto simp: step_transactions_append)
qed

text \<open>Claim C4. The two buffers of the transaction are the static arrays of \<^verbatim>\<open>main_loop\<close>:
  266 = 6 + 4 + 256 bytes on the DCP side, one synchronization header, one command header
  and one payload of the largest size, and 520 = 2 * (4 + 256) bytes on the SPI side.
  \<^verbatim>\<open>main_loop\<close> stores the arrays and these sizes in the transaction once, before the
  loop: entered with the flag true and no signal pending, it gives the first call of
  \<^verbatim>\<open>dcpspi_process\<close> that transaction as \<^verbatim>\<open>reset_transaction_struct\<close> left it. In every
  run of \<^verbatim>\<open>main\<close>, whatever the functions outside \<^verbatim>\<open>dcpspi.c\<close> do, \<^verbatim>\<open>dcpspi.c\<close> itself
  does not touch the transaction again: every later step is given what the step before it
  left. With the engine modelled from the spec, whose writes check the capacity and
  report an overflow, every step of every run is given buffers of 266 and 520 bytes with
  \<^verbatim>\<open>size\<close> fields 266 and 520. The SPI buffer is enough for escape stuffing in the worst
  case: a command header with a payload, at most 4 + 256 bytes, has at most 520 bytes when
  stuffed, and exactly 520 when all of the 260 bytes are escape bytes.\<close>

theorem buffer_capacities_fixed:
  fixes e :: env
  defines "t0 \<equiv> reset_transaction_struct e transaction_initial True"
  shows "sizeof dcp_backing_buffer = DCPSYNC_HEADER_SIZE + DCP_HEADER_SIZE + DCP_PAYLOAD_MAXSIZE
   \<and> sizeof dcp_backing_buffer = 266
   \<and> sizeof spi_backing_buffer = (DCP_HEADER_SIZE + DCP_PAYLOAD_MAXSIZE) * 2
   \<and> sizeof spi_backing_buffer = 520
   \<and> buffer (dcp_buffer transaction_initial) = dcp_backing_buffer
   \<and> buffer (spi_buffer transaction_initial) = spi_backing_buffer
   \<and> capacity transaction_initial = (266, 266, 520, 520)
   \<and> (keep_running w \<longrightarrow>
        (\<exists>r evs. calls (snd (main_loop e ([] # later) fi fo sp g w)) =
           calls w @ Msg_info ''Accepting traffic'' # Reset_transaction_struct True
             # (case g of None \<Rightarrow> []
                | Some gh \<Rightarrow> [Gpio_get_poll_fd gh (gpio_get_poll_fd e gh),
                              Gpio_is_active gh (gpio_is_active e gh)])
             @ [Read_keep_running True,
                Dcpspi_process fi fo sp t0 r (fst (dcpspi_process e 0 fi fo sp t0 r))] @ evs))
   \<and> (process_command_line e argv world0 = (0, p, w') \<and> fst (setup' e p (locals0 e) world0) = 0 \<longrightarrow>
        (\<exists>ts. step_transactions (calls (snd (main e ([] # later) argv))) = t0 # ts))
   \<and> handed_on e 0 t0 (calls (snd (main e sched argv)))
   \<and> list_all capacities_fixed (calls (snd (main (with_engine plans e) sched argv)))
   \<and> (length raw \<le> DCP_HEADER_SIZE + DCP_PAYLOAD_MAXSIZE \<longrightarrow>
        length (encode sq raw) \<le> sizeof spi_backing_buffer)
   \<and> (unat b = DCP_ESCAPE_CHARACTER \<longrightarrow>
        length (encode sq (replicate (DCP_HEADER_SIZE + DCP_PAYLOAD_MAXSIZE) b))
          = sizeof spi_backing_buffer)"
proof -
  have sizes: "sizeof dcp_backing_buffer = DCPSYNC_HEADER_SIZE + DCP_HEADER_SIZE + DCP_PAYLOAD_MAXSIZE"
    "sizeof spi_backing_buffer = (DCP_HEADER_SIZE + DCP_PAYLOAD_MAXSIZE) * 2"
    by (simp_all add: sizeof_def dcp_backing_buffer_def spi_backing_buffer_def)
  have arrays: "buffer (dcp_buffer transaction_initial) = dcp_backing_buffer"
    "buffer (spi_buffer transaction_initial) = spi_backing_buffer"
    by (simp_all add: transaction_initial_def)
  have first: "\<exists>r evs. calls (snd (main_loop e ([] # later) fi fo sp g w)) =
           calls w @ Msg_info ''Accepting traffic'' # Reset_transaction_struct True
             # (case g of None \<Rightarrow> []
                | Some gh \<Rightarrow> [Gpio_get_poll_fd gh (gpio_get_poll_fd e gh),
                              Gpio_is_active gh (gpio_is_active e gh)])
             @ [Read_keep_running True,
                Dcpspi_process fi fo sp t0 r (fst (dcpspi_process e 0 fi fo sp t0 r))] @ evs"
    if "keep_running w"
    unfolding t0_def using that by (rule main_loop_first)
  have entered: "\<exists>ts. step_transactions (calls (snd (main e ([] # later) argv))) = t0 # ts"
    if "process_command_line e argv world0 = (0, p, w')"
      "fst (setup' e p (locals0 e) world0) = 0"
    unfolding t0_def main_accepted[OF that(1)]
    using that(2) by (intro run_daemon_first_step) (simp_all add: world0_def)
  have chain: "handed_on e 0 t0 (calls (snd (main e sched argv)))"
    unfolding t0_def by (rule main_handed_on)
  have stuffed: "length (encode sq raw) \<le> sizeof spi_backing_buffer"
    if "length raw \<le> DCP_HEADER_SIZE + DCP_PAYLOAD_MAXSIZE"
    using that encode_length[of sq raw] sizes(2) by simp
  have worst: "length (encode sq (replicate (DCP_HEADER_SIZE + DCP_PAYLOAD_MAXSIZE) b))
          = sizeof spi_backing_buffer" if "unat b = DCP_ESCAPE_CHARACTER"
    using encode_escapes[OF that, of sq "DCP_HEADER_SIZE + DCP_PAYLOAD_MAXSIZE"] sizes(2) by simp
  from sizes sizeof_backing_buffers arrays capacity_initial first entered chain
    main_with_engine_capacities[of plans e sched argv] stuffed worst
  show ?thesis by blast
qed

lemma main_demo_steps:
  "map (\<lambda>t. (capacity t, pos (dcp_buffer t), pos (spi_buffer t)))
     (step_transactions (calls (snd (main (with_engine plans_demo env_ok) [[], [], [], [SIGTERM]]
        [''dcpspi'', ''--spidev'', ''-''])))) =
     [((266, 266, 520, 520), 0, 0), ((266, 266, 520, 520), 4, 5), ((266, 266, 520, 520), 0, 0)]"
  by (simp add: main_accepted[OF pcl_spidev_dash] run_daemon_def setup_daemonized
      setup_devices_dummy main_loop_def Let_def sigaction_def deliver_def action_def
      run_handler_def shutdown_calls world0_def transaction_initial_def
      engine_step_def engine_reset_def plans_demo_def capacity_def sizeof_def
      dcp_backing_buffer_def spi_backing_buffer_def DCP_ESCAPE_CHARACTER_def
      DCPSYNC_HEADER_SIZE_def DCP_HEADER_SIZE_def DCP_PAYLOAD_MAXSIZE_def)


theorem buffer_capacities_fixed_witness:
  "keep_running world_armed
   \<and> (\<exists>r evs. calls (snd (main_loop (with_engine plans_demo env_ok) [[], [], [], [SIGTERM]]
          3 4 (- 1) None world_armed)) =
        [Sigemptyset, Sigaction SIGINT action, Sigaction SIGTERM action,
         Msg_info ''Accepting traffic'', Reset_transaction_struct True, Read_keep_running True,
         Dcpspi_process 3 4 (- 1) (engine_reset transaction_initial True) r True] @ evs)
   \<and> capacity (engine_reset transaction_initial True) = (266, 266, 520, 520)
   \<and> (\<exists>ts. step_transactions
          (calls (snd (main (with_engine plans_demo env_ok) [[], [], [], [SIGTERM]]
             [''dcpspi'', ''--spidev'', ''-'']))) = engine_reset transaction_initial True # ts)
   \<and> map (\<lambda>t. (capacity t, pos (dcp_buffer t), pos (spi_buffer t)))
        (step_transactions (calls (snd (main (with_engine plans_demo env_ok) [[], [], [], [SIGTERM]]
           [''dcpspi'', ''--spidev'', ''-'']))))
      = [((266, 266, 520, 520), 0, 0), ((266, 266, 520, 520), 4, 5), ((266, 266, 520, 520), 0, 0)]
   \<and> list_all capacities_fixed
        (calls (snd (main (with_engine plans_demo env_ok) [[], [], [], [SIGTERM]]
           [''dcpspi'', ''--spidev'', ''-''])))
   \<and> handed_on (with_engine plans_demo env_ok) 0 (engine_reset transaction_initial True)
        (calls (snd (main (with_engine plans_demo env_ok) [[], [], [], [SIGTERM]]
           [''dcpspi'', ''--spidev'', ''-''])))
   \<and> length [1, 0x27, 0, 0 :: uint8_t] \<le> DCP_HEADER_SIZE + DCP_PAYLOAD_MAXSIZE
   \<and> encode (0x27, 0x01) [1, 0x27, 0, 0] = [1, 0x27, 0x01, 0, 0]
   \<and> length (encode (0x27, 0x01) [1, 0x27, 0, 0]) \<le> sizeof spi_backing_buffer
   \<and> unat (0x27 :: uint8_t) = DCP_ESCAPE_CHARACTER
   \<and> length (encode (0x27, 0x01) (replicate (DCP_HEADER_SIZE + DCP_PAYLOAD_MAXSIZE) 0x27))
        = sizeof spi_backing_buffer"
proof -
  let ?e = "with_engine plans_demo env_ok"
  let ?run = "calls (snd (main ?e [[], [], [], [SIGTERM]] [''dcpspi'', ''--spidev'', ''-'']))"
  have esc: "unat (0x27 :: uint8_t) = DCP_ESCAPE_CHARACTER"
    by (simp add: DCP_ESCAPE_CHARACTER_def)
  have len: "length [1, 0x27, 0, 0 :: uint8_t] \<le> DCP_HEADER_SIZE + DCP_PAYLOAD_MAXSIZE"
    by (simp add: DCP_HEADER_SIZE_def)
  have enc: "encode (0x27, 0x01) [1, 0x27, 0, 0] = [1, 0x27, 0x01, 0, 0]"
    by (simp add: DCP_ESCAPE_CHARACTER_def)
  have k: "keep_running world_armed" by (simp add: world_armed_simps)
  note th = buffer_capacities_fixed[where e = ?e and w = world_armed
      and later = "[[], [], [SIGTERM]]" and fi = 3 and fo = 4 and sp = "- 1" and g = None
      and sched = "[[], [], [], [SIGTERM]]" and argv = "[''dcpspi'', ''--spidev'', ''-'']"
      and plans = plans_demo and raw = "[1, 0x27, 0, 0]" and sq = "(0x27, 0x01)" and b = "0x27"]
  have eng: "with_engine plans_demo ?e = ?e"
    by (simp add: with_engine_def)
  have go: "fst (engine_step (plans_demo 0 3 4 (- 1) t r) t)" for t r
    by (simp add: engine_step_def plans_demo_def)
  have acc: "process_command_line ?e [''dcpspi'', ''--spidev'', ''-''] world0
      = (0, default_parameters\<lparr>spidev_name := ''-'', dummy_mode := True\<rparr>, world0)"
    by (rule pcl_spidev_dash)
  have ok: "fst (setup' ?e (default_parameters\<lparr>spidev_name := ''-'', dummy_mode := True\<rparr>)
      (locals0 ?e) world0) = 0"
    by (simp add: setup_daemonized setup_devices_dummy)
  from th[where p = "default_parameters\<lparr>spidev_name := ''-'', dummy_mode := True\<rparr>" and w' = world0]
    acc ok
  have entered: "\<exists>ts. step_transactions ?run = engine_reset transaction_initial True # ts"
    by simp
  from th k have first: "\<exists>r evs. calls (snd (main_loop ?e [[], [], [], [SIGTERM]] 3 4 (- 1) None world_armed)) =
        [Sigemptyset, Sigaction SIGINT action, Sigaction SIGTERM action,
         Msg_info ''Accepting traffic'', Reset_transaction_struct True, Read_keep_running True,
         Dcpspi_process 3 4 (- 1) (engine_reset transaction_initial True) r True] @ evs"
    by (simp add: world_armed_simps go)
  have cap: "capacity (engine_reset transaction_initial True) = (266, 266, 520, 520)"
    by (simp add: engine_reset_capacity capacity_initial)
  from th have fixed: "list_all capacities_fixed ?run"
    by (simp add: eng)
  from th have chain: "handed_on ?e 0 (engine_reset transaction_initial True) ?run"
    by simp
  from th len have fits: "length (encode (0x27, 0x01) [1, 0x27, 0, 0]) \<le> sizeof spi_backing_buffer"
    by blast
  from th esc have worst:
    "length (encode (0x27, 0x01) (replicate (DCP_HEADER_SIZE + DCP_PAYLOAD_MAXSIZE) 0x27))
        = sizeof spi_backing_buffer"
    by blast
  from k first cap entered main_demo_steps fixed chain len enc fits esc worst show ?thesis
    by (intro conjI)
qed

section \<open>A second signal\<close>

lemma loop_trace_turning_calls:
  "loop_trace_turning evs \<Longrightarrow>
     Read_keep_running False \<notin> set evs \<and> Msg_info ''Terminated, shutting down'' \<notin> set evs
     \<and> filter close_call evs = []"
  by (induction evs rule: loop_trace_turning.induct) auto

text \<open>With every step asking to go on, quiet turns and then the same signal twice between
  two reads of the flag: the first delivery runs the handler and resets the action, the
  second ends the process.\<close>

lemma main_loop_while_killed:
  assumes "\<forall>m < n + k. \<forall>fi fo sp t r. fst (dcpspi_process e m fi fo sp t r)"
    and "disposition_of sg w = Installed action" and "keep_running w"
  shows "fst (main_loop_while e (replicate k [] @ (sg # sg # others) # later) n fi fo sp t r w)
    = Killed sg"
  using assms
proof (induction k arbitrary: n t r w)
  case 0
  let ?w1 = "signal_handler sg (set_disposition sg SIG_DFL w)"
  have "deliver sg w = Some ?w1" using 0 by (simp add: deliver_installed)
  moreover have "deliver sg ?w1 = None" by (simp add: deliver_default)
  ultimately show ?case by simp
next
  case (Suc k)
  obtain ret t' r' where s: "dcpspi_process e n fi fo sp t r = (ret, t', r')"
    by (cases "dcpspi_process e n fi fo sp t r")
  from Suc.prems(1) have "fst (dcpspi_process e n fi fo sp t r)" by simp
  with s have ret: "ret" by simp
  let ?w2 = "emit (Dcpspi_process fi fo sp t r True) (emit (Read_keep_running True) w)"
  have "fst (main_loop_while e (replicate k [] @ (sg # sg # others) # later) (Suc n) fi fo sp t' r' ?w2)
    = Killed sg"
    using Suc.prems by (intro Suc.IH) simp_all
  with s ret Suc.prems(3) show ?case by simp
qed


lemma setup_success_calls:
  assumes "fst (setup' e p h w) = 0"
  shows "take (length (calls w)) (calls (snd (snd (setup' e p h w)))) = calls w"
    "filter close_call (drop (length (calls w)) (calls (snd (snd (setup' e p h w))))) = []"
    "Read_keep_running False \<notin> set (drop (length (calls w)) (calls (snd (snd (setup' e p h w)))))"
    "Msg_info ''Terminated, shutting down''
       \<notin> set (drop (length (calls w)) (calls (snd (snd (setup' e p h w)))))"
  using assms
  by (rule_tac [!] setup_cases[where p = p and e = e]) (simp_all add: setup_by_case)

lemma main_loop_trace:
  "\<exists>evs. calls (snd (main_loop e sched fi fo sp g w)) =
       calls w @ Msg_info ''Accepting traffic'' # Reset_transaction_struct True
         # (case g of None \<Rightarrow> []
            | Some gh \<Rightarrow> [Gpio_get_poll_fd gh (gpio_get_poll_fd e gh),
                          Gpio_is_active gh (gpio_is_active e gh)]) @ evs
     \<and> (if fst (main_loop e sched fi fo sp g w) = Done ()
         then loop_trace_returned evs else loop_trace_turning evs)"
proof -
  let ?w3 = "(case g of
                  None \<Rightarrow> emit (Reset_transaction_struct True) (emit (Msg_info ''Accepting traffic'') w)
                | Some gh \<Rightarrow>
                    emit (Gpio_is_active gh (gpio_is_active e gh))
                      (emit (Gpio_get_poll_fd gh (gpio_get_poll_fd e gh))
                        (emit (Reset_transaction_struct True) (emit (Msg_info ''Accepting traffic'') w))))"
  have pre: "calls ?w3 = calls w @ Msg_info ''Accepting traffic'' # Reset_transaction_struct True
         # (case g of None \<Rightarrow> []
            | Some gh \<Rightarrow> [Gpio_get_poll_fd gh (gpio_get_poll_fd e gh),
                          Gpio_is_active gh (gpio_is_active e gh)])"
    by (cases g) simp_all
  obtain t r where
    m: "main_loop e sched fi fo sp g w = main_loop_while e sched 0 fi fo sp t r ?w3"
    by (simp add: main_loop_def Let_def)
  from main_loop_while_trace[of e sched 0 fi fo sp t r ?w3] obtain evs where
    "calls (snd (main_loop_while e sched 0 fi fo sp t r ?w3)) = calls ?w3 @ evs"
    "if fst (main_loop_while e sched 0 fi fo sp t r ?w3) = Done ()
     then loop_trace_returned evs else loop_trace_turning evs" by blast
  with pre m show ?thesis
    by (intro exI[of _ evs]) simp
qed


text \<open>Claim C8. \<^verbatim>\<open>main\<close> installs the same action for \<^verbatim>\<open>SIGINT\<close> and for \<^verbatim>\<open>SIGTERM\<close>, with
  \<^verbatim>\<open>SA_RESETHAND\<close> among its flags. Delivering a signal whose action is installed runs
  the handler and leaves the default action for that signal, so that delivering the
  same signal again ends the process. In a run: one signal while the loop turns makes
  \<^verbatim>\<open>main\<close> return with the success status; the same signal twice between two reads of
  the flag ends the process instead, and then the flag is never read as false, the
  shutdown is not announced and no handle is released. (Signals are delivered while the
  loop turns; every step before them is taken to return true.)\<close>

theorem resethand_second_signal:
  assumes acc: "process_command_line e argv world0 = (0, p, w)"
    and ok: "fst (setup' e p (locals0 e) world0) = 0"
    and steps: "\<forall>m < k. \<forall>fi fo sp t r. fst (dcpspi_process e m fi fo sp t r)"
  shows "SA_RESETHAND \<in> set (sa_flags action)
    \<and> Sigaction SIGINT action \<in> set (calls (snd (main e sched argv)))
    \<and> Sigaction SIGTERM action \<in> set (calls (snd (main e sched argv)))
    \<and> (disposition_of sg w' = Installed action \<longrightarrow>
         deliver sg w' = Some (signal_handler sg (set_disposition sg SIG_DFL w'))
         \<and> disposition_of sg (signal_handler sg (set_disposition sg SIG_DFL w')) = SIG_DFL
         \<and> deliver sg (signal_handler sg (set_disposition sg SIG_DFL w')) = None)
    \<and> fst (main e (replicate k [] @ [sg] # later) argv) = Done EXIT_SUCCESS
    \<and> fst (main e (replicate k [] @ (sg # sg # others) # later) argv) = Killed sg
    \<and> filter close_call
         (calls (snd (main e (replicate k [] @ (sg # sg # others) # later) argv))) = []
    \<and> Read_keep_running False
         \<notin> set (calls (snd (main e (replicate k [] @ (sg # sg # others) # later) argv)))
    \<and> Msg_info ''Terminated, shutting down''
         \<notin> set (calls (snd (main e (replicate k [] @ (sg # sg # others) # later) argv)))"
proof -
  note m = main_accepted[OF acc]
  have w0: "calls world0 = []" "keep_running world0" by (simp_all add: world0_def)
  obtain h w1 where s: "setup' e p (locals0 e) world0 = (0, h, w1)"
    using ok by (cases "setup' e p (locals0 e) world0") simp
  have k1: "keep_running w1" using setup_frame(1)[of e p "locals0 e" world0] s w0 by simp
  note sc = setup_success_calls[OF ok, unfolded s w0, simplified]
  let ?w4 = "sigaction SIGTERM action (sigaction SIGINT action (emit Sigemptyset w1))"
  have c4: "calls ?w4 = calls w1 @ [Sigemptyset, Sigaction SIGINT action, Sigaction SIGTERM action]"
    by (simp add: sigaction_def)
  have flag: "SA_RESETHAND \<in> set (sa_flags action)" by (simp add: action_def)
  have installs: "Sigaction SIGINT action \<in> set (calls (snd (main e sch argv)))
    \<and> Sigaction SIGTERM action \<in> set (calls (snd (main e sch argv)))" for sch
  proof -
    from run_daemon_entered[OF s, of sch] obtain st :: "unit run" and w5 evs where
      "run_daemon e sch p world0 =
         (case st of Done u \<Rightarrow> (Done EXIT_SUCCESS, shutdown p h w5)
          | Killed sg \<Rightarrow> (Killed sg, w5) | Running \<Rightarrow> (Running, w5))"
      "calls w5 = calls w1 @ [Sigemptyset, Sigaction SIGINT action, Sigaction SIGTERM action] @ evs"
      by blast
    then show ?thesis unfolding m by (cases st) (simp_all add: shutdown_calls)
  qed
  have once: "deliver sg w' = Some (signal_handler sg (set_disposition sg SIG_DFL w'))
         \<and> disposition_of sg (signal_handler sg (set_disposition sg SIG_DFL w')) = SIG_DFL
         \<and> deliver sg (signal_handler sg (set_disposition sg SIG_DFL w')) = None"
    if "disposition_of sg w' = Installed action"
    using that by (simp add: deliver_installed deliver_default)
  have graceful: "fst (main e (replicate k [] @ [sg] # later) argv) = Done EXIT_SUCCESS"
    unfolding m by (rule run_daemon_signalled[OF ok]) simp_all
  let ?sch = "replicate k [] @ (sg # sg # others) # later"
  obtain w5 where ml:
    "main_loop e ?sch (fifo_in_fd h) (fifo_out_fd h) (spi_fd h) (gpio h) ?w4 = (Killed sg, w5)"
  proof -
    let ?w3 = "(case gpio h of
                  None \<Rightarrow> emit (Reset_transaction_struct True) (emit (Msg_info ''Accepting traffic'') ?w4)
                | Some gh \<Rightarrow>
                    emit (Gpio_is_active gh (gpio_is_active e gh))
                      (emit (Gpio_get_poll_fd gh (gpio_get_poll_fd e gh))
                        (emit (Reset_transaction_struct True)
                          (emit (Msg_info ''Accepting traffic'') ?w4))))"
    have d: "disposition_of sg ?w3 = Installed action" "keep_running ?w3"
      using k1 by (cases "gpio h"; cases sg; simp add: sigaction_def)+
    have "fst (main_loop e ?sch (fifo_in_fd h) (fifo_out_fd h) (spi_fd h) (gpio h) ?w4) = Killed sg"
      unfolding main_loop_def Let_def
      using steps by (intro main_loop_while_killed d) simp
    then show ?thesis using that
      by (cases "main_loop e ?sch (fifo_in_fd h) (fifo_out_fd h) (spi_fd h) (gpio h) ?w4") simp
  qed
  from main_loop_trace[of e ?sch "fifo_in_fd h" "fifo_out_fd h" "spi_fd h" "gpio h" ?w4] ml
  obtain evs where evs: "calls w5 =
       calls ?w4 @ Msg_info ''Accepting traffic'' # Reset_transaction_struct True
         # (case gpio h of None \<Rightarrow> []
            | Some gh \<Rightarrow> [Gpio_get_poll_fd gh (gpio_get_poll_fd e gh),
                          Gpio_is_active gh (gpio_is_active e gh)]) @ evs"
    "loop_trace_turning evs" by auto
  have killed: "main e ?sch argv = (Killed sg, w5)"
    unfolding m using s ml by (simp add: run_daemon_def Let_def)
  have rest: "filter close_call (calls w5) = []" "Read_keep_running False \<notin> set (calls w5)"
    "Msg_info ''Terminated, shutting down'' \<notin> set (calls w5)"
    using evs(1) loop_trace_turning_calls[OF evs(2)] sc c4
    by (cases "gpio h"; simp)+
  from flag installs[of sched] once graceful killed rest show ?thesis by simp
qed


theorem resethand_second_signal_witness:
  "fst (main env_ok [[], [SIGTERM]] [''dcpspi'']) = Done EXIT_SUCCESS
   \<and> fst (main env_ok [[], [SIGTERM, SIGTERM]] [''dcpspi'']) = Killed SIGTERM
   \<and> filter close_call (calls (snd (main env_ok [[], [SIGTERM, SIGTERM]] [''dcpspi'']))) = []
   \<and> Sigaction SIGTERM action \<in> set (calls (snd (main env_ok [] [''dcpspi''])))
   \<and> deliver SIGTERM world_armed
       = Some (signal_handler SIGTERM (set_disposition SIGTERM SIG_DFL world_armed))
   \<and> deliver SIGTERM (signal_handler SIGTERM (set_disposition SIGTERM SIG_DFL world_armed))
       = None"
proof -
  have steps: "\<forall>m < 1. \<forall>fi fo sp t r. fst (dcpspi_process env_ok m fi fo sp t r)"
    by simp
  from resethand_second_signal[OF pcl_no_arguments[of env_ok "''dcpspi''"] setup_env_ok(1) steps,
      where sched = "[]" and sg = SIGTERM and w' = world_armed and later = "[]" and others = "[]"]
  show ?thesis by (simp add: world_armed_simps)
qed

section \<open>The exit status\<close>

lemma pcl_drop [simp]: "drop 1 (prog # xs) = xs"
  by simp

text \<open>A numeral above the largest value of the field is refused, whatever the width of
  \<^verbatim>\<open>unsigned long\<close>.\<close>

lemma pa_spiclk_out_of_range:
  assumes "decimal_numeral v" "UINT32_MAX < decimal 0 v"
  shows "fst (process_arguments e (''--spiclk'' # v # ys) p world0) = Some (- 1)"
  using assms by (simp add: strtoul_numeral world0_def char_at_def)

lemma pa_gpio_out_of_range:
  assumes "decimal_numeral v" "UINT_MAX < decimal 0 v"
  shows "fst (process_arguments e (''--gpio'' # v # ys) p world0) = Some (- 1)"
  using assms by (simp add: strtoul_numeral world0_def char_at_def)

lemma main_by_code:
  "fst (process_command_line e argv world0) = - 1 \<Longrightarrow> fst (main e sched argv) = Done EXIT_FAILURE"
  "fst (process_command_line e argv world0) = 1 \<Longrightarrow> fst (main e sched argv) = Done EXIT_SUCCESS"
  "fst (process_command_line e argv world0) = 2 \<Longrightarrow> fst (main e sched argv) = Done EXIT_SUCCESS"
  by (cases "process_command_line e argv world0"; simp add: main_def)+

lemma pcl_by_loop:
  "fst (process_arguments e (drop 1 argv) default_parameters w) = Some r \<Longrightarrow>
   fst (process_command_line e argv w) = r"
  by (cases "process_arguments e (drop 1 argv) default_parameters w")
     (simp add: process_command_line_def)

lemma pcl_continue_ex:
  assumes "process_command_line e (prog # xs) world0 = (0, p, w)"
  shows "\<exists>p0. process_arguments e xs default_parameters world0 = (None, p0, world0)
    \<and> (\<forall>zs. process_arguments e (xs @ zs) default_parameters world0
           = process_arguments e zs p0 world0)"
proof (rule pcl_continue[OF assms])
  fix p0
  assume "process_arguments e xs default_parameters world0 = (None, p0, world0)"
    and "\<And>zs. process_arguments e (xs @ zs) default_parameters world0
           = process_arguments e zs p0 world0"
  then show ?thesis by blast
qed

text \<open>Claim C2. The status with which \<^verbatim>\<open>main\<close> returns. The arguments are read from left
  to right, and the first one that decides, decides: after arguments that are all
  accepted, \<^verbatim>\<open>--help\<close> or \<^verbatim>\<open>--version\<close> gives status 0 whatever follows; an unknown
  option, an option left without its value at the end, or a numeral above the largest
  value of the field for \<^verbatim>\<open>--spiclk\<close> or \<^verbatim>\<open>--gpio\<close> gives status 1. With every argument
  accepted, a failing \<^verbatim>\<open>setup\<close> gives status 1, and after a successful \<^verbatim>\<open>setup\<close> a signal
  (or \<^verbatim>\<open>SIGINT\<close> and \<^verbatim>\<open>SIGTERM\<close> together) that arrives while the loop turns gives status
  0. For every command line, the return value of \<^verbatim>\<open>process_command_line\<close> is 0, 1, 2 or
  -1, and 1 and 2 give status 0, -1 gives status 1.\<close>

theorem exit_status:
  assumes acc: "process_command_line e (prog # xs) world0 = (0, p, w)"
  shows "EXIT_SUCCESS = 0 \<and> EXIT_FAILURE = 1
    \<and> fst (main e sched (prog # xs @ ''--help'' # ys)) = Done EXIT_SUCCESS
    \<and> fst (main e sched (prog # xs @ ''--version'' # ys)) = Done EXIT_SUCCESS
    \<and> (a \<notin> set option_names \<longrightarrow> fst (main e sched (prog # xs @ a # ys)) = Done EXIT_FAILURE)
    \<and> (opt \<in> set value_options \<longrightarrow> fst (main e sched (prog # xs @ [opt])) = Done EXIT_FAILURE)
    \<and> (decimal_numeral v \<and> UINT32_MAX < decimal 0 v \<longrightarrow>
          fst (main e sched (prog # xs @ ''--spiclk'' # v # ys)) = Done EXIT_FAILURE)
    \<and> (decimal_numeral v \<and> UINT_MAX < decimal 0 v \<longrightarrow>
          fst (main e sched (prog # xs @ ''--gpio'' # v # ys)) = Done EXIT_FAILURE)
    \<and> (fst (setup' e p (locals0 e) world0) < 0 \<longrightarrow>
          fst (main e sched (prog # xs)) = Done EXIT_FAILURE)
    \<and> (fst (setup' e p (locals0 e) world0) = 0 \<and> sgs \<noteq> [] \<and> distinct sgs \<longrightarrow>
          fst (main e (replicate k [] @ sgs # later) (prog # xs)) = Done EXIT_SUCCESS)
    \<and> (fst (process_command_line e argv world0) \<in> {0, 1, 2, - 1})
    \<and> (fst (process_command_line e argv world0) \<in> {1, 2} \<longrightarrow>
          fst (main e sched argv) = Done EXIT_SUCCESS)
    \<and> (fst (process_command_line e argv world0) = - 1 \<longrightarrow>
          fst (main e sched argv) = Done EXIT_FAILURE)"
proof -
  from acc obtain p0 where
    pre: "process_arguments e xs default_parameters world0 = (None, p0, world0)" and
    cont: "\<And>zs. process_arguments e (xs @ zs) default_parameters world0
           = process_arguments e zs p0 world0"
    using pcl_continue_ex by blast
  have code: "fst (process_command_line e (prog # xs @ zs) world0) = r"
    if "fst (process_arguments e zs p0 world0) = Some r" for zs r
    using that cont[of zs] by (intro pcl_by_loop) simp
  have 1: "fst (main e sched (prog # xs @ ''--help'' # ys)) = Done EXIT_SUCCESS"
    by (rule main_by_code(2), rule code) simp
  have 2: "fst (main e sched (prog # xs @ ''--version'' # ys)) = Done EXIT_SUCCESS"
    by (rule main_by_code(3), rule code) simp
  have 3: "fst (main e sched (prog # xs @ a # ys)) = Done EXIT_FAILURE" if "a \<notin> set option_names"
    using that by (intro main_by_code(1) code) simp
  have 4: "fst (main e sched (prog # xs @ [opt])) = Done EXIT_FAILURE"
    if "opt \<in> set value_options"
    using that by (intro main_by_code(1) code) (simp add: pa_missing)
  have 5: "fst (main e sched (prog # xs @ ''--spiclk'' # v # ys)) = Done EXIT_FAILURE"
    if "decimal_numeral v" "UINT32_MAX < decimal 0 v"
    using that by (intro main_by_code(1) code pa_spiclk_out_of_range)
  have 6: "fst (main e sched (prog # xs @ ''--gpio'' # v # ys)) = Done EXIT_FAILURE"
    if "decimal_numeral v" "UINT_MAX < decimal 0 v"
    using that by (intro main_by_code(1) code pa_gpio_out_of_range)
  note m = main_accepted[OF acc]
  have 7: "fst (main e sched (prog # xs)) = Done EXIT_FAILURE"
    if "fst (setup' e p (locals0 e) world0) < 0"
    using that by (simp add: m run_daemon_setup_fails)
  have 8: "fst (main e (replicate k [] @ sgs # later) (prog # xs)) = Done EXIT_SUCCESS"
    if "fst (setup' e p (locals0 e) world0) = 0" "sgs \<noteq> []" "distinct sgs"
    using that by (simp add: m run_daemon_signalled)
  have 9: "fst (process_command_line e argv world0) \<in> {0, 1, 2, - 1}"
    using pcl_codes[of e argv world0] by (cases "process_command_line e argv world0") auto
  have 10: "fst (main e sched argv) = Done EXIT_SUCCESS"
    if "fst (process_command_line e argv world0) \<in> {1, 2}"
    using that main_by_code(2,3)[of e argv sched] by auto
  have 11: "fst (main e sched argv) = Done EXIT_FAILURE"
    if "fst (process_command_line e argv world0) = - 1"
    using that by (rule main_by_code(1))
  have 0: "EXIT_SUCCESS = 0" "EXIT_FAILURE = 1" by (simp_all add: EXIT_SUCCESS_def EXIT_FAILURE_def)
  from 0 1 2 3 4 5 6 7 8 9 10 11 show ?thesis by blast
qed


lemma pcl_fg:
  "process_command_line e [prog, ''--fg''] world0
     = (0, default_parameters\<lparr>run_in_foreground := True\<rparr>, world0)"
  by (simp add: process_command_line_def char_at_def)

lemma numeral_too_large:
  "decimal_numeral ''4294967296''" "decimal 0 ''4294967296'' = 4294967296"
  by (simp_all add: decimal_numeral_def isdigit_def)

theorem exit_status_witness:
  "fst (main env_ok [] [''dcpspi'', ''--fg'', ''--help'', ''--bogus'']) = Done 0
   \<and> fst (main env_ok [] [''dcpspi'', ''--fg'', ''--version'', ''--bogus'']) = Done 0
   \<and> fst (main env_ok [] [''dcpspi'', ''--fg'', ''--bogus'', ''--help'']) = Done 1
   \<and> fst (main env_ok [] [''dcpspi'', ''--fg'', ''--spidev'']) = Done 1
   \<and> fst (main env_ok [] [''dcpspi'', ''--fg'', ''--spiclk'', ''4294967296'', ''--help'']) = Done 1
   \<and> fst (main env_ok [] [''dcpspi'', ''--fg'', ''--gpio'', ''4294967296'', ''--help'']) = Done 1
   \<and> fst (main env_spi_fails [] [''dcpspi'', ''--fg'']) = Done 1
   \<and> fst (main env_ok [[], [SIGTERM]] [''dcpspi'', ''--fg'']) = Done 0"
proof -
  have bogus: "''--bogus'' \<notin> set option_names" by (simp add: option_names_def)
  have spidev: "''--spidev'' \<in> set value_options" by (simp add: value_options_def)
  have fails: "fst (setup' env_spi_fails (default_parameters\<lparr>run_in_foreground := True\<rparr>)
      (locals0 env_spi_fails) world0) < 0"
    by (simp add: setup_daemonized setup_devices_spi_fails)
  have ok: "fst (setup' env_ok (default_parameters\<lparr>run_in_foreground := True\<rparr>)
      (locals0 env_ok) world0) = 0"
    by (simp add: setup_daemonized setup_devices_ok)
  note a = exit_status[OF pcl_fg[of env_ok "''dcpspi''"], where sched = "[]" and ys = "[''--bogus'']"
      and a = "''--bogus''" and opt = "''--spidev''" and v = "''4294967296''" and k = 1
      and sgs = "[SIGTERM]" and later = "[]"]
  note b = exit_status[OF pcl_fg[of env_ok "''dcpspi''"], where sched = "[]" and ys = "[''--help'']"
      and a = "''--bogus''" and v = "''4294967296''"]
  note c = exit_status[OF pcl_fg[of env_spi_fails "''dcpspi''"], where sched = "[]"]
  from a b c bogus spidev fails ok numeral_too_large show ?thesis
    by (simp add: UINT32_MAX_def UINT_MAX_def)
qed

text \<open>Claim C2 as it is written fails where a command line has both \<^verbatim>\<open>--help\<close> and an
  unknown option: it would have the status be 0 and 1 at once. The code lets the
  argument read first decide: \<^verbatim>\<open>--help\<close> after the unknown option \<^verbatim>\<open>--bogus\<close> ends with
  status 1, \<^verbatim>\<open>--help\<close> before it with status 0.\<close>

theorem exit_status_counterexample:
  "''--help'' \<in> set [''dcpspi'', ''--bogus'', ''--help'']
   \<and> fst (main env_ok [] [''dcpspi'', ''--bogus'', ''--help'']) = Done 1
   \<and> ''--bogus'' \<notin> set option_names
   \<and> fst (main env_ok [] [''dcpspi'', ''--help'', ''--bogus'']) = Done 0"
  by (simp add: main_def process_command_line_def option_names_def
      EXIT_SUCCESS_def EXIT_FAILURE_def)

text \<open>A numeral with a minus sign is not covered by the theorem above: \<^verbatim>\<open>strtoul\<close>
  negates it in \<^verbatim>\<open>unsigned long\<close>, and what comes out is compared with the maximum. With
  a 64-bit \<^verbatim>\<open>unsigned long\<close>, \<^verbatim>\<open>-1\<close> becomes \<^verbatim>\<open>ULONG_MAX\<close> and is refused, while
  \<^verbatim>\<open>-18446744073709551615\<close> becomes 1 and is accepted as the clock frequency.\<close>

lemma spiclk_minus_sign:
  "fst (process_command_line env_ok [''dcpspi'', ''--spiclk'', ''-1''] world0) = - 1"
  "fst (process_command_line env_ok [''dcpspi'', ''--spiclk'', ''-18446744073709551615''] world0) = 0"
  "spi_clock (fst (snd (process_command_line env_ok
      [''dcpspi'', ''--spiclk'', ''-18446744073709551615''] world0))) = 1"
  by (simp_all add: process_command_line_def strtoul_def isspace_def isdigit_def
      UINT32_MAX_def world0_def char_at_def Let_def)

section \<open>Short circuits and repeated options\<close>

text \<open>Arguments among which an option does not occur leave its field alone, however
  their reading ends.\<close>

lemma pa_keeps_fifo_in_name:
  "''--ififo'' \<notin> set ys \<Longrightarrow>
   fifo_in_name (fst (snd (process_arguments e ys p w))) = fifo_in_name p"
proof (induction ys p w rule: pa_induct)
  case (missing opt p w)
  then show ?case by (simp add: pa_missing)
next
  case (opt_spiclk v rest p w)
  then show ?case by (auto split: prod.splits)
next
  case (opt_gpio v rest p w)
  then show ?case by (auto split: prod.splits)
qed simp_all

lemma pa_keeps_fifo_out_name:
  "''--ofifo'' \<notin> set ys \<Longrightarrow>
   fifo_out_name (fst (snd (process_arguments e ys p w))) = fifo_out_name p"
proof (induction ys p w rule: pa_induct)
  case (missing opt p w)
  then show ?case by (simp add: pa_missing)
next
  case (opt_spiclk v rest p w)
  then show ?case by (auto split: prod.splits)
next
  case (opt_gpio v rest p w)
  then show ?case by (auto split: prod.splits)
qed simp_all

lemma pa_keeps_spidev_name:
  "''--spidev'' \<notin> set ys \<Longrightarrow>
   spidev_name (fst (snd (process_arguments e ys p w))) = spidev_name p"
proof (induction ys p w rule: pa_induct)
  case (missing opt p w)
  then show ?case by (simp add: pa_missing)
next
  case (opt_spiclk v rest p w)
  then show ?case by (auto split: prod.splits)
next
  case (opt_gpio v rest p w)
  then show ?case by (auto split: prod.splits)
qed simp_all

lemma pa_keeps_spi_clock:
  "''--spiclk'' \<notin> set ys \<Longrightarrow>
   spi_clock (fst (snd (process_arguments e ys p w))) = spi_clock p"
proof (induction ys p w rule: pa_induct)
  case (missing opt p w)
  then show ?case by (simp add: pa_missing)
next
  case (opt_gpio v rest p w)
  then show ?case by (auto split: prod.splits)
qed simp_all

lemma pa_keeps_gpio_num:
  "''--gpio'' \<notin> set ys \<Longrightarrow>
   gpio_num (fst (snd (process_arguments e ys p w))) = gpio_num p"
proof (induction ys p w rule: pa_induct)
  case (missing opt p w)
  then show ?case by (simp add: pa_missing)
next
  case (opt_spiclk v rest p w)
  then show ?case by (auto split: prod.splits)
qed simp_all

lemma pcl_fields:
  "fifo_in_name (fst (snd (process_command_line e argv w)))
     = fifo_in_name (fst (snd (process_arguments e (drop 1 argv) default_parameters w)))"
  "fifo_out_name (fst (snd (process_command_line e argv w)))
     = fifo_out_name (fst (snd (process_arguments e (drop 1 argv) default_parameters w)))"
  "spidev_name (fst (snd (process_command_line e argv w)))
     = spidev_name (fst (snd (process_arguments e (drop 1 argv) default_parameters w)))"
  "spi_clock (fst (snd (process_command_line e argv w)))
     = spi_clock (fst (snd (process_arguments e (drop 1 argv) default_parameters w)))"
  "gpio_num (fst (snd (process_command_line e argv w)))
     = gpio_num (fst (snd (process_arguments e (drop 1 argv) default_parameters w)))"
  by (cases "process_arguments e (drop 1 argv) default_parameters w";
      simp add: process_command_line_def split: option.splits)+

text \<open>A numeral within the range of the field is accepted.\<close>

lemma pa_spiclk_numeral:
  assumes "decimal_numeral v" "decimal 0 v \<le> UINT32_MAX" "UINT32_MAX \<le> ulong_max e"
  shows "process_arguments e (''--spiclk'' # v # ys) p world0
    = process_arguments e ys (p\<lparr>spi_clock := of_nat (decimal 0 v)\<rparr>) world0"
  using assms by (simp add: strtoul_numeral world0_def char_at_def)

lemma pa_gpio_numeral:
  assumes "decimal_numeral v" "decimal 0 v \<le> UINT_MAX" "UINT_MAX \<le> ulong_max e"
  shows "process_arguments e (''--gpio'' # v # ys) p world0
    = process_arguments e ys (p\<lparr>gpio_num := of_nat (decimal 0 v)\<rparr>) world0"
  using assms by (simp add: strtoul_numeral world0_def char_at_def)


text \<open>Claim C10. The arguments are read from left to right. After arguments that are all
  accepted, \<^verbatim>\<open>--help\<close> makes \<^verbatim>\<open>process_command_line\<close> return 1 and \<^verbatim>\<open>--version\<close> makes
  it return 2 at once: the result is the same as without the arguments that follow,
  whatever they are, \<^verbatim>\<open>main\<close> prints the usage text (or the version) and nothing else and
  returns the success status. Of a repeated option with a value the last occurrence
  counts: after accepted arguments an occurrence fixes the field, provided the option
  does not occur again among the arguments that follow, however the reading of those
  ends. (For \<^verbatim>\<open>--spiclk\<close> and \<^verbatim>\<open>--gpio\<close> the value is a numeral within the range of the
  field.)\<close>

theorem help_version_short_circuit:
  assumes acc: "process_command_line e (prog # xs) world0 = (0, p, w)"
  shows "process_command_line e (prog # xs @ ''--help'' # ys) world0
       = process_command_line e (prog # xs @ [''--help'']) world0
    \<and> fst (process_command_line e (prog # xs @ ''--help'' # ys) world0) = 1
    \<and> main e sched (prog # xs @ ''--help'' # ys) = (Done EXIT_SUCCESS, usage prog world0)
    \<and> process_command_line e (prog # xs @ ''--version'' # ys) world0
       = process_command_line e (prog # xs @ [''--version'']) world0
    \<and> fst (process_command_line e (prog # xs @ ''--version'' # ys) world0) = 2
    \<and> main e sched (prog # xs @ ''--version'' # ys) = (Done EXIT_SUCCESS, show_version_info world0)
    \<and> (''--ififo'' \<notin> set ys \<longrightarrow>
         fifo_in_name (fst (snd (process_command_line e (prog # xs @ ''--ififo'' # v # ys) world0))) = v)
    \<and> (''--ofifo'' \<notin> set ys \<longrightarrow>
         fifo_out_name (fst (snd (process_command_line e (prog # xs @ ''--ofifo'' # v # ys) world0))) = v)
    \<and> (''--spidev'' \<notin> set ys \<longrightarrow>
         spidev_name (fst (snd (process_command_line e (prog # xs @ ''--spidev'' # v # ys) world0))) = v)
    \<and> (''--spiclk'' \<notin> set ys \<and> decimal_numeral v \<and> decimal 0 v \<le> UINT32_MAX
        \<and> UINT32_MAX \<le> ulong_max e \<longrightarrow>
         spi_clock (fst (snd (process_command_line e (prog # xs @ ''--spiclk'' # v # ys) world0)))
           = of_nat (decimal 0 v))
    \<and> (''--gpio'' \<notin> set ys \<and> decimal_numeral v \<and> decimal 0 v \<le> UINT_MAX
        \<and> UINT_MAX \<le> ulong_max e \<longrightarrow>
         gpio_num (fst (snd (process_command_line e (prog # xs @ ''--gpio'' # v # ys) world0)))
           = of_nat (decimal 0 v))"
proof -
  from acc obtain p0 where
    cont: "\<And>zs. process_arguments e (xs @ zs) default_parameters world0
           = process_arguments e zs p0 world0"
    using pcl_continue_ex by blast
  have h: "process_command_line e (prog # xs @ ''--help'' # zs) world0 = (1, p0, world0)" for zs
    by (simp add: process_command_line_def cont)
  have v: "process_command_line e (prog # xs @ ''--version'' # zs) world0 = (2, p0, world0)" for zs
    by (simp add: process_command_line_def cont)
  have mh: "main e sched (prog # xs @ ''--help'' # ys) = (Done EXIT_SUCCESS, usage prog world0)"
    by (simp add: main_def h)
  have mv: "main e sched (prog # xs @ ''--version'' # ys)
      = (Done EXIT_SUCCESS, show_version_info world0)"
    by (simp add: main_def v)
  have 1: "fifo_in_name (fst (snd (process_command_line e (prog # xs @ ''--ififo'' # v # ys) world0))) = v"
    if "''--ififo'' \<notin> set ys"
    using that by (simp add: pcl_fields cont pa_keeps_fifo_in_name)
  have 2: "fifo_out_name (fst (snd (process_command_line e (prog # xs @ ''--ofifo'' # v # ys) world0))) = v"
    if "''--ofifo'' \<notin> set ys"
    using that by (simp add: pcl_fields cont pa_keeps_fifo_out_name)
  have 3: "spidev_name (fst (snd (process_command_line e (prog # xs @ ''--spidev'' # v # ys) world0))) = v"
    if "''--spidev'' \<notin> set ys"
    using that by (simp add: pcl_fields cont pa_keeps_spidev_name)
  have 4: "spi_clock (fst (snd (process_command_line e (prog # xs @ ''--spiclk'' # v # ys) world0)))
           = of_nat (decimal 0 v)"
    if "''--spiclk'' \<notin> set ys" "decimal_numeral v" "decimal 0 v \<le> UINT32_MAX"
      "UINT32_MAX \<le> ulong_max e"
    using that(1)
    by (simp add: pcl_fields cont pa_spiclk_numeral[OF that(2,3,4)] pa_keeps_spi_clock
        del: pa_spiclk)
  have 5: "gpio_num (fst (snd (process_command_line e (prog # xs @ ''--gpio'' # v # ys) world0)))
           = of_nat (decimal 0 v)"
    if "''--gpio'' \<notin> set ys" "decimal_numeral v" "decimal 0 v \<le> UINT_MAX"
      "UINT_MAX \<le> ulong_max e"
    using that(1)
    by (simp add: pcl_fields cont pa_gpio_numeral[OF that(2,3,4)] pa_keeps_gpio_num
        del: pa_gpio)
  from h[of ys] h[of "[]"] v[of ys] v[of "[]"] mh mv 1 2 3 4 5 show ?thesis by simp
qed

lemma numeral_1000: "decimal_numeral ''1000''" "decimal 0 ''1000'' = 1000"
  by (simp_all add: decimal_numeral_def isdigit_def)

lemma pcl_ififo:
  "process_command_line e [prog, ''--ififo'', ''/tmp/a''] world0
     = (0, default_parameters\<lparr>fifo_in_name := ''/tmp/a''\<rparr>, world0)"
  by (simp add: process_command_line_def char_at_def)

theorem help_version_short_circuit_witness:
  "main env_ok [] [''dcpspi'', ''--fg'', ''--help'', ''--bogus'', ''--spidev'']
     = (Done EXIT_SUCCESS, usage ''dcpspi'' world0)
   \<and> main env_ok [] [''dcpspi'', ''--fg'', ''--version'', ''--bogus'', ''--spidev'']
     = (Done EXIT_SUCCESS, show_version_info world0)
   \<and> fifo_in_name (fst (snd (process_command_line env_ok
        [''dcpspi'', ''--fg'', ''--ififo'', ''/tmp/b'', ''--help''] world0))) = ''/tmp/b''
   \<and> fifo_in_name (fst (snd (process_command_line env_ok
        [''dcpspi'', ''--ififo'', ''/tmp/a'', ''--ififo'', ''/tmp/b'', ''--fg''] world0))) = ''/tmp/b''
   \<and> fifo_out_name (fst (snd (process_command_line env_ok
        [''dcpspi'', ''--fg'', ''--ofifo'', ''/tmp/b'', ''--help''] world0))) = ''/tmp/b''
   \<and> spidev_name (fst (snd (process_command_line env_ok
        [''dcpspi'', ''--fg'', ''--spidev'', ''/tmp/b'', ''--help''] world0))) = ''/tmp/b''
   \<and> spi_clock (fst (snd (process_command_line env_ok
        [''dcpspi'', ''--fg'', ''--spiclk'', ''1000'', ''--help''] world0))) = 1000
   \<and> gpio_num (fst (snd (process_command_line env_ok
        [''dcpspi'', ''--fg'', ''--gpio'', ''1000'', ''--help''] world0))) = 1000"
proof -
  note a = help_version_short_circuit[OF pcl_fg[of env_ok "''dcpspi''"],
      where ys = "[''--bogus'', ''--spidev'']" and sched = "[]"]
  note b = help_version_short_circuit[OF pcl_fg[of env_ok "''dcpspi''"],
      where ys = "[''--help'']" and v = "''/tmp/b''"]
  note c = help_version_short_circuit[OF pcl_fg[of env_ok "''dcpspi''"],
      where ys = "[''--help'']" and v = "''1000''"]
  note d = help_version_short_circuit[OF pcl_ififo[of env_ok "''dcpspi''"],
      where ys = "[''--fg'']" and v = "''/tmp/b''"]
  from a b c d numeral_1000 show ?thesis
    by (simp add: UINT32_MAX_def UINT_MAX_def)
qed

section \<open>Clock and debouncing in dummy mode\<close>

text \<open>Other values of the clock and of the debouncing flag at the start change nothing
  in the reading of the arguments but these two fields.\<close>

lemma pa_clock_debounce:
  "same_but_clock_debounce p q \<Longrightarrow>
   fst (process_arguments e ys q w) = fst (process_arguments e ys p w)
   \<and> snd (snd (process_arguments e ys q w)) = snd (snd (process_arguments e ys p w))
   \<and> same_but_clock_debounce (fst (snd (process_arguments e ys p w)))
        (fst (snd (process_arguments e ys q w)))"
proof (induction ys p w arbitrary: q rule: pa_induct)
  case (missing opt p w)
  then show ?case by (simp add: pa_missing)
next
  case (opt_fg rest p w)
  from opt_fg.prems show ?case
    by (simp, intro opt_fg.IH) (simp add: same_but_clock_debounce_def)
next
  case (opt_debounce rest p w)
  from opt_debounce.prems show ?case
    by (simp, intro opt_debounce.IH) (simp add: same_but_clock_debounce_def)
next
  case (opt_ififo v rest p w)
  from opt_ififo.prems show ?case
    by (simp, intro opt_ififo.IH) (simp add: same_but_clock_debounce_def)
next
  case (opt_ofifo v rest p w)
  from opt_ofifo.prems show ?case
    by (simp, intro opt_ofifo.IH) (simp add: same_but_clock_debounce_def)
next
  case (opt_spidev v rest p w)
  from opt_spidev.prems show ?case
    by (simp, intro opt_spidev.IH) (simp add: same_but_clock_debounce_def)
next
  case (opt_spiclk v rest p w)
  obtain a b er where st: "strtoul (ulong_max e) v (errno_ERANGE w) = (a, b, er)"
    by (cases "strtoul (ulong_max e) v (errno_ERANGE w)")
  have "same_but_clock_debounce (p\<lparr>spi_clock := of_nat a\<rparr>) (q\<lparr>spi_clock := of_nat a\<rparr>)"
    using opt_spiclk.prems by (simp add: same_but_clock_debounce_def)
  from opt_spiclk.IH[OF this, of "w\<lparr>errno_ERANGE := er\<rparr>"] opt_spiclk.prems st
  show ?case by simp
next
  case (opt_gpio v rest p w)
  obtain a b er where st: "strtoul (ulong_max e) v (errno_ERANGE w) = (a, b, er)"
    by (cases "strtoul (ulong_max e) v (errno_ERANGE w)")
  have "same_but_clock_debounce (p\<lparr>gpio_num := of_nat a\<rparr>) (q\<lparr>gpio_num := of_nat a\<rparr>)"
    using opt_gpio.prems by (simp add: same_but_clock_debounce_def)
  from opt_gpio.IH[OF this, of "w\<lparr>errno_ERANGE := er\<rparr>"] opt_gpio.prems st
  show ?case by simp
qed simp_all


lemma setup_same:
  assumes "same_but_clock_debounce p q" "dummy_mode p"
  shows "setup' e q h w = setup' e p h w"
  using assms
  by (simp add: same_but_clock_debounce_def setup'_def setup_devices_def Let_def
      error_fifo_out_def)

lemma run_daemon_same:
  assumes "same_but_clock_debounce p q" "dummy_mode p"
  shows "run_daemon e sched q w = run_daemon e sched p w"
proof -
  have sh: "shutdown q = shutdown p"
    using assms by (intro ext) (simp add: same_but_clock_debounce_def shutdown_def)
  show ?thesis
    unfolding run_daemon_def setup_same[OF assms] sh by (rule refl)
qed

lemma setup_dummy_no_hardware:
  "dummy_mode p \<Longrightarrow>
   filter hardware_call (calls (snd (snd (setup' e p h w)))) = filter hardware_call (calls w)"
  by (rule setup_cases[where p = p and e = e]) (simp_all add: setup_by_case)

text \<open>The same arguments read from parameter blocks that agree but for the two fields:
  the same return value, the same output, and results that agree but for the two
  fields.\<close>

lemma pcl_clock_debounce:
  assumes "same_but_clock_debounce p0 q0"
    and "process_arguments e xs default_parameters world0 = (None, p0, world0)"
    and "process_arguments e xs' default_parameters world0 = (None, q0, world0)"
  shows "fst (process_command_line e (prog # xs' @ ys) world0)
       = fst (process_command_line e (prog # xs @ ys) world0)
    \<and> snd (snd (process_command_line e (prog # xs' @ ys) world0))
       = snd (snd (process_command_line e (prog # xs @ ys) world0))
    \<and> same_but_clock_debounce (fst (snd (process_command_line e (prog # xs @ ys) world0)))
        (fst (snd (process_command_line e (prog # xs' @ ys) world0)))"
proof -
  obtain r p' w' where a: "process_arguments e ys p0 world0 = (r, p', w')"
    by (cases "process_arguments e ys p0 world0")
  obtain r2 q' w2 where b: "process_arguments e ys q0 world0 = (r2, q', w2)"
    by (cases "process_arguments e ys q0 world0")
  from pa_clock_debounce[OF assms(1), of e ys world0] a b
  have "r2 = r" "w2 = w'" "same_but_clock_debounce p' q'" by simp_all
  then show ?thesis
    using a b pa_append[OF assms(2), of ys] pa_append[OF assms(3), of ys]
    by (cases r) (auto simp: process_command_line_def same_but_clock_debounce_def)
qed


text \<open>Claim C9. In dummy mode the SPI clock and the debouncing flag have no effect.
  \<^verbatim>\<open>setup\<close> makes no call that touches the SPI device or the GPIO, and \<^verbatim>\<open>setup\<close> and the
  whole run are the same for parameter blocks that differ in these two fields only. For
  a command line that is accepted and selects dummy mode, putting \<^verbatim>\<open>--debounce\<close>, or
  \<^verbatim>\<open>--spiclk\<close> with a numeral within range, between two of its options (or taking it
  away there) changes nothing in what \<^verbatim>\<open>main\<close> returns and in the calls it makes.\<close>

theorem dummy_mode_ignores_clock_and_debounce:
  assumes acc: "process_command_line e (prog # xs) world0 = (0, p1, w1)"
    and whole: "process_command_line e (prog # xs @ ys) world0 = (0, p, w)"
    and dummy: "dummy_mode p"
  shows "main e sched (prog # xs @ ''--debounce'' # ys) = main e sched (prog # xs @ ys)
    \<and> (decimal_numeral v \<and> decimal 0 v \<le> UINT32_MAX \<and> UINT32_MAX \<le> ulong_max e \<longrightarrow>
         main e sched (prog # xs @ ''--spiclk'' # v # ys) = main e sched (prog # xs @ ys))
    \<and> (same_but_clock_debounce p q \<longrightarrow>
         setup' e q h w' = setup' e p h w' \<and> run_daemon e sched q w' = run_daemon e sched p w')
    \<and> filter hardware_call (calls (snd (snd (setup' e p h w')))) = filter hardware_call (calls w')"
proof -
  from acc obtain p0 where
    pre: "process_arguments e xs default_parameters world0 = (None, p0, world0)"
    using pcl_continue_ex by blast
  have same: "main e sched (prog # xs' @ ys) = main e sched (prog # xs @ ys)"
    if q0: "process_arguments e xs' default_parameters world0 = (None, q0, world0)"
      and s: "same_but_clock_debounce p0 q0" for xs' q0
  proof -
    obtain r q u where b: "process_command_line e (prog # xs' @ ys) world0 = (r, q, u)"
      by (cases "process_command_line e (prog # xs' @ ys) world0")
    from pcl_clock_debounce[OF s pre q0, of prog ys] whole b
    have "r = 0" "same_but_clock_debounce p q" by simp_all
    with b main_accepted[of e "prog # xs' @ ys" q u sched] main_accepted[OF whole, of sched]
      run_daemon_same[OF _ dummy, of q e sched world0]
    show ?thesis by simp
  qed
  have deb: "main e sched (prog # xs @ ''--debounce'' # ys) = main e sched (prog # xs @ ys)"
    using same[of "xs @ [''--debounce'']" "p0\<lparr>gpio_needs_debouncing := True\<rparr>"] pa_append[OF pre]
    by (simp add: same_but_clock_debounce_def)
  have clk: "main e sched (prog # xs @ ''--spiclk'' # v # ys) = main e sched (prog # xs @ ys)"
    if "decimal_numeral v" "decimal 0 v \<le> UINT32_MAX" "UINT32_MAX \<le> ulong_max e"
    using same[of "xs @ [''--spiclk'', v]" "p0\<lparr>spi_clock := of_nat (decimal 0 v)\<rparr>"]
      pa_append[OF pre] pa_spiclk_numeral[OF that]
    by (simp add: same_but_clock_debounce_def del: pa_spiclk)
  from deb clk setup_same[OF _ dummy] run_daemon_same[OF _ dummy]
    setup_dummy_no_hardware[OF dummy]
  show ?thesis by blast
qed

theorem dummy_mode_ignores_clock_and_debounce_witness:
  "main env_ok [[], [SIGTERM]] [''dcpspi'', ''--fg'', ''--debounce'', ''--spidev'', ''-'']
     = main env_ok [[], [SIGTERM]] [''dcpspi'', ''--fg'', ''--spidev'', ''-'']
   \<and> main env_ok [[], [SIGTERM]] [''dcpspi'', ''--fg'', ''--spiclk'', ''1000'', ''--spidev'', ''-'']
     = main env_ok [[], [SIGTERM]] [''dcpspi'', ''--fg'', ''--spidev'', ''-'']
   \<and> fst (main env_ok [[], [SIGTERM]] [''dcpspi'', ''--fg'', ''--spidev'', ''-''])
     = Done EXIT_SUCCESS"
proof -
  have whole: "process_command_line env_ok ([''dcpspi''] @ [''--fg''] @ [''--spidev'', ''-'']) world0
     = (0, default_parameters\<lparr>run_in_foreground := True, spidev_name := ''-'',
           dummy_mode := True\<rparr>, world0)"
    by (simp add: process_command_line_def char_at_def)
  have ok: "fst (setup' env_ok (default_parameters\<lparr>run_in_foreground := True, spidev_name := ''-'',
           dummy_mode := True\<rparr>) (locals0 env_ok) world0) = 0"
    by (simp add: setup_daemonized setup_devices_dummy)
  have r: "fst (main env_ok [[], [SIGTERM]] [''dcpspi'', ''--fg'', ''--spidev'', ''-''])
     = Done EXIT_SUCCESS"
    using run_daemon_signalled[OF ok, of "[SIGTERM]" 1 "[]"] main_accepted[OF whole]
    by simp
  from dummy_mode_ignores_clock_and_debounce[OF pcl_fg[of env_ok "''dcpspi''"], of "[''--spidev'', ''-'']",
      where v = "''1000''" and sched = "[[], [SIGTERM]]"] whole numeral_1000 r
  show ?thesis by (simp add: UINT32_MAX_def)
qed

end
